theory Spec2Isabelle
  imports Complex_Main "HOL-Library.Sublist" "HOL-Library.Word"
begin

section \<open>Python values, strings and exceptions\<close>

text \<open>
  The program is Python, and the definitions below follow CPython 3.11. Its strings
  are modelled as \<^typ>\<open>string\<close>, a character being a code point below 256
  (Latin-1). Dictionaries are association lists read with \<^const>\<open>map_of\<close>
  (\<open>d.get(k)\<close>), in the order the source writes their keys.
\<close>

datatype pval = PStr string | PInt int | PNone

type_synonym pydict = "(string \<times> pval) list"

datatype exn =
    NoSuchElementException string
  | TimeoutException string
  | ConnectionRefusedError string
  | KeyError string
  | ValueError string
  | OverflowError string
  | AttributeError string
  | TypeError string
  | OSError string
  | OtherException string

text \<open>\<open>str(e)\<close>: a \<open>KeyError\<close> prints its key quoted, the others their message.\<close>

fun str_of_exn :: "exn \<Rightarrow> string" where
  "str_of_exn (NoSuchElementException m) = m"
| "str_of_exn (TimeoutException m) = m"
| "str_of_exn (ConnectionRefusedError m) = m"
| "str_of_exn (KeyError k) = [CHR 0x27] @ k @ [CHR 0x27]"
| "str_of_exn (ValueError m) = m"
| "str_of_exn (OverflowError m) = m"
| "str_of_exn (AttributeError m) = m"
| "str_of_exn (TypeError m) = m"
| "str_of_exn (OSError m) = m"
| "str_of_exn (OtherException m) = m"

text \<open>\<open>str.strip()\<close> removes the characters for which \<open>str.isspace\<close> holds.\<close>

definition py_isspace :: "char \<Rightarrow> bool" where
  "py_isspace c = (c \<in> set [CHR 0x09, CHR 0x0A, CHR 0x0B, CHR 0x0C, CHR 0x0D,
                            CHR 0x1C, CHR 0x1D, CHR 0x1E, CHR 0x1F, CHR '' '',
                            CHR 0x85, CHR 0xA0])"

definition py_strip :: "string \<Rightarrow> string" where
  "py_strip s = rev (dropWhile py_isspace (rev (dropWhile py_isspace s)))"

text \<open>
  The letters of Latin-1 that have a lower-case and an upper-case form in Latin-1,
  in matching order. The three other lower-case letters (\<open>0xB5\<close>, \<open>0xDF\<close> and
  \<open>0xFF\<close>) have an upper-case form outside Latin-1 or of two letters; \<open>upper\<close>
  leaves them as they are, which does not change the one use the program makes of
  it, the comparison with \<open>N/A\<close>.
\<close>

definition lower_letters :: string where
  "lower_letters = ''abcdefghijklmnopqrstuvwxyz'' @
     [CHR 0xE0, CHR 0xE1, CHR 0xE2, CHR 0xE3, CHR 0xE4, CHR 0xE5, CHR 0xE6,
      CHR 0xE7, CHR 0xE8, CHR 0xE9, CHR 0xEA, CHR 0xEB, CHR 0xEC, CHR 0xED,
      CHR 0xEE, CHR 0xEF, CHR 0xF0, CHR 0xF1, CHR 0xF2, CHR 0xF3, CHR 0xF4,
      CHR 0xF5, CHR 0xF6, CHR 0xF8, CHR 0xF9, CHR 0xFA, CHR 0xFB, CHR 0xFC,
      CHR 0xFD, CHR 0xFE]"

definition upper_letters :: string where
  "upper_letters = ''ABCDEFGHIJKLMNOPQRSTUVWXYZ'' @
     [CHR 0xC0, CHR 0xC1, CHR 0xC2, CHR 0xC3, CHR 0xC4, CHR 0xC5, CHR 0xC6,
      CHR 0xC7, CHR 0xC8, CHR 0xC9, CHR 0xCA, CHR 0xCB, CHR 0xCC, CHR 0xCD,
      CHR 0xCE, CHR 0xCF, CHR 0xD0, CHR 0xD1, CHR 0xD2, CHR 0xD3, CHR 0xD4,
      CHR 0xD5, CHR 0xD6, CHR 0xD8, CHR 0xD9, CHR 0xDA, CHR 0xDB, CHR 0xDC,
      CHR 0xDD, CHR 0xDE]"

definition char_upper :: "char \<Rightarrow> char" where
  "char_upper c = (case map_of (zip lower_letters upper_letters) c of Some u \<Rightarrow> u | None \<Rightarrow> c)"

definition char_lower :: "char \<Rightarrow> char" where
  "char_lower c = (case map_of (zip upper_letters lower_letters) c of Some l \<Rightarrow> l | None \<Rightarrow> c)"

definition py_upper :: "string \<Rightarrow> string" where
  "py_upper s = map char_upper s"

definition py_lower :: "string \<Rightarrow> string" where
  "py_lower s = map char_lower s"

text \<open>\<open>needle in hay\<close> on strings: a contiguous occurrence, searched left to right.\<close>

fun py_in :: "string \<Rightarrow> string \<Rightarrow> bool" where
  "py_in needle [] = (needle = [])"
| "py_in needle (c # cs) = (prefix needle (c # cs) \<or> py_in needle cs)"

text \<open>Decimal printing of integers, as \<open>str(n)\<close> and an f-string do.\<close>

fun digits_of_nat :: "nat \<Rightarrow> string" where
  "digits_of_nat n =
     (if n < 10 then [''0123456789'' ! n]
      else digits_of_nat (n div 10) @ [''0123456789'' ! (n mod 10)])"

declare digits_of_nat.simps [simp del]

definition str_of_int :: "int \<Rightarrow> string" where
  "str_of_int i = (if i < 0 then ''-'' @ digits_of_nat (nat (- i)) else digits_of_nat (nat i))"

fun py_str :: "pval \<Rightarrow> string" where
  "py_str (PStr s) = s"
| "py_str (PInt i) = str_of_int i"
| "py_str PNone = ''None''"

text \<open>
  \<open>repr(s)\<close> of a string: in double quotes when the string has an apostrophe and no
  double quote, in apostrophes otherwise; the quote in use and the backslash are
  escaped, and so is every character that is not printable.
\<close>

definition py_isprintable :: "char \<Rightarrow> bool" where
  "py_isprintable c =
     (let n = (of_char c :: nat) in 32 \<le> n \<and> n \<noteq> 127 \<and> \<not> (128 \<le> n \<and> n \<le> 160) \<and> n \<noteq> 173)"

definition hex_digits :: "nat \<Rightarrow> string" where
  "hex_digits n = [''0123456789abcdef'' ! (n div 16), ''0123456789abcdef'' ! (n mod 16)]"

definition repr_char :: "char \<Rightarrow> char \<Rightarrow> string" where
  "repr_char quote c =
     (if c = quote \<or> c = CHR 0x5C then [CHR 0x5C, c]
      else if c = CHR 0x09 then [CHR 0x5C, CHR ''t'']
      else if c = CHR 0x0A then [CHR 0x5C, CHR ''n'']
      else if c = CHR 0x0D then [CHR 0x5C, CHR ''r'']
      else if py_isprintable c then [c]
      else [CHR 0x5C, CHR ''x''] @ hex_digits (of_char c))"

definition py_repr :: "string \<Rightarrow> string" where
  "py_repr s =
     (let quote = (if CHR 0x27 \<in> set s \<and> CHR 0x22 \<notin> set s then CHR 0x22 else CHR 0x27)
      in [quote] @ concat (map (repr_char quote) s) @ [quote])"

text \<open>
  \<open>int(s)\<close> on a string. White space around the literal is skipped (the ASCII
  white space of C, and the other white space of Latin-1, which \<open>int\<close> first
  turns into blanks); then come an optional sign and decimal digits with single
  underscores between them. The run of digits and underscores is scanned first: a
  run of more than 4300 digits is refused before anything after it is looked at.
\<close>

definition int_isspace :: "char \<Rightarrow> bool" where
  "int_isspace c = (c \<in> set [CHR 0x09, CHR 0x0A, CHR 0x0B, CHR 0x0C, CHR 0x0D, CHR '' '',
                             CHR 0x85, CHR 0xA0])"

definition digit_value :: "char \<Rightarrow> nat option" where
  "digit_value c = map_of (zip ''0123456789'' [0, 1, 2, 3, 4, 5, 6, 7, 8, 9]) c"

definition in_digit_run :: "char \<Rightarrow> bool" where
  "in_digit_run c = (digit_value c \<noteq> None \<or> c = CHR ''_'')"

fun doubled_underscore :: "string \<Rightarrow> bool" where
  "doubled_underscore (a # b # cs) =
     ((a = CHR ''_'' \<and> b = CHR ''_'') \<or> doubled_underscore (b # cs))"
| "doubled_underscore cs = False"

fun digits_value :: "nat option list \<Rightarrow> nat \<Rightarrow> nat" where
  "digits_value [] acc = acc"
| "digits_value (Some d # ds) acc = digits_value ds (10 * acc + d)"
| "digits_value (None # ds) acc = digits_value ds acc"

datatype int_literal = Invalid_literal | Too_many_digits nat | Literal int

definition int_of_str :: "string \<Rightarrow> int_literal" where
  "int_of_str s =
     (let t = dropWhile int_isspace s;
          neg = (t \<noteq> [] \<and> hd t = CHR ''-'');
          body = (if t \<noteq> [] \<and> (hd t = CHR ''-'' \<or> hd t = CHR ''+'') then tl t else t);
          run = takeWhile in_digit_run body;
          rest = dropWhile in_digit_run body;
          digits = filter (\<lambda>c. c \<noteq> CHR ''_'') run
      in if run = [] \<or> hd run = CHR ''_'' \<or> last run = CHR ''_'' \<or> doubled_underscore run
         then Invalid_literal
         else if length digits > 4300 then Too_many_digits (length digits)
         else if dropWhile int_isspace rest \<noteq> [] then Invalid_literal
         else Literal (if neg then - int (digits_value (map digit_value digits) 0)
                       else int (digits_value (map digit_value digits) 0)))"

fun type_name :: "pval \<Rightarrow> string" where
  "type_name (PStr s) = ''str''"
| "type_name (PInt i) = ''int''"
| "type_name PNone = ''NoneType''"

fun py_int :: "pval \<Rightarrow> exn + int" where
  "py_int (PInt i) = Inr i"
| "py_int (PStr s) =
     (case int_of_str s of
        Literal i \<Rightarrow> Inr i
      | Too_many_digits n \<Rightarrow>
          Inl (ValueError (''Exceeds the limit (4300 digits) for integer string conversion: ''
                           @ ''value has '' @ str_of_int (int n) @ '' digits; use ''
                           @ ''sys.set_int_max_str_digits() to increase the limit''))
      | Invalid_literal \<Rightarrow>
          Inl (ValueError (''invalid literal for int() with base 10: ''
                           @ take 200 (py_repr s))))"
| "py_int PNone =
     Inl (TypeError
            (''int() argument must be a string, a bytes-like object or a real number, not ''
             @ [CHR 0x27] @ type_name PNone @ [CHR 0x27]))"

text \<open>\<open>v.strip()\<close> and \<open>v.startswith\<close> exist on strings only.\<close>

definition no_attribute :: "pval \<Rightarrow> string \<Rightarrow> exn" where
  "no_attribute v name =
     AttributeError ([CHR 0x27] @ type_name v @ [CHR 0x27] @ '' object has no attribute ''
                     @ [CHR 0x27] @ name @ [CHR 0x27])"

fun strip_val :: "pval \<Rightarrow> exn + string" where
  "strip_val (PStr s) = Inr (py_strip s)"
| "strip_val v = Inl (no_attribute v ''strip'')"

text \<open>\<open>d.get(k, default)\<close> and \<open>d[k]\<close>.\<close>

definition dict_get :: "pydict \<Rightarrow> string \<Rightarrow> pval \<Rightarrow> pval" where
  "dict_get d k dflt = (case map_of d k of Some v \<Rightarrow> v | None \<Rightarrow> dflt)"

definition dict_item :: "pydict \<Rightarrow> string \<Rightarrow> exn + pval" where
  "dict_item d k = (case map_of d k of Some v \<Rightarrow> Inr v | None \<Rightarrow> Inl (KeyError k))"

section \<open>The text locator: \<open>get_target_coordinates_ocr\<close>\<close>

text \<open>
  One row of \<open>pytesseract.image_to_data\<close>: the columns \<open>text\<close>, \<open>conf\<close>, \<open>left\<close>,
  \<open>top\<close>, \<open>width\<close>, \<open>height\<close> at one index. \<open>row_conf\<close> is the value of
  \<open>int(data['conf'][i])\<close>, \<open>None\<close> when that conversion raises (the source then
  takes 0).
\<close>

record ocr_row =
  row_text :: string
  row_conf :: "int option"
  row_left :: int
  row_top :: int
  row_width :: int
  row_height :: int

definition scanned_text :: "ocr_row \<Rightarrow> string" where
  "scanned_text r = py_strip (row_text r)"

definition scanned_conf :: "ocr_row \<Rightarrow> int" where
  "scanned_conf r = (case row_conf r of Some c \<Rightarrow> c | None \<Rightarrow> 0)"

definition row_matches :: "string \<Rightarrow> int \<Rightarrow> ocr_row \<Rightarrow> bool" where
  "row_matches target_text confidence_threshold r =
     (scanned_conf r > confidence_threshold
      \<and> py_in (py_lower target_text) (py_lower (scanned_text r)))"

definition box_center :: "ocr_row \<Rightarrow> int \<times> int" where
  "box_center r = (row_left r + row_width r div 2, row_top r + row_height r div 2)"

text \<open>The loop \<open>for i in range(num_boxes)\<close> over the rows, returning at the first match.\<close>

fun scan_rows :: "string \<Rightarrow> int \<Rightarrow> ocr_row list \<Rightarrow> (int \<times> int) option" where
  "scan_rows target_text confidence_threshold [] = None"
| "scan_rows target_text confidence_threshold (r # rs) =
     (if row_matches target_text confidence_threshold r then Some (box_center r)
      else scan_rows target_text confidence_threshold rs)"


section \<open>Proposed actions, the session and its trace\<close>

text \<open>
  A step is the dictionary \<open>{"action", "params", "dom", "coords"}\<close>. Every reader of
  \<open>params\<close> uses \<open>step.get("params", {})\<close> and the one reader of \<open>dom\<close> uses
  \<open>step.get("dom", "")\<close>, so an absent key is the empty dictionary and the empty
  string; \<open>step_coords\<close> is \<open>step.get("coords")\<close>.
\<close>

record step =
  step_action :: string
  step_params :: pydict
  step_dom :: string
  step_coords :: "pydict option"

datatype tier = Structural | Spatial | Optical | Descriptive

text \<open>
  The trace records, in order of occurrence: each \<open>time.sleep\<close> (milliseconds); each
  resolution tier of a click just before its call on the controller; what
  \<open>get_target_coordinates_ocr\<close> and \<open>click_by_coordinates\<close> returned to
  \<open>_execute_step\<close>; each \<open>_execute_step\<close> a caller ran, with its result; the
  start of each iteration of the orchestration loop, with its index; each
  increment of \<open>consecutive_failures\<close>, with the new value; and what
  \<open>_attempt_recovery\<close> returned to the loop.
\<close>

datatype event =
    Sleep int
  | Attempt tier
  | Located string "(int \<times> int) option"
  | Clicked_at pval pval pydict
  | Executed step pydict
  | Iteration nat
  | Failures nat
  | Recovery "pydict option"

record 'w st =
  world :: 'w
  trace :: "event list"
  connected :: bool
  client :: bool

type_synonym ('w, 'a) act = "'w st \<Rightarrow> (exn + 'a) \<times> 'w st"

definition ret :: "'a \<Rightarrow> ('w, 'a) act" where
  "ret x s = (Inr x, s)"

definition raise :: "exn \<Rightarrow> ('w, 'a) act" where
  "raise e s = (Inl e, s)"

definition bind :: "('w, 'a) act \<Rightarrow> ('a \<Rightarrow> ('w, 'b) act) \<Rightarrow> ('w, 'b) act" where
  "bind m f s = (case m s of (Inl e, s') \<Rightarrow> (Inl e, s') | (Inr x, s') \<Rightarrow> f x s')"

text \<open>\<open>try: m except Exception as e: h e\<close>; what \<open>m\<close> did before raising stays done.\<close>

definition try_catch :: "('w, 'a) act \<Rightarrow> (exn \<Rightarrow> ('w, 'a) act) \<Rightarrow> ('w, 'a) act" where
  "try_catch m h s = (case m s of (Inl e, s') \<Rightarrow> h e s' | (Inr x, s') \<Rightarrow> (Inr x, s'))"

definition of_sum :: "exn + 'a \<Rightarrow> ('w, 'a) act" where
  "of_sum r s = (r, s)"

definition emit :: "event \<Rightarrow> ('w, unit) act" where
  "emit ev s = (Inr (), s\<lparr>trace := trace s @ [ev]\<rparr>)"

subsection \<open>The external collaborators\<close>

datatype jsval = JBool bool | JNull | JInt int | JStr string

fun truthy :: "jsval \<Rightarrow> bool" where
  "truthy (JBool b) = b"
| "truthy JNull = False"
| "truthy (JInt i) = (i \<noteq> 0)"
| "truthy (JStr s) = (s \<noteq> [])"

datatype script =
    Script_scrollIntoView
  | Script_focus
  | Script_scrollTo_top
  | Script_clear_value
  | Script_set_value
  | Script_form_submit
  | Script_elementFromPoint_click

datatype jsarg = Arg_element nat | Arg_value pval

datatype keys = Keys_text pval | Keys_RETURN

text \<open>
  A node of \<open>document.querySelectorAll(selectors)\<close> as the script of
  \<open>get_dom_context\<close> reads it, and an entry of the list the script returns.
\<close>

record dom_node =
  node_tag :: string
  rect_width :: real
  rect_height :: real
  rect_top :: real
  rect_left :: real
  style_visibility :: string
  style_display :: string
  node_textContent :: "string option"
  attr_placeholder :: "string option"
  attr_aria_label :: "string option"
  attr_title :: "string option"
  node_id :: "string option"
  node_name :: "string option"
  node_className :: "string option"
  node_href :: "string option"

record element =
  el_tag :: string
  el_text :: string
  el_attributes :: "(string \<times> string option) list"
  el_top :: int
  el_left :: int

text \<open>
  The Marionette client, the OCR pipeline (screenshot, decoding,
  \<open>pytesseract.image_to_data\<close>) and the decision oracle are outside the program:
  each is a function of an abstract world that returns a value or raises.
  Elements are handles. \<open>os_monotonic_ns\<close> is the reading of the system's monotonic
  clock, in nanoseconds since boot; it is taken to fit 62 bits (a machine up for
  less than 146 years).
\<close>

record 'w env =
  drv_start_session :: "'w \<Rightarrow> (exn + unit) \<times> 'w"
  drv_navigate :: "string \<Rightarrow> 'w \<Rightarrow> (exn + unit) \<times> 'w"
  drv_wait_ready :: "'w \<Rightarrow> (exn + unit) \<times> 'w"
  drv_find_element :: "string \<Rightarrow> 'w \<Rightarrow> (exn + nat) \<times> 'w"
  drv_find_elements :: "string \<Rightarrow> 'w \<Rightarrow> (exn + nat list) \<times> 'w"
  drv_get_url :: "'w \<Rightarrow> (exn + string) \<times> 'w"
  drv_execute_script :: "script \<Rightarrow> jsarg list \<Rightarrow> 'w \<Rightarrow> (exn + jsval) \<times> 'w"
  drv_query_selector_all :: "'w \<Rightarrow> (exn + dom_node list) \<times> 'w"
  element_click :: "nat \<Rightarrow> 'w \<Rightarrow> (exn + unit) \<times> 'w"
  element_clear :: "nat \<Rightarrow> 'w \<Rightarrow> (exn + unit) \<times> 'w"
  element_send_keys :: "nat \<Rightarrow> keys \<Rightarrow> 'w \<Rightarrow> (exn + unit) \<times> 'w"
  element_text :: "nat \<Rightarrow> 'w \<Rightarrow> (exn + string) \<times> 'w"
  element_get_attribute :: "nat \<Rightarrow> string \<Rightarrow> 'w \<Rightarrow> (exn + string option) \<times> 'w"
  ocr_image_to_data :: "'w \<Rightarrow> (exn + ocr_row list) \<times> 'w"
  parser_get_next_step ::
    "string \<Rightarrow> element list \<Rightarrow> pydict list \<Rightarrow> 'w \<Rightarrow> (exn + step option) \<times> 'w"
  os_monotonic_ns :: "'w \<Rightarrow> 62 word"

text \<open>A call on an element, and a call on \<open>self.client\<close>, which is \<open>None\<close> before \<open>connect\<close>.\<close>

definition call :: "('w \<Rightarrow> (exn + 'a) \<times> 'w) \<Rightarrow> ('w, 'a) act" where
  "call f s = (case f (world s) of (r, w') \<Rightarrow> (r, s\<lparr>world := w'\<rparr>))"

definition on_client :: "string \<Rightarrow> ('w \<Rightarrow> (exn + 'a) \<times> 'w) \<Rightarrow> ('w, 'a) act" where
  "on_client name f s =
     (if client s then call f s else raise (no_attribute PNone name) s)"

text \<open>
  \<open>time.sleep\<close> of a duration in milliseconds. CPython turns the duration into a
  signed 64-bit count of nanoseconds and raises \<open>OverflowError\<close> when it does not
  fit; it raises \<open>ValueError\<close> for a negative duration; then it adds the duration
  to the reading of the monotonic clock, in 64 bits, and hands that deadline to
  \<open>clock_nanosleep\<close>: a sum beyond \<open>2\<^sup>6\<^sup>3 - 1\<close> is a negative deadline, which the
  system call refuses (\<open>OSError\<close>, \<open>EINVAL\<close>).
\<close>

definition time_sleep :: "'w env \<Rightarrow> int \<Rightarrow> ('w, unit) act" where
  "time_sleep E ms s =
     (let ns = ms * 1000000
      in if ns > 9223372036854775807 \<or> ns < - 9223372036854775808
         then raise (OverflowError ''timestamp too large to convert to C _PyTime_t'') s
         else if ns < 0 then raise (ValueError ''sleep length must be non-negative'') s
         else if uint (os_monotonic_ns E (world s)) + ns > 9223372036854775807
         then raise (OSError ''[Errno 22] Invalid argument'') s
         else emit (Sleep ms) s)"

subsection \<open>The controller\<close>

text \<open>\<open>get_target_coordinates_ocr\<close>: any failure of the pipeline yields the empty result.\<close>

definition get_target_coordinates_ocr ::
  "'w env \<Rightarrow> string \<Rightarrow> int \<Rightarrow> ('w, (int \<times> int) option) act" where
  "get_target_coordinates_ocr E target_text confidence_threshold =
     try_catch
       (bind (on_client ''screenshot'' (ocr_image_to_data E))
          (\<lambda>data. ret (scan_rows target_text confidence_threshold data)))
       (\<lambda>e. ret None)"

text \<open>
  \<open>get_dom_context\<close> runs a script in the page. \<open>drv_query_selector_all\<close> stands for
  the browser's part of it (the nodes matching the selector list, in document order,
  with the properties the script reads); the rest of the script is below.
  \<open>trim\<close> removes JavaScript's white space.
\<close>

definition js_isspace :: "char \<Rightarrow> bool" where
  "js_isspace c = (c \<in> set [CHR 0x09, CHR 0x0A, CHR 0x0B, CHR 0x0C, CHR 0x0D, CHR '' '',
                            CHR 0xA0])"

definition js_trim :: "string \<Rightarrow> string" where
  "js_trim s = rev (dropWhile js_isspace (rev (dropWhile js_isspace s)))"

text \<open>A string or \<open>null\<close> in a boolean position, and \<open>v || null\<close>.\<close>

fun js_truthy :: "string option \<Rightarrow> bool" where
  "js_truthy None = False"
| "js_truthy (Some v) = (v \<noteq> [])"

definition or_null :: "string option \<Rightarrow> string option" where
  "or_null v = (if js_truthy v then v else None)"

text \<open>\<open>Math.round\<close>: the nearest integer, a half rounded up.\<close>

definition js_round :: "real \<Rightarrow> int" where
  "js_round x = \<lfloor>x + 1 / 2\<rfloor>"

text \<open>\<open>xs.slice(0, n)\<close>: a negative \<open>n\<close> counts from the end.\<close>

definition js_slice0 :: "'a list \<Rightarrow> int \<Rightarrow> 'a list" where
  "js_slice0 xs n = (if n < 0 then take (nat (int (length xs) + n)) xs else take (nat n) xs)"

definition is_visible_candidate :: "dom_node \<Rightarrow> bool" where
  "is_visible_candidate el =
     (let isVisible = (rect_width el > 0 \<and> rect_height el > 0
                       \<and> style_visibility el \<noteq> ''hidden''
                       \<and> style_display el \<noteq> ''none'');
          textPresent = (case node_textContent el of
                           None \<Rightarrow> False
                         | Some t \<Rightarrow> t \<noteq> [] \<and> length (js_trim t) > 0);
          hasAttributes = (js_truthy (attr_placeholder el) \<or> js_truthy (attr_aria_label el)
                           \<or> js_truthy (node_id el) \<or> js_truthy (node_href el))
      in isVisible \<and> (textPresent \<or> hasAttributes))"

definition tag_priority :: "string \<Rightarrow> nat" where
  "tag_priority tag =
     (if tag = ''input'' \<or> tag = ''button'' then 1 else if tag = ''a'' then 2 else 3)"

definition priority :: "dom_node \<Rightarrow> nat" where
  "priority el = tag_priority (py_lower (node_tag el))"

definition simplified :: "dom_node \<Rightarrow> element" where
  "simplified el =
     (let textContent = (case node_textContent el of
                           None \<Rightarrow> []
                         | Some t \<Rightarrow> if t = [] then [] else js_trim t);
          textContent = (if length textContent > 100 then take 100 textContent @ ''...''
                         else textContent)
      in \<lparr>el_tag = py_lower (node_tag el),
          el_text = textContent,
          el_attributes =
            [(''id'', or_null (node_id el)),
             (''name'', or_null (node_name el)),
             (''class'', or_null (node_className el)),
             (''placeholder'', or_null (attr_placeholder el)),
             (''aria-label'', or_null (attr_aria_label el)),
             (''href'', or_null (node_href el)),
             (''title'', or_null (attr_title el))],
          el_top = js_round (rect_top el),
          el_left = js_round (rect_left el)\<rparr>)"

text \<open>
  \<open>Array.prototype.sort\<close> with the comparator \<open>priority(a) - priority(b)\<close> is a
  stable sort by priority.
\<close>

definition getInteractiveElements :: "dom_node list \<Rightarrow> int \<Rightarrow> element list" where
  "getInteractiveElements allElements maxElements =
     (let visibleElements = filter is_visible_candidate allElements;
          visibleElements = sort_key priority visibleElements
      in map simplified (js_slice0 visibleElements maxElements))"

text \<open>The script's last line, \<open>getInteractiveElements(arguments[0] || 200)\<close>.\<close>

definition dom_context_script :: "dom_node list \<Rightarrow> int \<Rightarrow> element list" where
  "dom_context_script allElements max_elements =
     getInteractiveElements allElements (if max_elements = 0 then 200 else max_elements)"

definition get_dom_context :: "'w env \<Rightarrow> int \<Rightarrow> ('w, element list) act" where
  "get_dom_context E max_elements =
     try_catch
       (bind (on_client ''execute_script'' (drv_query_selector_all E))
          (\<lambda>allElements. ret (dom_context_script allElements max_elements)))
       (\<lambda>e. ret [])"

text \<open>The priority bucket of a returned element: 1 input or button, 2 link, 3 other.\<close>

definition bucket :: "element \<Rightarrow> nat" where
  "bucket e = tag_priority (el_tag e)"

text \<open>The result dictionaries \<open>{"status": ..., "message": ...}\<close>.\<close>

definition outcome :: "string \<Rightarrow> string \<Rightarrow> pydict" where
  "outcome status message = [(''status'', PStr status), (''message'', PStr message)]"

definition success :: "string \<Rightarrow> pydict" where
  "success message = outcome ''success'' message"

definition error :: "string \<Rightarrow> pydict" where
  "error message = outcome ''error'' message"

definition controller_connect :: "'w env \<Rightarrow> ('w, pydict) act" where
  "controller_connect E =
     try_catch
       (bind (\<lambda>s. (Inr (), s\<lparr>client := True\<rparr>))
          (\<lambda>_. bind (call (drv_start_session E))
          (\<lambda>_. ret (success ''Connected to Firefox''))))
       (\<lambda>e. case e of
          ConnectionRefusedError m \<Rightarrow>
            ret (error ''Connection refused. Make sure Firefox is running with Marionette enabled.'')
        | _ \<Rightarrow> ret (error (''Error connecting to Firefox Marionette: '' @ str_of_exn e)))"

definition navigate :: "'w env \<Rightarrow> pval \<Rightarrow> ('w, pydict) act" where
  "navigate E url =
     (case url of
        PStr u \<Rightarrow>
          (let u' = (if prefix ''http://'' u \<or> prefix ''https://'' u then u else ''https://'' @ u)
           in try_catch
                (bind (on_client ''navigate'' (drv_navigate E u'))
                   (\<lambda>_. bind (call (drv_wait_ready E))
                   (\<lambda>_. ret (success (''Navigated to '' @ u')))))
                (\<lambda>e. case e of
                   TimeoutException m \<Rightarrow> ret (error (''Timeout while navigating to '' @ u'))
                 | _ \<Rightarrow> ret (error (''Navigation failed: '' @ str_of_exn e))))
      | _ \<Rightarrow> ret (error (''Navigation failed: '' @ str_of_exn (no_attribute url ''startswith''))))"

definition find_element :: "'w env \<Rightarrow> string \<Rightarrow> ('w, nat option) act" where
  "find_element E selector =
     try_catch
       (bind (on_client ''find_element'' (drv_find_element E selector))
          (\<lambda>element. ret (Some element)))
       (\<lambda>e. ret None)"

definition click :: "'w env \<Rightarrow> string \<Rightarrow> ('w, pydict) act" where
  "click E selector =
     try_catch
       (bind (find_element E selector)
          (\<lambda>found. case found of
             None \<Rightarrow> ret (error (''Element not found: '' @ selector))
           | Some element \<Rightarrow>
               bind (on_client ''execute_script''
                       (drv_execute_script E Script_scrollIntoView [Arg_element element]))
                 (\<lambda>_. bind (time_sleep E 1000)
                 (\<lambda>_. bind (call (element_click E element))
                 (\<lambda>_. ret (success (''Clicked element: '' @ selector)))))))
       (\<lambda>e. ret (error (''Click failed: '' @ str_of_exn e)))"

definition input_text :: "'w env \<Rightarrow> string \<Rightarrow> pval \<Rightarrow> ('w, pydict) act" where
  "input_text E selector text =
     try_catch
       (bind (find_element E selector)
          (\<lambda>found. case found of
             None \<Rightarrow> ret (error (''Element not found: '' @ selector))
           | Some element \<Rightarrow>
               bind (call (element_clear E element))
                 (\<lambda>_. bind (call (element_send_keys E element (Keys_text text)))
                 (\<lambda>_. ret (success (''Entered text in element: '' @ selector))))))
       (\<lambda>e. ret (error (''Text input failed: '' @ str_of_exn e)))"

text \<open>\<open>extract\<close> (the name is taken in Isabelle).\<close>

definition extract_text :: "'w env \<Rightarrow> string \<Rightarrow> ('w, pydict) act" where
  "extract_text E selector =
     try_catch
       (bind (find_element E selector)
          (\<lambda>found. case found of
             None \<Rightarrow> ret (error (''Element not found: '' @ selector))
           | Some element \<Rightarrow>
               bind (call (element_text E element))
                 (\<lambda>text. ret (success ''Extracted content'' @ [(''data'', PStr text)]))))
       (\<lambda>e. ret (error (''Extraction failed: '' @ str_of_exn e)))"

definition click_by_coordinates :: "'w env \<Rightarrow> pval \<Rightarrow> pval \<Rightarrow> ('w, pydict) act" where
  "click_by_coordinates E x y =
     try_catch
       (bind (on_client ''execute_script''
                (drv_execute_script E Script_elementFromPoint_click [Arg_value x, Arg_value y]))
          (\<lambda>result.
             if truthy result
             then ret (success (''Clicked at coordinates ('' @ py_str x @ '', '' @ py_str y @ '')''))
             else ret (error (''No element found at coordinates ('' @ py_str x @ '', ''
                              @ py_str y @ '')''))))
       (\<lambda>e. ret (error (''Click by coordinates failed: '' @ str_of_exn e)))"

subsection \<open>The controller's generic search\<close>

definition search_selectors :: "string list" where
  "search_selectors =
     [''input[name='' @ [CHR 0x27] @ ''q'' @ [CHR 0x27] @ '']'',
      ''input[type='' @ [CHR 0x27] @ ''search'' @ [CHR 0x27] @ '']'',
      ''input[placeholder*='' @ [CHR 0x27] @ ''search'' @ [CHR 0x27] @ '' i]'',
      ''input[aria-label*='' @ [CHR 0x27] @ ''search'' @ [CHR 0x27] @ '' i]'',
      ''.search-input'',
      ''textarea[name='' @ [CHR 0x27] @ ''q'' @ [CHR 0x27] @ '']'',
      ''#search'',
      ''[name='' @ [CHR 0x27] @ ''s'' @ [CHR 0x27] @ '']'',
      ''[name='' @ [CHR 0x27] @ ''search'' @ [CHR 0x27] @ '']'',
      ''input[name='' @ [CHR 0x27] @ ''query'' @ [CHR 0x27] @ '']'',
      ''[role='' @ [CHR 0x27] @ ''search'' @ [CHR 0x27] @ ''] input[type='' @ [CHR 0x27]
        @ ''text'' @ [CHR 0x27] @ '']'',
      ''[role='' @ [CHR 0x27] @ ''search'' @ [CHR 0x27] @ ''] input:not([type='' @ [CHR 0x27]
        @ ''submit'' @ [CHR 0x27] @ ''])'',
      ''form input[type='' @ [CHR 0x27] @ ''text'' @ [CHR 0x27] @ '']'']"

definition button_selectors :: "string list" where
  "button_selectors =
     [''button[type='' @ [CHR 0x27] @ ''submit'' @ [CHR 0x27] @ '']'',
      ''input[type='' @ [CHR 0x27] @ ''submit'' @ [CHR 0x27] @ '']'',
      ''.search-button'',
      ''[aria-label*='' @ [CHR 0x27] @ ''search'' @ [CHR 0x27] @ '' i]'',
      ''button[name='' @ [CHR 0x27] @ ''btnK'' @ [CHR 0x27] @ '']'',
      ''#search-button'',
      ''form button'',
      ''button:contains('' @ [CHR 0x27] @ ''Search'' @ [CHR 0x27] @ '')'']"

text \<open>The inner loop over the elements a selector found: the first that is no submit or button.\<close>

fun first_text_input :: "'w env \<Rightarrow> nat list \<Rightarrow> ('w, nat option) act" where
  "first_text_input E [] = ret None"
| "first_text_input E (element # elements) =
     bind (call (element_get_attribute E element ''type''))
       (\<lambda>element_type.
          if element_type \<noteq> Some ''submit'' \<and> element_type \<noteq> Some ''button''
          then ret (Some element)
          else first_text_input E elements)"

text \<open>The loop over \<open>search_selectors\<close>; a selector that raises is skipped.\<close>

fun find_search_input :: "'w env \<Rightarrow> string list \<Rightarrow> ('w, (nat \<times> string) option) act" where
  "find_search_input E [] = ret None"
| "find_search_input E (selector # selectors) =
     bind (try_catch
             (bind (on_client ''find_elements'' (drv_find_elements E selector))
                (first_text_input E))
             (\<lambda>e. ret None))
       (\<lambda>search_input. case search_input of
          Some element \<Rightarrow> ret (Some (element, selector))
        | None \<Rightarrow> find_search_input E selectors)"

text \<open>The loop over \<open>button_selectors\<close>: click the first button found, then stop.\<close>

fun click_search_button :: "'w env \<Rightarrow> string list \<Rightarrow> ('w, unit) act" where
  "click_search_button E [] = ret ()"
| "click_search_button E (button_selector # selectors) =
     bind (try_catch
             (bind (on_client ''find_elements'' (drv_find_elements E button_selector))
                (\<lambda>buttons. case buttons of
                   [] \<Rightarrow> ret False
                 | b # _ \<Rightarrow> bind (call (element_click E b)) (\<lambda>_. ret True)))
             (\<lambda>e. ret False))
       (\<lambda>clicked. if clicked then ret () else click_search_button E selectors)"

definition focus_search_input :: "'w env \<Rightarrow> nat \<Rightarrow> ('w, unit) act" where
  "focus_search_input E search_input =
     try_catch
       (bind (on_client ''execute_script''
                (drv_execute_script E Script_focus [Arg_element search_input]))
          (\<lambda>_. ret ()))
       (\<lambda>e. try_catch
               (bind (on_client ''execute_script''
                        (drv_execute_script E Script_scrollTo_top [Arg_element search_input]))
                  (\<lambda>_. ret ()))
               (\<lambda>e2. ret ()))"

definition clear_search_input :: "'w env \<Rightarrow> nat \<Rightarrow> ('w, unit) act" where
  "clear_search_input E search_input =
     try_catch
       (call (element_clear E search_input))
       (\<lambda>clear_error. try_catch
               (bind (on_client ''execute_script''
                        (drv_execute_script E Script_clear_value [Arg_element search_input]))
                  (\<lambda>_. ret ()))
               (\<lambda>js_error. ret ()))"

text \<open>Typing and submitting return a result only where the source returns early.\<close>

definition enter_search_query :: "'w env \<Rightarrow> nat \<Rightarrow> pval \<Rightarrow> ('w, pydict option) act" where
  "enter_search_query E search_input query =
     try_catch
       (bind (call (element_send_keys E search_input (Keys_text query))) (\<lambda>_. ret None))
       (\<lambda>input_error. try_catch
               (bind (on_client ''execute_script''
                        (drv_execute_script E Script_set_value
                           [Arg_element search_input, Arg_value query]))
                  (\<lambda>_. ret None))
               (\<lambda>js_input_error.
                  ret (Some (error (''Could not enter search query: ''
                                    @ str_of_exn js_input_error)))))"

definition submit_search_query :: "'w env \<Rightarrow> nat \<Rightarrow> ('w, pydict option) act" where
  "submit_search_query E search_input =
     try_catch
       (bind (call (element_send_keys E search_input Keys_RETURN)) (\<lambda>_. ret None))
       (\<lambda>submit_error. try_catch
               (bind (click_search_button E button_selectors) (\<lambda>_. ret None))
               (\<lambda>find_button_error. try_catch
                  (bind (on_client ''execute_script''
                           (drv_execute_script E Script_form_submit [Arg_element search_input]))
                     (\<lambda>_. ret None))
                  (\<lambda>js_submit_error.
                     ret (Some (error (''Could not submit search: ''
                                       @ str_of_exn js_submit_error))))))"

definition search :: "'w env \<Rightarrow> pval \<Rightarrow> ('w, pydict) act" where
  "search E query =
     try_catch
       (bind (on_client ''get_url'' (drv_get_url E))
          (\<lambda>current_url. bind (find_search_input E search_selectors)
          (\<lambda>found. case found of
             None \<Rightarrow> ret (error (''Could not find search box on '' @ current_url))
           | Some (search_input, used_selector) \<Rightarrow>
               bind (focus_search_input E search_input)
                 (\<lambda>_. bind (clear_search_input E search_input)
                 (\<lambda>_. bind (enter_search_query E search_input query)
                 (\<lambda>entered. case entered of
                    Some failure \<Rightarrow> ret failure
                  | None \<Rightarrow>
                      bind (submit_search_query E search_input)
                        (\<lambda>submitted. case submitted of
                           Some failure \<Rightarrow> ret failure
                         | None \<Rightarrow>
                             bind (time_sleep E 3000)
                               (\<lambda>_. ret (success (''Performed search for: '' @ py_str query)
                                           @ [(''details'',
                                               PStr (''Used selector: '' @ used_selector))])))))))))
       (\<lambda>e. ret (error (''Search failed: '' @ str_of_exn e)))"

section \<open>The executor\<close>

text \<open>\<open>dom_selector and dom_selector.upper() != "N/A"\<close>.\<close>

definition use_dom_selector :: "string \<Rightarrow> bool" where
  "use_dom_selector dom_selector = (dom_selector \<noteq> [] \<and> py_upper dom_selector \<noteq> ''N/A'')"

text \<open>\<open>params.get("selector", "").strip()\<close>.\<close>

definition descriptive_text :: "pydict \<Rightarrow> exn + string" where
  "descriptive_text params = strip_val (dict_get params ''selector'' (PStr []))"

text \<open>\<open>coords and "x" in coords and "y" in coords\<close>, with the two values.\<close>

definition coords_xy :: "pydict option \<Rightarrow> (pval \<times> pval) option" where
  "coords_xy coords =
     (case coords of
        None \<Rightarrow> None
      | Some c \<Rightarrow>
          (case (map_of c ''x'', map_of c ''y'') of
             (Some x, Some y) \<Rightarrow> Some (x, y)
           | _ \<Rightarrow> None))"

text \<open>Tier 1 of a click: the result to return at once, if any.\<close>

definition click_structural :: "'w env \<Rightarrow> string \<Rightarrow> ('w, pydict option) act" where
  "click_structural E dom_selector =
     (if use_dom_selector dom_selector then
        bind (emit (Attempt Structural))
          (\<lambda>_. try_catch
                  (bind (click E dom_selector)
                     (\<lambda>result. bind (of_sum (dict_item result ''status''))
                     (\<lambda>status. if status = PStr ''success'' then ret (Some result)
                                else ret None)))
                  (\<lambda>click_exception. ret None))
      else ret None)"

text \<open>Tier 3 of a click: the result to return at once, if the OCR located the text.\<close>

definition click_optical :: "'w env \<Rightarrow> string \<Rightarrow> ('w, pydict option) act" where
  "click_optical E target_text =
     (if target_text \<noteq> [] then
        bind (emit (Attempt Optical))
          (\<lambda>_. bind (get_target_coordinates_ocr E target_text 60)
          (\<lambda>ocr_coords. bind (emit (Located target_text ocr_coords))
          (\<lambda>_. case ocr_coords of
                  Some (x, y) \<Rightarrow>
                    bind (click_by_coordinates E (PInt x) (PInt y))
                      (\<lambda>result. bind (emit (Clicked_at (PInt x) (PInt y) result))
                      (\<lambda>_. ret (Some result)))
                | None \<Rightarrow> ret None)))
      else ret None)"

text \<open>Tier 4 of a click.\<close>

definition click_descriptive :: "'w env \<Rightarrow> string \<Rightarrow> ('w, pydict) act" where
  "click_descriptive E fallback_selector =
     (if fallback_selector \<noteq> [] then
        bind (emit (Attempt Descriptive)) (\<lambda>_. click E fallback_selector)
      else ret (error ''No valid selector provided for click action.''))"

definition execute_click ::
  "'w env \<Rightarrow> pydict \<Rightarrow> string \<Rightarrow> pydict option \<Rightarrow> ('w, pydict) act" where
  "execute_click E params dom_selector coords =
     bind (click_structural E dom_selector)
       (\<lambda>structural. case structural of
          Some result \<Rightarrow> ret result
        | None \<Rightarrow>
            (case coords_xy coords of
               Some (x, y) \<Rightarrow>
                 bind (emit (Attempt Spatial))
                   (\<lambda>_. bind (click_by_coordinates E x y)
                   (\<lambda>result. bind (emit (Clicked_at x y result))
                   (\<lambda>_. ret result)))
             | None \<Rightarrow>
                 bind (of_sum (descriptive_text params))
                   (\<lambda>target_text. bind (click_optical E target_text)
                   (\<lambda>optical. case optical of
                      Some result \<Rightarrow> ret result
                    | None \<Rightarrow>
                        bind (of_sum (descriptive_text params))
                          (click_descriptive E)))))"

text \<open>The selector of \<open>input\<close> and \<open>extract\<close>.\<close>

definition choose_selector :: "pydict \<Rightarrow> string \<Rightarrow> exn + string" where
  "choose_selector params dom_selector =
     (if use_dom_selector dom_selector then Inr dom_selector else descriptive_text params)"

text \<open>The body of the \<open>try\<close> in \<open>_execute_step\<close>: the dispatch on the action.\<close>

definition run_action ::
  "'w env \<Rightarrow> string \<Rightarrow> pydict \<Rightarrow> string \<Rightarrow> pydict option \<Rightarrow> ('w, pydict) act" where
  "run_action E action params dom_selector coords =
     (if action = ''navigate'' then
        bind (of_sum (dict_item params ''url'')) (navigate E)
      else if action = ''click'' then
        execute_click E params dom_selector coords
      else if action = ''search'' then
        bind (of_sum (dict_item params ''query'')) (search E)
      else if action = ''input'' then
        bind (of_sum (choose_selector params dom_selector))
          (\<lambda>selector. bind (of_sum (dict_item params ''text''))
          (\<lambda>text. input_text E selector text))
      else if action = ''extract'' then
        bind (of_sum (choose_selector params dom_selector)) (extract_text E)
      else if action = ''wait'' then
        bind (of_sum (py_int (dict_get params ''seconds'' (PInt 2))))
          (\<lambda>seconds. bind (time_sleep E (1000 * seconds))
          (\<lambda>_. ret (success (''Waited '' @ str_of_int seconds @ '' seconds''))))
      else if action = ''complete'' then
        ret (success ''Task completed successfully'')
      else
        ret (error (''Unknown action: '' @ action)))"

definition execute_step :: "'w env \<Rightarrow> step \<Rightarrow> ('w, pydict) act" where
  "execute_step E step =
     (let action = step_action step;
          params = step_params step;
          dom_selector = py_strip (step_dom step);
          coords = step_coords step
      in try_catch
           (run_action E action params dom_selector coords)
           (\<lambda>e. ret (error (''Error executing '' @ action @ '': '' @ str_of_exn e))))"

subsection \<open>The recovery policy\<close>

text \<open>\<open>needle in error_msg\<close>, which raises on a message that is no string.\<close>

fun msg_contains :: "string \<Rightarrow> pval \<Rightarrow> exn + bool" where
  "msg_contains needle (PStr m) = Inr (py_in needle m)"
| "msg_contains needle v =
     Inl (TypeError (''argument of type '' @ [CHR 0x27] @ type_name v @ [CHR 0x27]
                     @ '' is not iterable''))"

definition nav_step :: step where
  "nav_step = \<lparr>step_action = ''navigate'',
               step_params = [(''url'', PStr ''https://www.google.com'')],
               step_dom = [], step_coords = None\<rparr>"

text \<open>Case 1: wait, then retry the same step; only a successful retry is returned.\<close>

definition recover_not_found ::
  "'w env \<Rightarrow> step \<Rightarrow> pval \<Rightarrow> ('w, pydict option) act" where
  "recover_not_found E failed_step error_msg =
     bind (of_sum (msg_contains ''not found'' error_msg))
       (\<lambda>not_found.
          if not_found \<and> step_action failed_step \<in> set [''click'', ''input'', ''extract''] then
            bind (time_sleep E 3000)
              (\<lambda>_. bind (execute_step E failed_step)
              (\<lambda>retry_result. bind (emit (Executed failed_step retry_result))
              (\<lambda>_. bind (of_sum (dict_item retry_result ''status''))
              (\<lambda>status. if status = PStr ''success'' then ret (Some retry_result)
                         else ret None))))
          else ret None)"

text \<open>Case 2: on the first step, open the search engine, then retry the search.\<close>

definition recover_search ::
  "'w env \<Rightarrow> step \<Rightarrow> pval \<Rightarrow> nat \<Rightarrow> ('w, pydict option) act" where
  "recover_search E failed_step error_msg step_index =
     bind (if step_action failed_step = ''search''
           then bind (of_sum (msg_contains ''search box'' error_msg))
                  (\<lambda>search_box. ret (search_box \<and> step_index = 0))
           else ret False)
       (\<lambda>applies.
          if applies then
            bind (execute_step E nav_step)
              (\<lambda>nav_result. bind (emit (Executed nav_step nav_result))
              (\<lambda>_. bind (of_sum (dict_item nav_result ''status''))
              (\<lambda>status.
                 if status = PStr ''success'' then
                   bind (execute_step E failed_step)
                     (\<lambda>result. bind (emit (Executed failed_step result))
                     (\<lambda>_. ret (Some result)))
                 else ret None)))
          else ret None)"

definition attempt_recovery ::
  "'w env \<Rightarrow> step \<Rightarrow> pydict \<Rightarrow> nat \<Rightarrow> ('w, pydict option) act" where
  "attempt_recovery E failed_step error_result step_index =
     (let error_msg = dict_get error_result ''message'' (PStr [])
      in bind (recover_not_found E failed_step error_msg)
           (\<lambda>retried. case retried of
              Some retry_result \<Rightarrow> ret (Some retry_result)
            | None \<Rightarrow> recover_search E failed_step error_msg step_index))"

subsection \<open>The orchestration loop\<close>

definition executor_connect :: "'w env \<Rightarrow> ('w, pydict) act" where
  "executor_connect E s =
     (if \<not> connected s then
        bind (controller_connect E)
          (\<lambda>result. bind (of_sum (dict_item result ''status''))
          (\<lambda>status. bind (\<lambda>s'. (Inr (), s'\<lparr>connected := (status = PStr ''success'')\<rparr>))
          (\<lambda>_. ret result))) s
      else ret (success ''Already connected'') s)"

definition max_steps :: nat where
  "max_steps = 15"

definition max_failures :: nat where
  "max_failures = 3"

text \<open>How one iteration leaves the loop body: by \<open>break\<close>, or on to the next index.\<close>

datatype loop_ctl = Break "pydict list" | Continue "pydict list" nat

text \<open>\<open>self.controller.client.get_url() if self.controller.client else "Not connected"\<close>.\<close>

definition current_url_or_not_connected :: "'w env \<Rightarrow> ('w, string) act" where
  "current_url_or_not_connected E s =
     (if client s then call (drv_get_url E) s else ret ''Not connected'' s)"

text \<open>\<open>if recovered:\<close> holds for a dictionary that is not empty.\<close>

fun recovered_result :: "pydict option \<Rightarrow> pydict option" where
  "recovered_result None = None"
| "recovered_result (Some d) = (if d = [] then None else Some d)"

definition handle_failure ::
  "'w env \<Rightarrow> step \<Rightarrow> pydict \<Rightarrow> nat \<Rightarrow> pydict list \<Rightarrow> nat \<Rightarrow> ('w, loop_ctl) act" where
  "handle_failure E next_step result i results consecutive_failures =
     bind (emit (Failures consecutive_failures))
       (\<lambda>_. if consecutive_failures < max_failures then
               bind (attempt_recovery E next_step result i)
                 (\<lambda>recovered. bind (emit (Recovery recovered))
                 (\<lambda>_. case recovered_result recovered of
                    Some r \<Rightarrow>
                      bind (time_sleep E 1500)
                        (\<lambda>_. ret (Continue (results[length results - 1 := r]) 0))
                  | None \<Rightarrow> ret (Continue results consecutive_failures)))
             else ret (Break results))"

definition loop_iteration ::
  "'w env \<Rightarrow> string \<Rightarrow> nat \<Rightarrow> pydict list \<Rightarrow> nat \<Rightarrow> ('w, loop_ctl) act" where
  "loop_iteration E command_text i results consecutive_failures =
     bind (emit (Iteration i))
       (\<lambda>_. bind (get_dom_context E 200)
       (\<lambda>dom_context. bind (current_url_or_not_connected E)
       (\<lambda>current_url. bind (call (parser_get_next_step E command_text dom_context results))
       (\<lambda>answer. case answer of
          None \<Rightarrow> ret (Break results)
        | Some next_step \<Rightarrow>
            if step_action next_step = ''complete'' then
              ret (Break (results @
                     [[(''status'', PStr ''success''),
                       (''message'', dict_get (step_params next_step) ''message''
                                        (PStr ''Task completed''))]]))
            else
              bind (execute_step E next_step)
                (\<lambda>result. bind (emit (Executed next_step result))
                (\<lambda>_. bind (of_sum (dict_item result ''status''))
                (\<lambda>status.
                   if status = PStr ''success'' then
                     bind (time_sleep E 1500) (\<lambda>_. ret (Continue (results @ [result]) 0))
                   else
                     handle_failure E next_step result i (results @ [result])
                       (consecutive_failures + 1))))))))"

text \<open>\<open>for i in range(max_steps)\<close>, over the indices still to run.\<close>

fun run_loop ::
  "'w env \<Rightarrow> string \<Rightarrow> nat list \<Rightarrow> pydict list \<Rightarrow> nat \<Rightarrow> ('w, pydict list) act" where
  "run_loop E command_text [] results consecutive_failures = ret results"
| "run_loop E command_text (i # rest) results consecutive_failures =
     bind (loop_iteration E command_text i results consecutive_failures)
       (\<lambda>ctl. case ctl of
          Break final \<Rightarrow> ret final
        | Continue results' consecutive_failures' \<Rightarrow>
            run_loop E command_text rest results' consecutive_failures')"

text \<open>
  The final status:
  \<open>any(r.get("action") == "complete" for r in results) or all(r["status"] == "success" for r in results)\<close>.
\<close>

definition any_complete :: "pydict list \<Rightarrow> bool" where
  "any_complete results = list_ex (\<lambda>r. map_of r ''action'' = Some (PStr ''complete'')) results"

fun all_success :: "pydict list \<Rightarrow> exn + bool" where
  "all_success [] = Inr True"
| "all_success (r # rs) =
     (case dict_item r ''status'' of
        Inl e \<Rightarrow> Inl e
      | Inr v \<Rightarrow> if v = PStr ''success'' then all_success rs else Inr False)"

definition session_status :: "pydict list \<Rightarrow> exn + string" where
  "session_status results =
     (if any_complete results then Inr ''success''
      else (case all_success results of
              Inl e \<Rightarrow> Inl e
            | Inr ok \<Rightarrow> Inr (if ok then ''success'' else ''error'')))"

text \<open>The dictionary \<open>execute_command_iteratively\<close> returns; a key it leaves out is \<open>None\<close>.\<close>

record run_result =
  run_status :: pval
  run_message :: "pval option"
  steps_completed :: "nat option"
  total_steps :: "nat option"
  run_results :: "pydict list option"

definition connect_if_needed :: "'w env \<Rightarrow> ('w, pydict option) act" where
  "connect_if_needed E s =
     (if \<not> connected s then
        bind (executor_connect E)
          (\<lambda>connect_result. bind (of_sum (dict_item connect_result ''status''))
          (\<lambda>status. if status \<noteq> PStr ''success'' then ret (Some connect_result)
                     else ret None)) s
      else ret None s)"

definition execute_command_iteratively :: "'w env \<Rightarrow> string \<Rightarrow> ('w, run_result) act" where
  "execute_command_iteratively E command_text =
     try_catch
       (bind (connect_if_needed E)
          (\<lambda>refused. case refused of
             Some connect_result \<Rightarrow>
               ret \<lparr>run_status = dict_get connect_result ''status'' PNone,
                    run_message = map_of connect_result ''message'',
                    steps_completed = None, total_steps = None, run_results = None\<rparr>
           | None \<Rightarrow>
               bind (run_loop E command_text [0..<max_steps] [] 0)
                 (\<lambda>results. bind (of_sum (session_status results))
                 (\<lambda>status.
                    ret \<lparr>run_status = PStr status, run_message = None,
                         steps_completed = Some (length results),
                         total_steps = Some (length results),
                         run_results = Some results\<rparr>))))
       (\<lambda>e. ret \<lparr>run_status = PStr ''error'',
                  run_message = Some (PStr (''Command execution failed: '' @ str_of_exn e)),
                  steps_completed = None, total_steps = None, run_results = Some []\<rparr>)"

section \<open>Vocabulary for the proofs\<close>

text \<open>
  \<open>yields m Q\<close>: from every state \<open>m\<close> returns, without raising, a value satisfying
  \<open>Q\<close>. \<open>may_yield m Q\<close>: whenever \<open>m\<close> returns a value, it satisfies \<open>Q\<close>.
  \<open>emits P m\<close>: \<open>m\<close> only appends to the trace, and only events satisfying \<open>P\<close>.
\<close>

definition yields :: "('w, 'a) act \<Rightarrow> ('a \<Rightarrow> bool) \<Rightarrow> bool" where
  "yields m Q = (\<forall>s. \<exists>x. fst (m s) = Inr x \<and> Q x)"

definition may_yield :: "('w, 'a) act \<Rightarrow> ('a \<Rightarrow> bool) \<Rightarrow> bool" where
  "may_yield m Q = (\<forall>s x. fst (m s) = Inr x \<longrightarrow> Q x)"

definition emits :: "(event \<Rightarrow> bool) \<Rightarrow> ('w, 'a) act \<Rightarrow> bool" where
  "emits P m = (\<forall>s. \<exists>evs. trace (snd (m s)) = trace s @ evs \<and> list_all P evs)"

text \<open>An Outcome: a status that is success or error, and a message.\<close>

definition is_outcome :: "pydict \<Rightarrow> bool" where
  "is_outcome out =
     ((map_of out ''status'' = Some (PStr ''success'')
       \<or> map_of out ''status'' = Some (PStr ''error''))
      \<and> (\<exists>m. map_of out ''message'' = Some (PStr m)))"

text \<open>The tiers a trace attempted, and the steps it executed, in order.\<close>

fun tiers_of :: "event list \<Rightarrow> tier list" where
  "tiers_of [] = []"
| "tiers_of (Attempt t # evs) = t # tiers_of evs"
| "tiers_of (ev # evs) = tiers_of evs"

fun executed :: "event list \<Rightarrow> (step \<times> pydict) list" where
  "executed [] = []"
| "executed (Executed st r # evs) = (st, r) # executed evs"
| "executed (ev # evs) = executed evs"

text \<open>What a stage of the search hands back: nothing, or the Outcome to return at once.\<close>

definition early_outcome :: "pydict option \<Rightarrow> bool" where
  "early_outcome r = (case r of None \<Rightarrow> True | Some out \<Rightarrow> is_outcome out)"

text \<open>The events \<open>_execute_step\<close> can append: sleeps and the tiers of a click.\<close>

fun step_event :: "event \<Rightarrow> bool" where
  "step_event (Sleep ms) = True"
| "step_event (Attempt t) = True"
| "step_event (Located t found) = True"
| "step_event (Clicked_at x y out) = True"
| "step_event ev = False"

text \<open>
  The loop indices a trace started, in order, and the events that are no
  bookkeeping of the loop.
\<close>

fun iterations :: "event list \<Rightarrow> nat list" where
  "iterations [] = []"
| "iterations (Iteration i # evs) = i # iterations evs"
| "iterations (ev # evs) = iterations evs"


text \<open>
  The rounds of a trace: for each \<open>Iteration\<close> event, the events between it and the
  next one. \<open>split_rounds\<close> also returns the events before the first round.
\<close>

fun split_rounds :: "event list \<Rightarrow> event list \<times> event list list" where
  "split_rounds [] = ([], [])"
| "split_rounds (Iteration i # evs) =
     (case split_rounds evs of (front, rest) \<Rightarrow> ([], front # rest))"
| "split_rounds (ev # evs) =
     (case split_rounds evs of (front, rest) \<Rightarrow> (ev # front, rest))"

definition rounds :: "event list \<Rightarrow> event list list" where
  "rounds evs = snd (split_rounds evs)"

text \<open>
  The result of the first \<open>_execute_step\<close> of a round, which is the step the oracle
  proposed, and the values \<open>_attempt_recovery\<close> returned in it.
\<close>

fun first_executed :: "event list \<Rightarrow> pydict option" where
  "first_executed [] = None"
| "first_executed (Executed st r # evs) = Some r"
| "first_executed (ev # evs) = first_executed evs"

fun recoveries :: "event list \<Rightarrow> pydict option list" where
  "recoveries [] = []"
| "recoveries (Recovery r # evs) = r # recoveries evs"
| "recoveries (ev # evs) = recoveries evs"

text \<open>
  A round with an unrecovered failure: the step it executed returned an Outcome
  whose status is not success, and \<open>_attempt_recovery\<close> gave the loop nothing in
  its place (or was not called).
\<close>

definition unrecovered :: "event list \<Rightarrow> bool" where
  "unrecovered evs =
     (case first_executed evs of
        None \<Rightarrow> False
      | Some r \<Rightarrow> map_of r ''status'' \<noteq> Some (PStr ''success'')
                  \<and> list_all (\<lambda>recovered. recovered_result recovered = None)
                        (recoveries evs))"


section \<open>Concrete inputs\<close>

definition init_st :: "unit st" where
  "init_st = \<lparr>world = (), trace = [], connected = True, client = True\<rparr>"

definition silent_env :: "unit env" where
  "silent_env =
     \<lparr>drv_start_session = (\<lambda>w. (Inr (), w)),
      drv_navigate = (\<lambda>url w. (Inr (), w)),
      drv_wait_ready = (\<lambda>w. (Inr (), w)),
      drv_find_element = (\<lambda>sel w. (Inl (NoSuchElementException sel), w)),
      drv_find_elements = (\<lambda>sel w. (Inr [], w)),
      drv_get_url = (\<lambda>w. (Inr ''about:blank'', w)),
      drv_execute_script = (\<lambda>sc args w. (Inr JNull, w)),
      drv_query_selector_all = (\<lambda>w. (Inr [], w)),
      element_click = (\<lambda>el w. (Inr (), w)),
      element_clear = (\<lambda>el w. (Inr (), w)),
      element_send_keys = (\<lambda>el k w. (Inr (), w)),
      element_text = (\<lambda>el w. (Inr [], w)),
      element_get_attribute = (\<lambda>el a w. (Inr None, w)),
      ocr_image_to_data = (\<lambda>w. (Inr [], w)),
      parser_get_next_step = (\<lambda>goal ctx results w. (Inr None, w)),
      os_monotonic_ns = (\<lambda>w. 0)\<rparr>"

definition sample_rows :: "ocr_row list" where
  "sample_rows =
     [\<lparr>row_text = ''Add to cart'', row_conf = Some 40, row_left = 10, row_top = 10, row_width = 30, row_height = 8\<rparr>,
      \<lparr>row_text = ''Subtotal'', row_conf = Some 96, row_left = 10, row_top = 40, row_width = 60, row_height = 12\<rparr>,
      \<lparr>row_text = '' ADD TO CART '', row_conf = Some 75, row_left = 100, row_top = 200, row_width = 50, row_height = 20\<rparr>,
      \<lparr>row_text = ''Add to cart'', row_conf = Some 91, row_left = 300, row_top = 400, row_width = 51, row_height = 21\<rparr>]"

definition ocr_env :: "unit env" where
  "ocr_env = silent_env\<lparr>ocr_image_to_data := (\<lambda>w. (Inr sample_rows, w))\<rparr>"

definition buy_button :: dom_node where
  "buy_button =
     \<lparr>node_tag = ''BUTTON'', rect_width = 80, rect_height = 24, rect_top = 10, rect_left = 12,
      style_visibility = ''visible'', style_display = ''inline-block'',
      node_textContent = Some '' Buy '', attr_placeholder = None, attr_aria_label = None,
      attr_title = None, node_id = Some ''buy'', node_name = None, node_className = None,
      node_href = None\<rparr>"

definition home_link :: dom_node where
  "home_link =
     \<lparr>node_tag = ''A'', rect_width = 40, rect_height = 16, rect_top = 2, rect_left = 2,
      style_visibility = ''visible'', style_display = ''inline'',
      node_textContent = Some ''Home'', attr_placeholder = None, attr_aria_label = None,
      attr_title = None, node_id = Some [], node_name = None, node_className = None,
      node_href = Some ''https://example.com/''\<rparr>"

definition page_env :: "unit env" where
  "page_env = silent_env\<lparr>drv_query_selector_all := (\<lambda>w. (Inr [home_link, buy_button], w))\<rparr>"

definition broken_page_env :: "unit env" where
  "broken_page_env =
     silent_env\<lparr>drv_query_selector_all := (\<lambda>w. (Inl (OtherException ''script error''), w))\<rparr>"

definition nav_without_url :: step where
  "nav_without_url = \<lparr>step_action = ''navigate'', step_params = [], step_dom = ''N/A'',
                       step_coords = None\<rparr>"

definition wait_step :: "pydict \<Rightarrow> step" where
  "wait_step params = \<lparr>step_action = ''wait'', step_params = params, step_dom = ''N/A'',
                         step_coords = None\<rparr>"

definition cart_click :: step where
  "cart_click = \<lparr>step_action = ''click'', step_params = [(''selector'', PStr ''Add to cart'')],
                  step_dom = ''N/A'', step_coords = None\<rparr>"

definition missing_click :: step where
  "missing_click = \<lparr>step_action = ''click'', step_params = [(''selector'', PStr ''#missing'')],
                     step_dom = ''#missing'', step_coords = None\<rparr>"

definition cats_search :: step where
  "cats_search = \<lparr>step_action = ''search'', step_params = [(''query'', PStr ''cats'')],
                   step_dom = ''N/A'', step_coords = None\<rparr>"



definition done_step :: step where
  "done_step = \<lparr>step_action = ''complete'',
                 step_params = [(''message'', PStr ''Done, redirected to example.com/new'')],
                 step_dom = ''N/A'', step_coords = None\<rparr>"

text \<open>
  An oracle that proposes a click on a missing element first, then a wait, then
  \<open>complete\<close>, on a page where nothing is found.
\<close>

definition scripted_oracle ::
  "string \<Rightarrow> element list \<Rightarrow> pydict list \<Rightarrow> unit \<Rightarrow> (exn + step option) \<times> unit" where
  "scripted_oracle goal ctx results w =
     (Inr (Some (if length results = 0 then missing_click
                 else if length results = 1 then wait_step [(''seconds'', PInt 0)]
                 else done_step)), w)"

definition scripted_env :: "unit env" where
  "scripted_env = silent_env\<lparr>parser_get_next_step := scripted_oracle\<rparr>"




text \<open>
  An oracle that proposes a wait of no length twelve times and a click on a missing
  element from then on, on a page where nothing is found.
\<close>

definition late_oracle ::
  "string \<Rightarrow> element list \<Rightarrow> pydict list \<Rightarrow> unit \<Rightarrow> (exn + step option) \<times> unit" where
  "late_oracle goal ctx results w =
     (Inr (Some (if length results < 12 then wait_step [(''seconds'', PInt 0)]
                 else missing_click)), w)"

definition late_failing_env :: "unit env" where
  "late_failing_env = silent_env\<lparr>parser_get_next_step := late_oracle\<rparr>"

section \<open>The text locator returns the first match\<close>

lemma scan_rows_None: "scan_rows t thr rows = None \<longleftrightarrow> (\<forall>i<length rows. \<not> row_matches t thr (rows ! i))"
proof (induction rows)
  case Nil
  show ?case by simp
next
  case (Cons r rs)
  show ?case
    using Cons.IH by (auto simp: nth_Cons split: nat.splits)
qed

lemma scan_rows_Some:
  "scan_rows t thr rows = Some c \<longleftrightarrow>
     (\<exists>i<length rows. row_matches t thr (rows ! i) \<and> (\<forall>j<i. \<not> row_matches t thr (rows ! j))
        \<and> c = box_center (rows ! i))"
proof (induction rows)
  case Nil
  show ?case by simp
next
  case (Cons r rs)
  show ?case
  proof (cases "row_matches t thr r")
    case True
    have "(\<exists>i<length (r # rs). row_matches t thr ((r # rs) ! i) \<and> (\<forall>j<i. \<not> row_matches t thr ((r # rs) ! j))
        \<and> c = box_center ((r # rs) ! i)) \<longleftrightarrow> c = box_center r"
    proof
      assume "\<exists>i<length (r # rs). row_matches t thr ((r # rs) ! i) \<and> (\<forall>j<i. \<not> row_matches t thr ((r # rs) ! j))
        \<and> c = box_center ((r # rs) ! i)"
      then obtain i where i: "row_matches t thr ((r # rs) ! i)" "\<forall>j<i. \<not> row_matches t thr ((r # rs) ! j)"
         "c = box_center ((r # rs) ! i)" by blast
      have "i = 0"
      proof (rule ccontr)
        assume "i \<noteq> 0"
        then have "0 < i" by simp
        with i(2) have "\<not> row_matches t thr ((r # rs) ! 0)" by blast
        with True show False by simp
      qed
      with i(3) show "c = box_center r" by simp
    next
      assume "c = box_center r"
      with True show "\<exists>i<length (r # rs). row_matches t thr ((r # rs) ! i) \<and> (\<forall>j<i. \<not> row_matches t thr ((r # rs) ! j))
        \<and> c = box_center ((r # rs) ! i)"
        by (intro exI[of _ 0]) simp
    qed
    with True show ?thesis by auto
  next
    case False
    have "(\<exists>i<length (r # rs). row_matches t thr ((r # rs) ! i) \<and> (\<forall>j<i. \<not> row_matches t thr ((r # rs) ! j))
        \<and> c = box_center ((r # rs) ! i)) \<longleftrightarrow>
        (\<exists>i<length rs. row_matches t thr (rs ! i) \<and> (\<forall>j<i. \<not> row_matches t thr (rs ! j))
        \<and> c = box_center (rs ! i))" (is "?L \<longleftrightarrow> ?R")
    proof
      assume ?L
      then obtain i where i: "i < length (r # rs)" "row_matches t thr ((r # rs) ! i)" "\<forall>j<i. \<not> row_matches t thr ((r # rs) ! j)"
         "c = box_center ((r # rs) ! i)" by blast
      from i(2) False obtain k where k: "i = Suc k" by (cases i) auto
      have "\<forall>j<k. \<not> row_matches t thr (rs ! j)"
      proof (intro allI impI)
        fix j assume "j < k"
        then have "Suc j < i" using k by simp
        with i(3) have "\<not> row_matches t thr ((r # rs) ! Suc j)" by blast
        then show "\<not> row_matches t thr (rs ! j)" by simp
      qed
      with i k show ?R by (intro exI[of _ k]) simp
    next
      assume ?R
      then obtain k where k: "k < length rs" "row_matches t thr (rs ! k)" "\<forall>j<k. \<not> row_matches t thr (rs ! j)"
         "c = box_center (rs ! k)" by blast
      have "\<forall>j<Suc k. \<not> row_matches t thr ((r # rs) ! j)"
      proof (intro allI impI)
        fix j assume "j < Suc k"
        then show "\<not> row_matches t thr ((r # rs) ! j)" using False k(3) by (cases j) auto
      qed
      with k show ?L by (intro exI[of _ "Suc k"]) simp
    qed
    with False Cons.IH show ?thesis by simp
  qed
qed

lemma ocr_returns_scan:
  assumes "client s" and "ocr_image_to_data E (world s) = (Inr rows, w')"
  shows "get_target_coordinates_ocr E t thr s = (Inr (scan_rows t thr rows), s\<lparr>world := w'\<rparr>)"
  using assms by (simp add: get_target_coordinates_ocr_def try_catch_def bind_def on_client_def call_def ret_def)

text \<open>
  Claim C3. The tuples the scan compares are the source's own per-row values: the
  stripped text and the integer confidence (0 when the conversion fails). With the
  rows \<open>rows\<close> delivered by the OCR pipeline, \<open>get_target_coordinates_ocr\<close>
  returns the centre \<open>(left + width // 2, top + height // 2)\<close> of the first row,
  in scan order, whose confidence exceeds the threshold and whose lowercase text
  contains the lowercase target; it returns nothing exactly when no row qualifies.
\<close>

theorem ocr_first_match:
  assumes "client s" and "ocr_image_to_data E (world s) = (Inr rows, w')"
  shows "\<exists>found. fst (get_target_coordinates_ocr E target_text confidence_threshold s) = Inr found \<and>
     (case found of
        None \<Rightarrow> (\<forall>i<length rows. \<not> row_matches target_text confidence_threshold (rows ! i))
      | Some c \<Rightarrow>
          (\<exists>i<length rows. row_matches target_text confidence_threshold (rows ! i)
             \<and> (\<forall>j<i. \<not> row_matches target_text confidence_threshold (rows ! j))
             \<and> c = (row_left (rows ! i) + row_width (rows ! i) div 2,
                    row_top (rows ! i) + row_height (rows ! i) div 2)))"
proof -
  let ?found = "scan_rows target_text confidence_threshold rows"
  have "fst (get_target_coordinates_ocr E target_text confidence_threshold s) = Inr ?found"
    using ocr_returns_scan[OF assms] by simp
  moreover have "case ?found of
        None \<Rightarrow> (\<forall>i<length rows. \<not> row_matches target_text confidence_threshold (rows ! i))
      | Some c \<Rightarrow>
          (\<exists>i<length rows. row_matches target_text confidence_threshold (rows ! i)
             \<and> (\<forall>j<i. \<not> row_matches target_text confidence_threshold (rows ! j))
             \<and> c = (row_left (rows ! i) + row_width (rows ! i) div 2,
                    row_top (rows ! i) + row_height (rows ! i) div 2))"
  proof (cases ?found)
    case None
    then show ?thesis using scan_rows_None[of target_text confidence_threshold rows] by simp
  next
    case (Some c)
    then show ?thesis using scan_rows_Some[of target_text confidence_threshold rows c]
      by (simp add: box_center_def)
  qed
  ultimately show ?thesis by blast
qed

lemma sample_eval: "scan_rows ''Add to cart'' 60 sample_rows = Some (125, 210)"
  by (simp add: sample_rows_def row_matches_def scanned_conf_def scanned_text_def box_center_def
      py_lower_def char_lower_def lower_letters_def upper_letters_def py_strip_def py_isspace_def)

theorem ocr_first_match_witness:
  "client init_st \<and> ocr_image_to_data ocr_env (world init_st) = (Inr sample_rows, ()) \<and>
   fst (get_target_coordinates_ocr ocr_env ''Add to cart'' 60 init_st) = Inr (Some (125, 210)) \<and>
   (\<exists>i<length sample_rows. row_matches ''Add to cart'' 60 (sample_rows ! i)
      \<and> (\<forall>j<i. \<not> row_matches ''Add to cart'' 60 (sample_rows ! j))
      \<and> (125, 210) = (row_left (sample_rows ! i) + row_width (sample_rows ! i) div 2,
                        row_top (sample_rows ! i) + row_height (sample_rows ! i) div 2))"
proof -
  have h1: "client init_st"
    by (simp add: init_st_def)
  have h2: "ocr_image_to_data ocr_env (world init_st) = (Inr sample_rows, ())"
    by (simp add: ocr_env_def)
  have ev: "fst (get_target_coordinates_ocr ocr_env ''Add to cart'' 60 init_st) = Inr (Some (125, 210))"
    using ocr_returns_scan[OF h1 h2] sample_eval by simp
  from ocr_first_match[OF h1 h2, of "''Add to cart''" 60] ev h1 h2 show ?thesis
    by auto
qed

section \<open>The DOM snapshot\<close>

lemma length_js_slice0: "0 < n \<Longrightarrow> int (length (js_slice0 xs n)) \<le> n"
  by (simp add: js_slice0_def)

lemma bucket_simplified: "bucket (simplified el) = priority el"
  by (simp add: bucket_def simplified_def priority_def Let_def)

lemma sorted_buckets_script: "sorted (map bucket (dom_context_script nodes n))"
proof -
  let ?v = "sort_key priority (filter is_visible_candidate nodes)"
  let ?m = "if n = 0 then 200 else n"
  have "map bucket (dom_context_script nodes n) = map priority (js_slice0 ?v ?m)"
    by (simp add: dom_context_script_def getInteractiveElements_def Let_def bucket_simplified
        del: sort_key_simps)
  also have "\<dots> = (if ?m < 0 then take (nat (int (length ?v) + ?m)) (map priority ?v)
                   else take (nat ?m) (map priority ?v))"
    by (simp add: js_slice0_def take_map)
  finally have eq: "map bucket (dom_context_script nodes n) =
      (if ?m < 0 then take (nat (int (length ?v) + ?m)) (map priority ?v)
       else take (nat ?m) (map priority ?v))" .
  have "sorted (map priority ?v)"
    by (rule sorted_sort_key)
  then show ?thesis
    unfolding eq by (simp add: sorted_wrt_take)
qed

lemma length_script: "1 \<le> n \<Longrightarrow> int (length (dom_context_script nodes n)) \<le> n"
  by (simp add: dom_context_script_def getInteractiveElements_def Let_def js_slice0_def)

lemma get_dom_context_cases:
  "(\<exists>nodes s'. on_client ''execute_script'' (drv_query_selector_all E) s = (Inr nodes, s')
       \<and> get_dom_context E n s = (Inr (dom_context_script nodes n), s'))
   \<or> (\<exists>e s'. on_client ''execute_script'' (drv_query_selector_all E) s = (Inl e, s')
       \<and> get_dom_context E n s = (Inr [], s'))"
proof (cases "on_client ''execute_script'' (drv_query_selector_all E) s")
  case (Pair r s')
  then show ?thesis
    by (cases r) (simp_all add: get_dom_context_def try_catch_def bind_def ret_def)
qed

text \<open>
  Claim C4, as amended. For every page and every bound of at least 1,
  \<open>get_dom_context\<close> returns at most that many elements, in non-decreasing priority
  bucket (input and button, then link, then the rest), and returns the empty list
  when the script execution raises.
\<close>

theorem dom_context_bounded_sorted:
  assumes "1 \<le> max_elements"
  shows "\<exists>els. fst (get_dom_context E max_elements s) = Inr els
           \<and> int (length els) \<le> max_elements
           \<and> sorted (map bucket els)
           \<and> ((\<exists>e. fst (on_client ''execute_script'' (drv_query_selector_all E) s) = Inl e)
                \<longrightarrow> els = [])"
  using get_dom_context_cases[of E s max_elements] assms
  by (auto simp: sorted_buckets_script length_script)

lemma page_eval_value:
  "fst (get_dom_context page_env 0 init_st) =
     Inr [\<lparr>el_tag = ''button'', el_text = ''Buy'',
           el_attributes = [(''id'', Some ''buy''), (''name'', None), (''class'', None),
                            (''placeholder'', None), (''aria-label'', None), (''href'', None),
                            (''title'', None)],
           el_top = 10, el_left = 12\<rparr>,
          \<lparr>el_tag = ''a'', el_text = ''Home'',
           el_attributes = [(''id'', None), (''name'', None), (''class'', None),
                            (''placeholder'', None), (''aria-label'', None),
                            (''href'', Some ''https://example.com/''), (''title'', None)],
           el_top = 2, el_left = 2\<rparr>]"
  by (simp add: get_dom_context_def try_catch_def bind_def ret_def on_client_def call_def
      init_st_def page_env_def silent_env_def dom_context_script_def getInteractiveElements_def
      js_slice0_def is_visible_candidate_def priority_def tag_priority_def simplified_def
      buy_button_def home_link_def js_trim_def js_isspace_def or_null_def js_round_def
      py_lower_def char_lower_def lower_letters_def upper_letters_def Let_def)

lemma page_eval_one:
  "fst (get_dom_context page_env 1 init_st) =
     Inr [\<lparr>el_tag = ''button'', el_text = ''Buy'',
           el_attributes = [(''id'', Some ''buy''), (''name'', None), (''class'', None),
                            (''placeholder'', None), (''aria-label'', None), (''href'', None),
                            (''title'', None)],
           el_top = 10, el_left = 12\<rparr>]"
  by (simp add: get_dom_context_def try_catch_def bind_def ret_def on_client_def call_def
      init_st_def page_env_def silent_env_def dom_context_script_def getInteractiveElements_def
      js_slice0_def is_visible_candidate_def priority_def tag_priority_def simplified_def
      buy_button_def home_link_def js_trim_def js_isspace_def or_null_def js_round_def
      py_lower_def char_lower_def lower_letters_def upper_letters_def Let_def)

lemma broken_page_raises:
  "fst (on_client ''execute_script'' (drv_query_selector_all broken_page_env) init_st)
     = Inl (OtherException ''script error'')"
  by (simp add: on_client_def call_def init_st_def broken_page_env_def silent_env_def)

theorem dom_context_bounded_sorted_witness:
  "(1::int) \<le> 1
   \<and> fst (get_dom_context page_env 1 init_st) =
       Inr [\<lparr>el_tag = ''button'', el_text = ''Buy'',
             el_attributes = [(''id'', Some ''buy''), (''name'', None), (''class'', None),
                              (''placeholder'', None), (''aria-label'', None), (''href'', None),
                              (''title'', None)],
             el_top = 10, el_left = 12\<rparr>]
   \<and> (\<exists>els. fst (get_dom_context page_env 1 init_st) = Inr els
          \<and> int (length els) \<le> 1 \<and> sorted (map bucket els))
   \<and> fst (on_client ''execute_script'' (drv_query_selector_all broken_page_env) init_st)
       = Inl (OtherException ''script error'')
   \<and> fst (get_dom_context broken_page_env 1 init_st) = Inr []"
proof -
  have one: "(1::int) \<le> 1"
    by simp
  from dom_context_bounded_sorted[OF one, of page_env init_st]
  have "\<exists>els. fst (get_dom_context page_env 1 init_st) = Inr els
          \<and> int (length els) \<le> 1 \<and> sorted (map bucket els)"
    by blast
  moreover from dom_context_bounded_sorted[OF one, of broken_page_env init_st] broken_page_raises
  have "fst (get_dom_context broken_page_env 1 init_st) = Inr []"
    by auto
  ultimately show ?thesis
    using page_eval_one broken_page_raises by simp
qed

text \<open>
  With the bound 0 the script's \<open>arguments[0] || 200\<close> takes 200 instead: a page with
  two visible elements yields both.
\<close>

theorem dom_context_zero_counterexample:
  "fst (get_dom_context page_env 0 init_st) =
     Inr [\<lparr>el_tag = ''button'', el_text = ''Buy'',
           el_attributes = [(''id'', Some ''buy''), (''name'', None), (''class'', None),
                            (''placeholder'', None), (''aria-label'', None), (''href'', None),
                            (''title'', None)],
           el_top = 10, el_left = 12\<rparr>,
          \<lparr>el_tag = ''a'', el_text = ''Home'',
           el_attributes = [(''id'', None), (''name'', None), (''class'', None),
                            (''placeholder'', None), (''aria-label'', None),
                            (''href'', Some ''https://example.com/''), (''title'', None)],
           el_top = 2, el_left = 2\<rparr>]
   \<and> \<not> int (length (projr (fst (get_dom_context page_env 0 init_st)))) \<le> 0"
  using page_eval_value by simp


section \<open>Rules for sequencing, handlers and the trace\<close>

lemma yields_may: "yields m Q \<Longrightarrow> may_yield m Q"
  by (auto simp: yields_def may_yield_def) (metis Inr_inject)

lemma yields_ret: "Q x \<Longrightarrow> yields (ret x) Q"
  by (simp add: yields_def ret_def)

lemma may_yield_ret: "Q x \<Longrightarrow> may_yield (ret x) Q"
  by (simp add: may_yield_def ret_def)

lemma may_yield_raise: "may_yield (raise e) Q"
  by (simp add: may_yield_def raise_def)

lemma may_yield_true: "may_yield m (\<lambda>x. True)"
  by (simp add: may_yield_def)

lemma may_yield_bind:
  assumes "may_yield m R" and "\<And>x. R x \<Longrightarrow> may_yield (f x) Q"
  shows "may_yield (bind m f) Q"
  unfolding may_yield_def
proof (intro allI impI)
  fix s y
  assume a: "fst (bind m f s) = Inr y"
  obtain r s' where ms: "m s = (r, s')" by (cases "m s")
  show "Q y"
  proof (cases r)
    case (Inl e)
    with ms a show ?thesis by (simp add: bind_def)
  next
    case (Inr x)
    with ms assms(1) have "R x" by (auto simp: may_yield_def dest: spec[of _ s])
    with assms(2) have "may_yield (f x) Q" .
    moreover from Inr ms a have "fst (f x s') = Inr y" by (simp add: bind_def)
    ultimately show ?thesis by (auto simp: may_yield_def)
  qed
qed

lemma may_yield_bind': "(\<And>x. may_yield (f x) Q) \<Longrightarrow> may_yield (bind m f) Q"
  by (rule may_yield_bind[OF may_yield_true])

lemma yields_bind:
  assumes "yields m R" and "\<And>x. R x \<Longrightarrow> yields (f x) Q"
  shows "yields (bind m f) Q"
  unfolding yields_def
proof
  fix s
  from assms(1) obtain x where x: "fst (m s) = Inr x" "R x" by (auto simp: yields_def)
  obtain s' where ms: "m s = (Inr x, s')" using x(1) by (cases "m s") auto
  from assms(2)[OF x(2)] obtain y where "fst (f x s') = Inr y" "Q y" by (auto simp: yields_def)
  with ms show "\<exists>y. fst (bind m f s) = Inr y \<and> Q y" by (simp add: bind_def)
qed

lemma yields_try:
  assumes "may_yield m Q" and "\<And>e. yields (h e) Q"
  shows "yields (try_catch m h) Q"
  unfolding yields_def
proof
  fix s
  obtain r s' where ms: "m s = (r, s')" by (cases "m s")
  show "\<exists>x. fst (try_catch m h s) = Inr x \<and> Q x"
  proof (cases r)
    case (Inl e)
    with ms assms(2)[of e] show ?thesis by (auto simp: try_catch_def yields_def)
  next
    case (Inr x)
    with ms assms(1) show ?thesis by (auto simp: try_catch_def may_yield_def dest: spec[of _ s])
  qed
qed

lemma emits_ret: "emits P (ret x)"
  by (simp add: emits_def ret_def)

lemma emits_raise: "emits P (raise e)"
  by (simp add: emits_def raise_def)

lemma emits_of_sum: "emits P (of_sum r)"
  by (simp add: emits_def of_sum_def)

lemma emits_call: "emits P (call f)"
  by (simp add: emits_def call_def split: prod.splits)

lemma emits_on_client: "emits P (on_client name f)"
  by (simp add: emits_def on_client_def call_def raise_def split: prod.splits)

lemma emits_emit: "P ev \<Longrightarrow> emits P (emit ev)"
  by (simp add: emits_def emit_def)

lemma emits_time_sleep: "P (Sleep ms) \<Longrightarrow> emits P (time_sleep E ms)"
  by (simp add: emits_def time_sleep_def Let_def raise_def emit_def)

lemma emits_bind:
  assumes "emits P m" and "\<And>x. emits P (f x)"
  shows "emits P (bind m f)"
  unfolding emits_def
proof
  fix s
  obtain r s' where ms: "m s = (r, s')" by (cases "m s")
  from assms(1) ms obtain evs where evs: "trace s' = trace s @ evs" "list_all P evs"
    by (auto simp: emits_def dest: spec[of _ s])
  show "\<exists>evs. trace (snd (bind m f s)) = trace s @ evs \<and> list_all P evs"
  proof (cases r)
    case (Inl e)
    with ms evs show ?thesis by (auto simp: bind_def)
  next
    case (Inr x)
    from assms(2)[of x] obtain evs' where "trace (snd (f x s')) = trace s' @ evs'" "list_all P evs'"
      by (auto simp: emits_def)
    with Inr ms evs show ?thesis by (auto simp: bind_def)
  qed
qed

lemma emits_try:
  assumes "emits P m" and "\<And>e. emits P (h e)"
  shows "emits P (try_catch m h)"
  unfolding emits_def
proof
  fix s
  obtain r s' where ms: "m s = (r, s')" by (cases "m s")
  from assms(1) ms obtain evs where evs: "trace s' = trace s @ evs" "list_all P evs"
    by (auto simp: emits_def dest: spec[of _ s])
  show "\<exists>evs. trace (snd (try_catch m h s)) = trace s @ evs \<and> list_all P evs"
  proof (cases r)
    case (Inl e)
    from assms(2)[of e] obtain evs' where "trace (snd (h e s')) = trace s' @ evs'" "list_all P evs'"
      by (auto simp: emits_def)
    with Inl ms evs show ?thesis by (auto simp: try_catch_def)
  next
    case (Inr x)
    with ms evs show ?thesis by (auto simp: try_catch_def)
  qed
qed

lemmas emits_intros = emits_ret emits_raise emits_of_sum emits_call emits_on_client emits_emit
  emits_time_sleep emits_bind emits_try

lemma is_outcome_success [simp]: "is_outcome (success m)"
  by (simp add: is_outcome_def success_def outcome_def)

lemma is_outcome_error [simp]: "is_outcome (error m)"
  by (simp add: is_outcome_def error_def outcome_def)

lemma is_outcome_success_app [simp]: "is_outcome (success m @ extra)"
  by (simp add: is_outcome_def success_def outcome_def)

lemma find_element_yields: "yields (find_element E selector) (\<lambda>x. True)"
  unfolding find_element_def by (intro yields_try may_yield_true yields_ret TrueI)

lemma click_yields: "yields (click E selector) is_outcome"
  unfolding click_def
  by (intro yields_try yields_ret may_yield_bind' is_outcome_error)
     (auto split: option.splits intro!: may_yield_ret may_yield_bind')

lemma click_emits: "P (Sleep 1000) \<Longrightarrow> emits P (click E selector)"
  unfolding click_def find_element_def
  by (auto intro!: emits_intros split: option.splits)

section \<open>The controller methods return Outcomes and only sleep\<close>

lemma may_yield_of_sum: "(\<And>x. r = Inr x \<Longrightarrow> Q x) \<Longrightarrow> may_yield (of_sum r) Q"
  by (simp add: may_yield_def of_sum_def)

lemma emits_mono: "emits P m \<Longrightarrow> (\<And>e. P e \<Longrightarrow> P' e) \<Longrightarrow> emits P' m"
  unfolding emits_def by (meson list.pred_mono_strong)

lemma navigate_yields: "yields (navigate E url) is_outcome"
  unfolding navigate_def
  by (cases url)
     (auto simp: Let_def intro!: yields_try yields_ret may_yield_bind' may_yield_ret
           split: exn.splits)

lemma navigate_emits: "emits P (navigate E url)"
  unfolding navigate_def
  by (cases url) (auto simp: Let_def intro!: emits_intros split: exn.splits)

lemma find_element_emits: "emits P (find_element E selector)"
  unfolding find_element_def by (intro emits_intros)

lemma input_text_yields: "yields (input_text E selector text) is_outcome"
  unfolding input_text_def
  by (intro yields_try yields_ret may_yield_bind' is_outcome_error)
     (auto split: option.splits intro!: may_yield_ret may_yield_bind')

lemma input_text_emits: "emits P (input_text E selector text)"
  unfolding input_text_def
  by (auto intro!: emits_intros find_element_emits split: option.splits)

lemma extract_text_yields: "yields (extract_text E selector) is_outcome"
  unfolding extract_text_def
  by (intro yields_try yields_ret may_yield_bind' is_outcome_error)
     (auto split: option.splits intro!: may_yield_ret may_yield_bind')

lemma extract_text_emits: "emits P (extract_text E selector)"
  unfolding extract_text_def
  by (auto intro!: emits_intros find_element_emits split: option.splits)

lemma click_by_coordinates_yields: "yields (click_by_coordinates E x y) is_outcome"
  unfolding click_by_coordinates_def
  by (intro yields_try yields_ret may_yield_bind' is_outcome_error)
     (auto intro!: may_yield_ret)

lemma click_by_coordinates_emits: "emits P (click_by_coordinates E x y)"
  unfolding click_by_coordinates_def
  by (auto intro!: emits_intros)

lemma ocr_yields: "yields (get_target_coordinates_ocr E t thr) (\<lambda>x. True)"
  unfolding get_target_coordinates_ocr_def
  by (intro yields_try yields_ret may_yield_true TrueI)

lemma ocr_emits: "emits P (get_target_coordinates_ocr E t thr)"
  unfolding get_target_coordinates_ocr_def by (intro emits_intros)



lemma first_text_input_emits: "emits P (first_text_input E els)"
  by (induction els) (auto intro!: emits_intros)

lemma find_search_input_emits: "emits P (find_search_input E sels)"
  by (induction sels) (auto intro!: emits_intros first_text_input_emits split: option.splits)

lemma click_search_button_emits: "emits P (click_search_button E sels)"
  by (induction sels) (auto intro!: emits_intros split: list.splits)

lemma focus_search_input_emits: "emits P (focus_search_input E el)"
  unfolding focus_search_input_def by (intro emits_intros)

lemma clear_search_input_emits: "emits P (clear_search_input E el)"
  unfolding clear_search_input_def by (intro emits_intros)

lemma enter_search_query_emits: "emits P (enter_search_query E el q)"
  unfolding enter_search_query_def by (intro emits_intros)

lemma submit_search_query_emits: "emits P (submit_search_query E el)"
  unfolding submit_search_query_def by (intro emits_intros click_search_button_emits)

lemma search_emits: "P (Sleep 3000) \<Longrightarrow> emits P (search E q)"
  unfolding search_def
  by (auto intro!: emits_intros find_search_input_emits focus_search_input_emits
        clear_search_input_emits enter_search_query_emits submit_search_query_emits
      split: option.splits)

lemma enter_search_query_may: "may_yield (enter_search_query E el q) early_outcome"
  unfolding enter_search_query_def
  by (intro yields_may yields_try yields_ret may_yield_bind' may_yield_ret)
     (simp_all add: early_outcome_def)

lemma submit_search_query_may: "may_yield (submit_search_query E el) early_outcome"
  unfolding submit_search_query_def
  by (intro yields_may yields_try yields_ret may_yield_bind' may_yield_ret)
     (simp_all add: early_outcome_def)

lemma search_yields: "yields (search E q) is_outcome"
  unfolding search_def
proof (intro yields_try yields_ret is_outcome_error may_yield_bind')
  fix current_url found
  show "may_yield
          (case found of
             None \<Rightarrow> ret (error (''Could not find search box on '' @ current_url))
           | Some (search_input, used_selector) \<Rightarrow>
               bind (focus_search_input E search_input)
                 (\<lambda>_. bind (clear_search_input E search_input)
                 (\<lambda>_. bind (enter_search_query E search_input q)
                 (\<lambda>entered. case entered of
                    Some failure \<Rightarrow> ret failure
                  | None \<Rightarrow>
                      bind (submit_search_query E search_input)
                        (\<lambda>submitted. case submitted of
                           Some failure \<Rightarrow> ret failure
                         | None \<Rightarrow>
                             bind (time_sleep E 3000)
                               (\<lambda>_. ret (success (''Performed search for: '' @ py_str q)
                                           @ [(''details'',
                                               PStr (''Used selector: '' @ used_selector))])))))))
          is_outcome"
  proof (cases found)
    case None
    then show ?thesis by (simp add: may_yield_ret)
  next
    case (Some pair)
    obtain search_input used_selector where pair: "pair = (search_input, used_selector)"
      by (cases pair)
    have sub: "may_yield
                 (bind (submit_search_query E search_input)
                    (\<lambda>submitted. case submitted of
                       Some failure \<Rightarrow> ret failure
                     | None \<Rightarrow>
                         bind (time_sleep E 3000)
                           (\<lambda>_. ret (success (''Performed search for: '' @ py_str q)
                                       @ [(''details'',
                                           PStr (''Used selector: '' @ used_selector))]))))
                 is_outcome"
      by (rule may_yield_bind[OF submit_search_query_may])
         (auto simp: early_outcome_def split: option.splits
               intro!: may_yield_ret may_yield_bind')
    have ent: "may_yield
                 (bind (enter_search_query E search_input q)
                    (\<lambda>entered. case entered of
                       Some failure \<Rightarrow> ret failure
                     | None \<Rightarrow>
                         bind (submit_search_query E search_input)
                           (\<lambda>submitted. case submitted of
                              Some failure \<Rightarrow> ret failure
                            | None \<Rightarrow>
                                bind (time_sleep E 3000)
                                  (\<lambda>_. ret (success (''Performed search for: '' @ py_str q)
                                              @ [(''details'',
                                                  PStr (''Used selector: '' @ used_selector))])))))
                 is_outcome"
      by (rule may_yield_bind[OF enter_search_query_may])
         (auto simp: early_outcome_def sub split: option.splits intro!: may_yield_ret)
    show ?thesis
      unfolding Some pair option.case prod.case by (intro may_yield_bind' ent)
  qed
qed

section \<open>The executor returns an Outcome\<close>

lemma yields_emitsD:
  assumes "yields m Q" and "emits P m" and "m s = (r, s')"
  shows "\<exists>x evs. r = Inr x \<and> Q x \<and> trace s' = trace s @ evs \<and> list_all P evs"
proof -
  from assms(1) obtain x where "fst (m s) = Inr x" "Q x" by (auto simp: yields_def)
  moreover from assms(2) obtain evs where "trace (snd (m s)) = trace s @ evs" "list_all P evs"
    by (auto simp: emits_def)
  ultimately show ?thesis using assms(3) by auto
qed


lemma click_structural_emits:
  assumes "P (Sleep 1000)" and "use_dom_selector dom_selector \<Longrightarrow> P (Attempt Structural)"
  shows "emits P (click_structural E dom_selector)"
  unfolding click_structural_def using assms
  by (auto intro!: emits_intros click_emits)

lemmas click_may = yields_may[OF click_yields]
lemmas click_by_coordinates_may = yields_may[OF click_by_coordinates_yields]
lemmas navigate_may = yields_may[OF navigate_yields]
lemmas search_may = yields_may[OF search_yields]
lemmas input_text_may = yields_may[OF input_text_yields]
lemmas extract_text_may = yields_may[OF extract_text_yields]

lemma early_outcome_simps [simp]:
  "early_outcome None" "early_outcome (Some out) = is_outcome out"
  by (simp_all add: early_outcome_def)

lemma may_yield_if:
  "may_yield a Q \<Longrightarrow> may_yield b Q \<Longrightarrow> may_yield (if c then a else b) Q"
  by simp

lemma emits_if: "emits P a \<Longrightarrow> emits P b \<Longrightarrow> emits P (if c then a else b)"
  by simp

lemma may_yield_case_option:
  "(x = None \<Longrightarrow> may_yield a Q) \<Longrightarrow> (\<And>y. x = Some y \<Longrightarrow> may_yield (f y) Q)
     \<Longrightarrow> may_yield (case x of None \<Rightarrow> a | Some y \<Rightarrow> f y) Q"
  by (cases x) simp_all

lemma click_structural_may: "may_yield (click_structural E dom_selector) early_outcome"
proof -
  have body: "may_yield
          (bind (click E dom_selector)
             (\<lambda>result. bind (of_sum (dict_item result ''status''))
             (\<lambda>status. if status = PStr ''success'' then ret (Some result) else ret None)))
          early_outcome"
  proof (rule may_yield_bind[OF click_may])
    fix result assume "is_outcome result"
    then show "may_yield
            (bind (of_sum (dict_item result ''status''))
               (\<lambda>status. if status = PStr ''success'' then ret (Some result) else ret None))
            early_outcome"
      by (intro may_yield_bind' may_yield_if may_yield_ret) simp_all
  qed
  have "may_yield
          (try_catch
             (bind (click E dom_selector)
                (\<lambda>result. bind (of_sum (dict_item result ''status''))
                (\<lambda>status. if status = PStr ''success'' then ret (Some result) else ret None)))
             (\<lambda>click_exception. ret None))
          early_outcome"
    by (intro yields_may yields_try body yields_ret) simp
  then show ?thesis
    unfolding click_structural_def
    by (intro may_yield_if may_yield_bind' may_yield_ret) simp_all
qed

lemma click_optical_emits:
  assumes "P (Attempt Optical)" and "\<And>found. P (Located target_text found)"
    and "\<And>x y out. P (Clicked_at x y out)"
  shows "emits P (click_optical E target_text)"
  unfolding click_optical_def using assms
  by (auto intro!: emits_intros ocr_emits click_by_coordinates_emits split: option.splits)

lemma click_optical_may: "may_yield (click_optical E target_text) early_outcome"
proof -
  have inner: "may_yield
           (bind (click_by_coordinates E (PInt x) (PInt y))
              (\<lambda>result. bind (emit (Clicked_at (PInt x) (PInt y) result))
              (\<lambda>_. ret (Some result))))
           early_outcome" for x y
  proof (rule may_yield_bind[OF click_by_coordinates_may])
    fix result assume "is_outcome result"
    then show "may_yield
            (bind (emit (Clicked_at (PInt x) (PInt y) result)) (\<lambda>_. ret (Some result)))
            early_outcome"
      by (intro may_yield_bind' may_yield_ret) simp
  qed
  have located: "may_yield
           (case ocr_coords of
              Some (x, y) \<Rightarrow>
                bind (click_by_coordinates E (PInt x) (PInt y))
                  (\<lambda>result. bind (emit (Clicked_at (PInt x) (PInt y) result))
                  (\<lambda>_. ret (Some result)))
            | None \<Rightarrow> ret None)
           early_outcome" for ocr_coords
  proof (cases ocr_coords)
    case None
    then show ?thesis by (simp add: may_yield_ret)
  next
    case (Some xy)
    then show ?thesis by (cases xy) (simp add: inner)
  qed
  show ?thesis
    unfolding click_optical_def
    by (intro may_yield_if may_yield_bind' located may_yield_ret) simp
qed

lemma click_descriptive_emits:
  assumes "P (Sleep 1000)" and "P (Attempt Descriptive)"
  shows "emits P (click_descriptive E fallback_selector)"
  unfolding click_descriptive_def using assms
  by (auto intro!: emits_intros click_emits)

lemma click_descriptive_may: "may_yield (click_descriptive E fallback_selector) is_outcome"
  unfolding click_descriptive_def
  by (intro may_yield_if may_yield_bind' may_yield_ret click_may) simp

lemma execute_click_emits:
  assumes "P (Sleep 1000)" and "use_dom_selector dom_selector \<Longrightarrow> P (Attempt Structural)"
    and "P (Attempt Spatial)" and "P (Attempt Optical)" and "P (Attempt Descriptive)"
    and "\<And>t found. P (Located t found)" and "\<And>x y out. P (Clicked_at x y out)"
  shows "emits P (execute_click E params dom_selector coords)"
  unfolding execute_click_def using assms
  by (auto intro!: emits_intros click_structural_emits click_by_coordinates_emits
        click_optical_emits click_descriptive_emits split: option.splits)

lemma execute_click_may: "may_yield (execute_click E params dom_selector coords) is_outcome"
proof -
  have spatial: "may_yield
           (bind (emit (Attempt Spatial))
              (\<lambda>_. bind (click_by_coordinates E x y)
              (\<lambda>result. bind (emit (Clicked_at x y result)) (\<lambda>_. ret result))))
           is_outcome" for x y
    by (intro may_yield_bind' may_yield_bind[OF click_by_coordinates_may] may_yield_ret)
  have optical: "may_yield
           (bind (click_optical E target_text)
              (\<lambda>optical. case optical of
                 Some result \<Rightarrow> ret result
               | None \<Rightarrow> bind (of_sum (descriptive_text params)) (click_descriptive E)))
           is_outcome" for target_text
  proof (rule may_yield_bind[OF click_optical_may])
    fix optical assume "early_outcome optical"
    then show "may_yield
            (case optical of
               Some result \<Rightarrow> ret result
             | None \<Rightarrow> bind (of_sum (descriptive_text params)) (click_descriptive E))
            is_outcome"
      by (cases optical) (simp_all add: may_yield_ret may_yield_bind' click_descriptive_may)
  qed
  have rest: "may_yield
           (case coords_xy coords of
              Some (x, y) \<Rightarrow>
                bind (emit (Attempt Spatial))
                  (\<lambda>_. bind (click_by_coordinates E x y)
                  (\<lambda>result. bind (emit (Clicked_at x y result))
                  (\<lambda>_. ret result)))
            | None \<Rightarrow>
                bind (of_sum (descriptive_text params))
                  (\<lambda>target_text. bind (click_optical E target_text)
                  (\<lambda>optical. case optical of
                     Some result \<Rightarrow> ret result
                   | None \<Rightarrow>
                       bind (of_sum (descriptive_text params))
                         (click_descriptive E))))
           is_outcome"
  proof (cases "coords_xy coords")
    case None
    then show ?thesis by (simp add: may_yield_bind' optical)
  next
    case (Some xy)
    then show ?thesis by (cases xy) (simp add: spatial)
  qed
  show ?thesis
    unfolding execute_click_def
  proof (rule may_yield_bind[OF click_structural_may])
    fix structural assume "early_outcome structural"
    then show "may_yield
            (case structural of
               Some result \<Rightarrow> ret result
             | None \<Rightarrow>
                 (case coords_xy coords of
                    Some (x, y) \<Rightarrow>
                      bind (emit (Attempt Spatial))
                        (\<lambda>_. bind (click_by_coordinates E x y)
                        (\<lambda>result. bind (emit (Clicked_at x y result))
                        (\<lambda>_. ret result)))
                  | None \<Rightarrow>
                      bind (of_sum (descriptive_text params))
                        (\<lambda>target_text. bind (click_optical E target_text)
                        (\<lambda>optical. case optical of
                           Some result \<Rightarrow> ret result
                         | None \<Rightarrow>
                             bind (of_sum (descriptive_text params))
                               (click_descriptive E)))))
            is_outcome"
      by (cases structural) (simp_all add: may_yield_ret rest)
  qed
qed

lemma run_action_may: "may_yield (run_action E action params dom_selector coords) is_outcome"
  unfolding run_action_def
  by (intro may_yield_if may_yield_bind' may_yield_ret navigate_may search_may
        input_text_may extract_text_may execute_click_may is_outcome_success is_outcome_error)

lemma run_action_emits:
  assumes "\<And>ms. P (Sleep ms)" and "use_dom_selector dom_selector \<Longrightarrow> P (Attempt Structural)"
    and "P (Attempt Spatial)" and "P (Attempt Optical)" and "P (Attempt Descriptive)"
    and "\<And>t found. P (Located t found)" and "\<And>x y out. P (Clicked_at x y out)"
  shows "emits P (run_action E action params dom_selector coords)"
proof -
  have click: "emits P (execute_click E params dom_selector coords)"
    using assms by (intro execute_click_emits) auto
  show ?thesis
    unfolding run_action_def
    by (intro emits_if emits_bind emits_of_sum emits_ret emits_time_sleep navigate_emits
          search_emits input_text_emits extract_text_emits click assms(1))
qed

lemma execute_step_yields: "yields (execute_step E step) is_outcome"
  unfolding execute_step_def Let_def
  by (intro yields_try run_action_may yields_ret is_outcome_error)

lemma execute_step_emits_gen:
  assumes "\<And>ms. P (Sleep ms)"
    and "use_dom_selector (py_strip (step_dom step)) \<Longrightarrow> P (Attempt Structural)"
    and "P (Attempt Spatial)" and "P (Attempt Optical)" and "P (Attempt Descriptive)"
    and "\<And>t found. P (Located t found)" and "\<And>x y out. P (Clicked_at x y out)"
  shows "emits P (execute_step E step)"
  unfolding execute_step_def Let_def using assms
  by (intro emits_try run_action_emits emits_ret) auto

lemma execute_step_emits: "emits step_event (execute_step E step)"
  by (rule execute_step_emits_gen) simp_all

text \<open>
  Claim C6. From every state, for every step and whatever the browser, the OCR and
  the page do, \<open>_execute_step\<close> returns (it raises nothing) a dictionary whose
  status is success or error and that carries a message; and when the dispatch
  inside its \<open>try\<close> raises \<open>e\<close>, the result is the error Outcome
  \<open>Error executing <action>: <e>\<close>.
\<close>

theorem execute_step_returns_outcome:
  "\<exists>out. fst (execute_step E step s) = Inr out
     \<and> (map_of out ''status'' = Some (PStr ''success'')
        \<or> map_of out ''status'' = Some (PStr ''error''))
     \<and> (\<exists>m. map_of out ''message'' = Some (PStr m))
     \<and> (\<forall>e. fst (run_action E (step_action step) (step_params step)
                    (py_strip (step_dom step)) (step_coords step) s) = Inl e
            \<longrightarrow> out = error (''Error executing '' @ step_action step @ '': '' @ str_of_exn e))"
proof -
  let ?body = "run_action E (step_action step) (step_params step)
                 (py_strip (step_dom step)) (step_coords step)"
  from execute_step_yields[of E step] obtain out
    where out: "fst (execute_step E step s) = Inr out" and ok: "is_outcome out"
    unfolding yields_def by blast
  have handled: "\<forall>e. fst (?body s) = Inl e
      \<longrightarrow> out = error (''Error executing '' @ step_action step @ '': '' @ str_of_exn e)"
  proof (intro allI impI)
    fix e assume raised: "fst (?body s) = Inl e"
    obtain r s' where body: "?body s = (r, s')" by (cases "?body s")
    with raised have r: "r = Inl e" by simp
    have "execute_step E step s
           = (Inr (error (''Error executing '' @ step_action step @ '': '' @ str_of_exn e)), s')"
      unfolding execute_step_def Let_def try_catch_def body r by (simp add: ret_def)
    with out show "out = error (''Error executing '' @ step_action step @ '': '' @ str_of_exn e)"
      by simp
  qed
  from ok have st: "map_of out ''status'' = Some (PStr ''success'')
        \<or> map_of out ''status'' = Some (PStr ''error'')"
    and msg: "\<exists>m. map_of out ''message'' = Some (PStr m)"
    unfolding is_outcome_def by blast+
  show ?thesis
  proof (intro exI[of _ out] conjI)
    show "fst (execute_step E step s) = Inr out" by (rule out)
    show "map_of out ''status'' = Some (PStr ''success'')
        \<or> map_of out ''status'' = Some (PStr ''error'')" by (rule st)
    show "\<exists>m. map_of out ''message'' = Some (PStr m)" by (rule msg)
    show "\<forall>e. fst (?body s) = Inl e
      \<longrightarrow> out = error (''Error executing '' @ step_action step @ '': '' @ str_of_exn e)"
      by (rule handled)
  qed
qed

lemma nav_without_url_raises:
  "fst (run_action silent_env (step_action nav_without_url) (step_params nav_without_url)
          (py_strip (step_dom nav_without_url)) (step_coords nav_without_url) init_st)
     = Inl (KeyError ''url'')"
  by (simp add: run_action_def nav_without_url_def bind_def of_sum_def dict_item_def)

theorem execute_step_returns_outcome_witness:
  "fst (run_action silent_env (step_action nav_without_url) (step_params nav_without_url)
          (py_strip (step_dom nav_without_url)) (step_coords nav_without_url) init_st)
     = Inl (KeyError ''url'')
   \<and> fst (execute_step silent_env nav_without_url init_st)
       = Inr [(''status'', PStr ''error''),
              (''message'', PStr (''Error executing navigate: '' @ [CHR 0x27] @ ''url'' @ [CHR 0x27]))]"
proof -
  from execute_step_returns_outcome[of silent_env nav_without_url init_st] obtain out
    where out: "fst (execute_step silent_env nav_without_url init_st) = Inr out"
      and handled: "\<forall>e. fst (run_action silent_env (step_action nav_without_url)
                (step_params nav_without_url) (py_strip (step_dom nav_without_url))
                (step_coords nav_without_url) init_st) = Inl e
            \<longrightarrow> out = error (''Error executing '' @ step_action nav_without_url @ '': ''
                              @ str_of_exn e)"
    by blast
  from handled nav_without_url_raises
  have "out = error (''Error executing '' @ step_action nav_without_url @ '': ''
                     @ str_of_exn (KeyError ''url''))"
    by blast
  then have "out = [(''status'', PStr ''error''),
              (''message'', PStr (''Error executing navigate: '' @ [CHR 0x27] @ ''url'' @ [CHR 0x27]))]"
    by (simp add: error_def outcome_def nav_without_url_def)
  with out nav_without_url_raises show ?thesis
    by simp
qed


section \<open>The wait action\<close>

lemma run_action_wait:
  "run_action E ''wait'' params dom_selector coords =
     bind (of_sum (py_int (dict_get params ''seconds'' (PInt 2))))
       (\<lambda>seconds. bind (time_sleep E (1000 * seconds))
       (\<lambda>_. ret (success (''Waited '' @ str_of_int seconds @ '' seconds''))))"
  by (simp add: run_action_def)

lemma execute_step_wait:
  assumes "step_action step = ''wait''"
  shows "execute_step E step s =
     (case py_int (dict_get (step_params step) ''seconds'' (PInt 2)) of
        Inl e \<Rightarrow> (Inr (error (''Error executing wait: '' @ str_of_exn e)), s)
      | Inr n \<Rightarrow>
          (case time_sleep E (1000 * n) s of
             (Inl e, s') \<Rightarrow> (Inr (error (''Error executing wait: '' @ str_of_exn e)), s')
           | (Inr u, s') \<Rightarrow>
               (Inr (success (''Waited '' @ str_of_int n @ '' seconds'')), s')))"
  unfolding execute_step_def Let_def assms run_action_wait
  by (simp add: try_catch_def bind_def of_sum_def ret_def split: sum.splits prod.splits)




lemma wait_samples:
  "step_action (wait_step ps) = ''wait'' \<and> step_params (wait_step ps) = ps"
  by (simp add: wait_step_def)






section \<open>The selector hint\<close>

lemma bind_Inr: "m s = (Inr x, s') \<Longrightarrow> bind m f s = f x s'"
  by (simp add: bind_def)

lemma bind_Inl: "m s = (Inl e, s') \<Longrightarrow> bind m f s = (Inl e, s')"
  by (simp add: bind_def)

lemma bind_ret: "bind (ret x) f = f x"
  by (rule ext) (simp add: bind_def ret_def)

lemma bind_of_sum_Inr: "bind (of_sum (Inr x)) f = f x"
  by (rule ext) (simp add: bind_def of_sum_def)

lemma bind_of_sum_Inl: "bind (of_sum (Inl e)) f = raise e"
  by (rule ext) (simp add: bind_def of_sum_def raise_def)

lemma list_all_False: "list_all (\<lambda>e. False) evs \<Longrightarrow> evs = []"
  by (cases evs) simp_all

lemma yields_emit: "yields (emit ev) (\<lambda>x. True)"
  by (simp add: yields_def emit_def)

lemma no_structural_tier:
  "list_all (\<lambda>e. e \<noteq> Attempt Structural) evs \<Longrightarrow> Structural \<notin> set (tiers_of evs)"
  by (induction evs rule: tiers_of.induct) auto

lemma use_dom_selector_NA: "py_upper d = ''N/A'' \<Longrightarrow> \<not> use_dom_selector d"
  by (simp add: use_dom_selector_def)

lemma py_strip_NA: "py_strip ''N/A'' = ''N/A''"
  by (simp add: py_strip_def py_isspace_def)

lemma py_upper_NA: "py_upper ''N/A'' = ''N/A''"
  by (simp add: py_upper_def char_upper_def lower_letters_def upper_letters_def)

lemma click_structural_skip: "\<not> use_dom_selector d \<Longrightarrow> click_structural E d = ret None"
  by (simp add: click_structural_def)

lemma choose_selector_skip:
  "\<not> use_dom_selector d \<Longrightarrow> choose_selector params d = descriptive_text params"
  by (simp add: choose_selector_def)

lemma run_action_skip:
  assumes "\<not> use_dom_selector a" and "\<not> use_dom_selector b"
  shows "run_action E action params a coords = run_action E action params b coords"
  unfolding run_action_def execute_click_def
    click_structural_skip[OF assms(1)] click_structural_skip[OF assms(2)]
    choose_selector_skip[OF assms(1)] choose_selector_skip[OF assms(2)]
  by (rule refl)

text \<open>
  Claim C9. A hint \<open>d\<close> whose stripped, upper-cased form is \<open>N/A\<close> (so \<open>n/a\<close>,
  \<open>n/A\<close>, \<open>N/a\<close> as well as \<open>N/A\<close>) is treated as the literal \<open>N/A\<close>: the
  step runs exactly as with that literal, whatever its action; no run of it attempts
  the structural tier; and \<open>input\<close> and \<open>extract\<close> take the selector of the
  parameters, not the hint.
\<close>

theorem dom_hint_case_insensitive:
  assumes "py_upper (py_strip d) = ''N/A''"
  shows "execute_step E (step\<lparr>step_dom := d\<rparr>) s = execute_step E (step\<lparr>step_dom := ''N/A''\<rparr>) s
       \<and> (\<exists>evs. trace (snd (execute_step E (step\<lparr>step_dom := d\<rparr>) s)) = trace s @ evs
                 \<and> Structural \<notin> set (tiers_of evs))
       \<and> choose_selector (step_params step) (py_strip d) = descriptive_text (step_params step)"
proof (intro conjI)
  have skip: "\<not> use_dom_selector (py_strip d)"
    using assms by (rule use_dom_selector_NA)
  have lit: "\<not> use_dom_selector (py_strip ''N/A'')"
    unfolding py_strip_NA using py_upper_NA by (rule use_dom_selector_NA)
  show "execute_step E (step\<lparr>step_dom := d\<rparr>) s = execute_step E (step\<lparr>step_dom := ''N/A''\<rparr>) s"
    unfolding execute_step_def Let_def
    by (simp add: run_action_skip[OF skip lit])
  have "emits (\<lambda>e. e \<noteq> Attempt Structural) (execute_step E (step\<lparr>step_dom := d\<rparr>))"
    by (rule execute_step_emits_gen) (simp_all add: skip)
  then obtain evs where "trace (snd (execute_step E (step\<lparr>step_dom := d\<rparr>) s)) = trace s @ evs"
    and "list_all (\<lambda>e. e \<noteq> Attempt Structural) evs"
    unfolding emits_def by blast
  then show "\<exists>evs. trace (snd (execute_step E (step\<lparr>step_dom := d\<rparr>) s)) = trace s @ evs
                 \<and> Structural \<notin> set (tiers_of evs)"
    using no_structural_tier by blast
  show "choose_selector (step_params step) (py_strip d) = descriptive_text (step_params step)"
    using skip by (rule choose_selector_skip)
qed

lemma lower_hint_upper: "py_upper (py_strip ''n/a'') = ''N/A'' \<and> py_upper (py_strip '' n/A '') = ''N/A''"
  by (simp add: py_strip_def py_isspace_def py_upper_def char_upper_def lower_letters_def
      upper_letters_def)

theorem dom_hint_case_insensitive_witness:
  "py_upper (py_strip ''n/a'') = ''N/A''
   \<and> execute_step ocr_env (cart_click\<lparr>step_dom := ''n/a''\<rparr>) init_st
       = execute_step ocr_env (cart_click\<lparr>step_dom := ''N/A''\<rparr>) init_st
   \<and> (\<exists>evs. trace (snd (execute_step ocr_env (cart_click\<lparr>step_dom := ''n/a''\<rparr>) init_st))
                = trace init_st @ evs \<and> Structural \<notin> set (tiers_of evs))
   \<and> choose_selector (step_params cart_click) (py_strip ''n/a'')
       = descriptive_text (step_params cart_click)
   \<and> py_upper (py_strip '' n/A '') = ''N/A''
   \<and> execute_step ocr_env (cart_click\<lparr>step_dom := '' n/A ''\<rparr>) init_st
       = execute_step ocr_env (cart_click\<lparr>step_dom := ''N/A''\<rparr>) init_st"
proof -
  have a: "py_upper (py_strip ''n/a'') = ''N/A''" and b: "py_upper (py_strip '' n/A '') = ''N/A''"
    using lower_hint_upper by blast+
  from dom_hint_case_insensitive[OF a, of ocr_env cart_click init_st]
    dom_hint_case_insensitive[OF b, of ocr_env cart_click init_st] a b
  show ?thesis by blast
qed

section \<open>The tiers of a click\<close>

lemma emit_eq: "emit ev s = (Inr (), s\<lparr>trace := trace s @ [ev]\<rparr>)"
  by (simp add: emit_def)

lemma click_by_coordinates_D:
  assumes "click_by_coordinates E x y s = (r, s')"
  shows "\<exists>out. r = Inr out \<and> is_outcome out \<and> trace s' = trace s"
  using yields_emitsD[OF click_by_coordinates_yields click_by_coordinates_emits assms,
      of "\<lambda>e. False"]
  by (auto dest: list_all_False)

lemma ocr_D:
  assumes "get_target_coordinates_ocr E t thr s = (r, s')"
  shows "\<exists>found. r = Inr found \<and> trace s' = trace s"
  using yields_emitsD[OF ocr_yields ocr_emits assms, of "\<lambda>e. False"]
  by (auto dest: list_all_False)

lemma click_D:
  assumes "click E selector s = (r, s')"
  shows "\<exists>out evs. r = Inr out \<and> is_outcome out \<and> trace s' = trace s @ evs
           \<and> list_all (\<lambda>e. e = Sleep 1000) evs"
  using yields_emitsD[OF click_yields click_emits assms, of "\<lambda>e. e = Sleep 1000"]
  by auto

lemma click_structural_D:
  assumes "click_structural E d s = (r, s')"
  shows "\<exists>res evs. r = Inr res \<and> trace s' = trace s @ evs
           \<and> list_all (\<lambda>e. e = Attempt Structural \<or> e = Sleep 1000) evs
           \<and> (\<not> use_dom_selector d \<longrightarrow> res = None \<and> evs = [])"
proof (cases "use_dom_selector d")
  case False
  with assms show ?thesis
    by (simp add: click_structural_skip ret_def)
next
  case True
  let ?body = "try_catch
                 (bind (click E d)
                    (\<lambda>result. bind (of_sum (dict_item result ''status''))
                    (\<lambda>status. if status = PStr ''success'' then ret (Some result)
                               else ret None)))
                 (\<lambda>click_exception. ret None)"
  have y: "yields ?body (\<lambda>x. True)"
    by (intro yields_try may_yield_true yields_ret TrueI)
  have e: "emits (\<lambda>e. e = Sleep 1000) ?body"
    by (intro emits_try emits_bind emits_of_sum emits_if emits_ret click_emits refl)
  let ?s1 = "s\<lparr>trace := trace s @ [Attempt Structural]\<rparr>"
  from assms True have run: "?body ?s1 = (r, s')"
    by (simp add: click_structural_def bind_def emit_def)
  from yields_emitsD[OF y e run] obtain res evs
    where "r = Inr res" "trace s' = trace ?s1 @ evs" "list_all (\<lambda>e. e = Sleep 1000) evs"
    by blast
  then have "r = Inr res \<and> trace s' = trace s @ (Attempt Structural # evs)
           \<and> list_all (\<lambda>e. e = Attempt Structural \<or> e = Sleep 1000) (Attempt Structural # evs)"
    by (auto simp: list_all_iff)
  with True show ?thesis by blast
qed

lemma click_optical_D:
  assumes "target \<noteq> []" and "click_optical E target s = (r, s')"
  shows "(\<exists>x y out. r = Inr (Some out)
            \<and> trace s' = trace s @ [Attempt Optical, Located target (Some (x, y)),
                                     Clicked_at (PInt x) (PInt y) out]
            \<and> (\<exists>s3 s4. click_by_coordinates E (PInt x) (PInt y) s3 = (Inr out, s4)
                   \<and> s' = s4\<lparr>trace := trace s4 @ [Clicked_at (PInt x) (PInt y) out]\<rparr>))
         \<or> (r = Inr None \<and> trace s' = trace s @ [Attempt Optical, Located target None])"
proof -
  let ?s1 = "s\<lparr>trace := trace s @ [Attempt Optical]\<rparr>"
  obtain ro s2 where ocr: "get_target_coordinates_ocr E target 60 ?s1 = (ro, s2)"
    by (cases "get_target_coordinates_ocr E target 60 ?s1")
  from ocr_D[OF ocr] obtain found where found: "ro = Inr found" and t2: "trace s2 = trace ?s1"
    by blast
  let ?s3 = "s2\<lparr>trace := trace s2 @ [Located target found]\<rparr>"
  show ?thesis
  proof (cases found)
    case None
    with assms ocr found t2 show ?thesis
      by (auto simp: click_optical_def bind_def emit_def ret_def)
  next
    case (Some xy)
    obtain x y where xy: "xy = (x, y)" by (cases xy)
    obtain rc s4 where cl: "click_by_coordinates E (PInt x) (PInt y) ?s3 = (rc, s4)"
      by (cases "click_by_coordinates E (PInt x) (PInt y) ?s3")
    from click_by_coordinates_D[OF cl] obtain out where out: "rc = Inr out"
      and t4: "trace s4 = trace ?s3" by blast
    from assms ocr found Some xy cl out
    have "click_optical E target s
            = (Inr (Some out), s4\<lparr>trace := trace s4 @ [Clicked_at (PInt x) (PInt y) out]\<rparr>)"
      by (simp add: click_optical_def bind_def emit_def ret_def)
    with assms(2) have r: "r = Inr (Some out)"
      and s': "s' = s4\<lparr>trace := trace s4 @ [Clicked_at (PInt x) (PInt y) out]\<rparr>"
      by simp_all
    from s' t4 t2 Some xy have "trace s' = trace s @ [Attempt Optical, Located target (Some (x, y)),
                                     Clicked_at (PInt x) (PInt y) out]"
      by simp
    with r s' cl out show ?thesis
      by blast
  qed
qed

lemma click_descriptive_D:
  assumes "selector \<noteq> []" and "click_descriptive E selector s = (r, s')"
  shows "\<exists>out evs. r = Inr out \<and> trace s' = trace s @ Attempt Descriptive # evs
           \<and> list_all (\<lambda>e. e = Sleep 1000) evs"
proof -
  let ?s1 = "s\<lparr>trace := trace s @ [Attempt Descriptive]\<rparr>"
  from assms have "click E selector ?s1 = (r, s')"
    by (simp add: click_descriptive_def bind_def emit_def)
  from click_D[OF this] show ?thesis by auto
qed

lemma execute_click_D:
  assumes "execute_click E params d coords s = (r, s')"
  shows "\<exists>pre post. trace s' = trace s @ pre @ post
     \<and> list_all (\<lambda>e. e = Attempt Structural \<or> e = Sleep 1000) pre
     \<and> (\<not> use_dom_selector d \<longrightarrow> pre = [])
     \<and> ((post = [] \<and> (use_dom_selector d
                        \<or> (coords_xy coords = None
                            \<and> ((\<exists>e. descriptive_text params = Inl e)
                                \<or> descriptive_text params = Inr []))))
        \<or> (\<exists>x y out. coords_xy coords = Some (x, y)
               \<and> post = [Attempt Spatial, Clicked_at x y out] \<and> r = Inr out)
        \<or> (\<exists>t x y out. coords_xy coords = None \<and> descriptive_text params = Inr t \<and> t \<noteq> []
               \<and> post = [Attempt Optical, Located t (Some (x, y)),
                          Clicked_at (PInt x) (PInt y) out]
               \<and> r = Inr out
               \<and> (\<exists>s3 s4. click_by_coordinates E (PInt x) (PInt y) s3 = (Inr out, s4)
                      \<and> s' = s4\<lparr>trace := trace s4 @ [Clicked_at (PInt x) (PInt y) out]\<rparr>))
        \<or> (\<exists>t sl. coords_xy coords = None \<and> descriptive_text params = Inr t \<and> t \<noteq> []
               \<and> post = [Attempt Optical, Located t None, Attempt Descriptive] @ sl
               \<and> list_all (\<lambda>e. e = Sleep 1000) sl))"
proof -
  obtain r1 s1 where cs: "click_structural E d s = (r1, s1)"
    by (cases "click_structural E d s")
  from click_structural_D[OF cs] obtain res pre where r1: "r1 = Inr res"
    and t1: "trace s1 = trace s @ pre"
    and pre: "list_all (\<lambda>e. e = Attempt Structural \<or> e = Sleep 1000) pre"
    and skip: "\<not> use_dom_selector d \<longrightarrow> res = None \<and> pre = []"
    by blast
  let ?rest = "\<lambda>structural. case structural of
          Some result \<Rightarrow> ret result
        | None \<Rightarrow>
            (case coords_xy coords of
               Some (x, y) \<Rightarrow>
                 bind (emit (Attempt Spatial))
                   (\<lambda>_. bind (click_by_coordinates E x y)
                   (\<lambda>result. bind (emit (Clicked_at x y result))
                   (\<lambda>_. ret result)))
             | None \<Rightarrow>
                 bind (of_sum (descriptive_text params))
                   (\<lambda>target_text. bind (click_optical E target_text)
                   (\<lambda>optical. case optical of
                      Some result \<Rightarrow> ret result
                    | None \<Rightarrow>
                        bind (of_sum (descriptive_text params))
                          (click_descriptive E))))"
  have run: "?rest res s1 = (r, s')"
    using assms cs r1 unfolding execute_click_def by (simp add: bind_def)
  show ?thesis
  proof (cases res)
    case (Some out)
    with run have "s' = s1" by (simp add: ret_def)
    moreover from Some skip have "use_dom_selector d" by auto
    ultimately show ?thesis
      using t1 pre by (intro exI[of _ pre] exI[of _ "[]"]) simp
  next
    case None
    note res_None = this
    show ?thesis
    proof (cases "coords_xy coords")
      case (Some xy)
      obtain x y where xy: "xy = (x, y)" by (cases xy)
      let ?s2 = "s1\<lparr>trace := trace s1 @ [Attempt Spatial]\<rparr>"
      obtain rc s3 where cl: "click_by_coordinates E x y ?s2 = (rc, s3)"
        by (cases "click_by_coordinates E x y ?s2")
      from click_by_coordinates_D[OF cl] obtain out where out: "rc = Inr out"
        and t3: "trace s3 = trace ?s2" by blast
      from run res_None Some xy cl out
      have "(r, s') = (Inr out, s3\<lparr>trace := trace s3 @ [Clicked_at x y out]\<rparr>)"
        by (simp add: bind_def emit_def ret_def)
      then have "r = Inr out" and "trace s' = trace s @ pre @ [Attempt Spatial, Clicked_at x y out]"
        using t3 t1 by auto
      with Some xy pre skip show ?thesis
        by (intro exI[of _ pre] exI[of _ "[Attempt Spatial, Clicked_at x y out]"]) auto
    next
      case None
      note no_coords = this
      show ?thesis
      proof (cases "descriptive_text params")
        case (Inl e)
        with run res_None no_coords have "s' = s1"
          by (simp add: bind_def of_sum_def)
        with t1 pre skip no_coords Inl show ?thesis
          by (intro exI[of _ pre] exI[of _ "[]"]) auto
      next
        case (Inr t)
        note descr = this
        have run2: "bind (click_optical E t)
                      (\<lambda>optical. case optical of
                         Some result \<Rightarrow> ret result
                       | None \<Rightarrow> click_descriptive E t) s1 = (r, s')"
          using run res_None no_coords descr by (simp add: bind_of_sum_Inr)
        show ?thesis
        proof (cases "t = []")
          case True
          with run2 have "s' = s1"
            by (simp add: click_optical_def click_descriptive_def bind_def ret_def)
          with t1 pre skip no_coords descr True show ?thesis
            by (intro exI[of _ pre] exI[of _ "[]"]) auto
        next
          case False
          obtain ro s2 where co: "click_optical E t s1 = (ro, s2)"
            by (cases "click_optical E t s1")
          from click_optical_D[OF False co]
          consider (located) x y out where "ro = Inr (Some out)"
              "trace s2 = trace s1 @ [Attempt Optical, Located t (Some (x, y)),
                                      Clicked_at (PInt x) (PInt y) out]"
              "\<exists>s3 s4. click_by_coordinates E (PInt x) (PInt y) s3 = (Inr out, s4)
                   \<and> s2 = s4\<lparr>trace := trace s4 @ [Clicked_at (PInt x) (PInt y) out]\<rparr>"
            | (missed) "ro = Inr None"
              "trace s2 = trace s1 @ [Attempt Optical, Located t None]"
            by blast
          then show ?thesis
          proof cases
            case located
            from run2 co located(1) have "r = Inr out" and "s' = s2"
              by (simp_all add: bind_def ret_def)
            with located(2) t1 have "trace s' = trace s @ pre @
                [Attempt Optical, Located t (Some (x, y)), Clicked_at (PInt x) (PInt y) out]"
              by simp
            moreover from located(3) \<open>s' = s2\<close>
            have "\<exists>s3 s4. click_by_coordinates E (PInt x) (PInt y) s3 = (Inr out, s4)
                   \<and> s' = s4\<lparr>trace := trace s4 @ [Clicked_at (PInt x) (PInt y) out]\<rparr>"
              by simp
            ultimately show ?thesis
              using \<open>r = Inr out\<close> pre skip no_coords descr False
              by (intro exI[of _ pre]
                    exI[of _ "[Attempt Optical, Located t (Some (x, y)),
                               Clicked_at (PInt x) (PInt y) out]"]) auto
          next
            case missed
            from run2 co missed(1) have cd: "click_descriptive E t s2 = (r, s')"
              by (simp add: bind_def)
            from click_descriptive_D[OF False cd] obtain out sl where "r = Inr out"
              and t': "trace s' = trace s2 @ Attempt Descriptive # sl"
              and sl: "list_all (\<lambda>e. e = Sleep 1000) sl" by blast
            from t' missed(2) t1 have "trace s' = trace s @ pre @
                ([Attempt Optical, Located t None, Attempt Descriptive] @ sl)"
              by simp
            with sl pre skip no_coords descr False show ?thesis
              by (intro exI[of _ pre]
                    exI[of _ "[Attempt Optical, Located t None, Attempt Descriptive] @ sl"]) auto
          qed
        qed
      qed
    qed
  qed
qed

lemma run_action_click:
  "run_action E ''click'' params dom_selector coords = execute_click E params dom_selector coords"
  by (simp add: run_action_def)

lemma execute_step_click_D:
  assumes "step_action step = ''click''" and "execute_step E step s = (r, s')"
  shows "\<exists>r0 out. execute_click E (step_params step) (py_strip (step_dom step)) (step_coords step) s
                  = (r0, s')
               \<and> r = Inr out \<and> (\<forall>x. r0 = Inr x \<longrightarrow> out = x)"
proof -
  obtain r0 s0 where ec: "execute_click E (step_params step) (py_strip (step_dom step))
                            (step_coords step) s = (r0, s0)"
    by (cases "execute_click E (step_params step) (py_strip (step_dom step)) (step_coords step) s")
  from assms(2) have "try_catch (execute_click E (step_params step) (py_strip (step_dom step))
                        (step_coords step))
                 (\<lambda>e. ret (error (''Error executing '' @ ''click'' @ '': '' @ str_of_exn e))) s
               = (r, s')"
    unfolding execute_step_def Let_def assms(1) run_action_click .
  with ec show ?thesis
    by (cases r0) (auto simp: try_catch_def ret_def)
qed

lemma tiers_of_append: "tiers_of (xs @ ys) = tiers_of xs @ tiers_of ys"
  by (induction xs rule: tiers_of.induct) simp_all

lemma tiers_of_sleeps: "list_all (\<lambda>e. e = Sleep 1000) sl \<Longrightarrow> tiers_of sl = []"
  by (induction sl) auto

lemma tiers_of_structural:
  "list_all (\<lambda>e. e = Attempt Structural \<or> e = Sleep 1000) pre
     \<Longrightarrow> Descriptive \<notin> set (tiers_of pre)"
  by (induction pre) auto

lemma no_located_in_pre:
  "list_all (\<lambda>e. e = Attempt Structural \<or> e = Sleep 1000) pre \<Longrightarrow> Located t found \<notin> set pre"
  by (induction pre) auto

lemma no_located_in_sleeps:
  "list_all (\<lambda>e. e = Sleep 1000) sl \<Longrightarrow> Located t found \<notin> set sl"
  by (induction sl) auto

text \<open>
  Claim C2. Take a click whose hint is the literal \<open>N/A\<close>, that carries no usable
  coordinates and whose descriptive text (the selector parameter, stripped as the
  source strips it before testing it) is not empty. The first thing the step does
  to the browser is the OCR search for that text, from the state the step started
  in: neither the structural nor the spatial tier runs. If the search returns
  coordinates, the step clicks there and returns what \<open>click_by_coordinates\<close>
  returned; the descriptive tier is not attempted. If the search returns nothing,
  the step calls the controller's \<open>click\<close> with the descriptive text as selector
  and returns what that call returned.
\<close>

theorem click_without_hint_tries_ocr_then_text:
  assumes "step_action step = ''click''" and "step_dom step = ''N/A''"
    and "coords_xy (step_coords step) = None"
    and "descriptive_text (step_params step) = Inr target" and "target \<noteq> []"
  shows "\<exists>found s2.
           get_target_coordinates_ocr E target 60 (s\<lparr>trace := trace s @ [Attempt Optical]\<rparr>)
             = (Inr found, s2)
         \<and> (case found of
              Some (x, y) \<Rightarrow>
                (\<exists>out s4.
                   click_by_coordinates E (PInt x) (PInt y)
                     (s2\<lparr>trace := trace s2 @ [Located target (Some (x, y))]\<rparr>) = (Inr out, s4)
                   \<and> execute_step E step s
                       = (Inr out, s4\<lparr>trace := trace s4 @ [Clicked_at (PInt x) (PInt y) out]\<rparr>)
                   \<and> trace s4 = trace s @ [Attempt Optical, Located target (Some (x, y))])
            | None \<Rightarrow>
                (\<exists>out s4 sleeps.
                   click E target
                     (s2\<lparr>trace := trace s2 @ [Located target None, Attempt Descriptive]\<rparr>)
                     = (Inr out, s4)
                   \<and> execute_step E step s = (Inr out, s4)
                   \<and> trace s4 = trace s @ [Attempt Optical, Located target None,
                                            Attempt Descriptive] @ sleeps
                   \<and> list_all (\<lambda>e. e = Sleep 1000) sleeps))"
proof -
  have skip: "\<not> use_dom_selector (py_strip (step_dom step))"
    unfolding assms(2) py_strip_NA using py_upper_NA by (rule use_dom_selector_NA)
  let ?s1 = "s\<lparr>trace := trace s @ [Attempt Optical]\<rparr>"
  obtain ro s2 where ocr: "get_target_coordinates_ocr E target 60 ?s1 = (ro, s2)"
    by (cases "get_target_coordinates_ocr E target 60 ?s1")
  from ocr_D[OF ocr] obtain found where ro: "ro = Inr found" and t2: "trace s2 = trace ?s1"
    by blast
  have step_is: "execute_step E step s
      = try_catch (execute_click E (step_params step) (py_strip (step_dom step))
                     (step_coords step))
          (\<lambda>e. ret (error (''Error executing '' @ ''click'' @ '': '' @ str_of_exn e))) s"
    unfolding execute_step_def Let_def assms(1) run_action_click ..
  show ?thesis
  proof (cases found)
    case None
    let ?s3 = "s2\<lparr>trace := trace s2 @ [Located target None, Attempt Descriptive]\<rparr>"
    obtain rc s4 where cl: "click E target ?s3 = (rc, s4)"
      by (cases "click E target ?s3")
    from click_D[OF cl] obtain out sleeps where out: "rc = Inr out"
      and t4: "trace s4 = trace ?s3 @ sleeps" and sl: "list_all (\<lambda>e. e = Sleep 1000) sleeps"
      by blast
    have "execute_click E (step_params step) (py_strip (step_dom step)) (step_coords step) s
            = (Inr out, s4)"
      unfolding execute_click_def click_structural_skip[OF skip] bind_ret
      using assms(3,4,5) ocr ro None cl out
      by (simp add: bind_of_sum_Inr click_optical_def click_descriptive_def bind_def emit_def
          ret_def)
    then have run: "execute_step E step s = (Inr out, s4)"
      unfolding step_is by (simp add: try_catch_def)
    from t4 t2 have "trace s4 = trace s @ [Attempt Optical, Located target None,
                                            Attempt Descriptive] @ sleeps"
      by simp
    with cl out run sl have "\<exists>out s4 sleeps.
                   click E target ?s3 = (Inr out, s4)
                   \<and> execute_step E step s = (Inr out, s4)
                   \<and> trace s4 = trace s @ [Attempt Optical, Located target None,
                                            Attempt Descriptive] @ sleeps
                   \<and> list_all (\<lambda>e. e = Sleep 1000) sleeps"
      by blast
    with ocr ro None show ?thesis
      by (intro exI[of _ found] exI[of _ s2]) simp
  next
    case (Some xy)
    obtain x y where xy: "xy = (x, y)" by (cases xy)
    let ?s3 = "s2\<lparr>trace := trace s2 @ [Located target (Some (x, y))]\<rparr>"
    obtain rc s4 where cl: "click_by_coordinates E (PInt x) (PInt y) ?s3 = (rc, s4)"
      by (cases "click_by_coordinates E (PInt x) (PInt y) ?s3")
    from click_by_coordinates_D[OF cl] obtain out where out: "rc = Inr out"
      and t4: "trace s4 = trace ?s3" by blast
    have "execute_click E (step_params step) (py_strip (step_dom step)) (step_coords step) s
            = (Inr out, s4\<lparr>trace := trace s4 @ [Clicked_at (PInt x) (PInt y) out]\<rparr>)"
      unfolding execute_click_def click_structural_skip[OF skip] bind_ret
      using assms(3,4,5) ocr ro Some xy cl out
      by (simp add: bind_of_sum_Inr click_optical_def bind_def emit_def ret_def)
    then have run: "execute_step E step s
                      = (Inr out, s4\<lparr>trace := trace s4 @ [Clicked_at (PInt x) (PInt y) out]\<rparr>)"
      unfolding step_is by (simp add: try_catch_def)
    from t4 t2 have "trace s4 = trace s @ [Attempt Optical, Located target (Some (x, y))]"
      by simp
    with cl out run have "\<exists>out s4.
                   click_by_coordinates E (PInt x) (PInt y) ?s3 = (Inr out, s4)
                   \<and> execute_step E step s
                       = (Inr out, s4\<lparr>trace := trace s4 @ [Clicked_at (PInt x) (PInt y) out]\<rparr>)
                   \<and> trace s4 = trace s @ [Attempt Optical, Located target (Some (x, y))]"
      by blast
    with ocr ro Some xy show ?thesis
      by (intro exI[of _ found] exI[of _ s2]) simp
  qed
qed

text \<open>
  Claim C10. Whenever a click's OCR tier returns coordinates \<open>(x, y)\<close>, the step's
  result is the Outcome that \<open>click_by_coordinates\<close> returned for \<open>(x, y)\<close>, that
  click is the last thing the step does, and the descriptive-as-selector tier is not
  attempted, whether that Outcome is a success or an error.
\<close>

theorem located_click_is_final:
  assumes "step_action step = ''click''" and "execute_step E step s = (r, s')"
    and "trace s' = trace s @ evs" and "Located t (Some (x, y)) \<in> set evs"
  shows "\<exists>out. r = Inr out
           \<and> (\<exists>s3 s4. click_by_coordinates E (PInt x) (PInt y) s3 = (Inr out, s4)
                  \<and> s' = s4\<lparr>trace := trace s4 @ [Clicked_at (PInt x) (PInt y) out]\<rparr>)
           \<and> evs \<noteq> [] \<and> last evs = Clicked_at (PInt x) (PInt y) out
           \<and> Descriptive \<notin> set (tiers_of evs)"
proof -
  from execute_step_click_D[OF assms(1,2)] obtain r0 out
    where ec: "execute_click E (step_params step) (py_strip (step_dom step)) (step_coords step) s
                 = (r0, s')"
      and r: "r = Inr out" and same: "\<forall>v. r0 = Inr v \<longrightarrow> out = v"
    by blast
  from execute_click_D[OF ec] obtain pre post where split: "trace s' = trace s @ pre @ post"
    and pre: "list_all (\<lambda>e. e = Attempt Structural \<or> e = Sleep 1000) pre"
    and shape: "(post = [])
        \<or> (\<exists>x y out. post = [Attempt Spatial, Clicked_at x y out])
        \<or> (\<exists>t x y out. post = [Attempt Optical, Located t (Some (x, y)),
                                 Clicked_at (PInt x) (PInt y) out]
               \<and> r0 = Inr out
               \<and> (\<exists>s3 s4. click_by_coordinates E (PInt x) (PInt y) s3 = (Inr out, s4)
                      \<and> s' = s4\<lparr>trace := trace s4 @ [Clicked_at (PInt x) (PInt y) out]\<rparr>))
        \<or> (\<exists>t sl. post = [Attempt Optical, Located t None, Attempt Descriptive] @ sl
               \<and> list_all (\<lambda>e. e = Sleep 1000) sl)"
    by blast
  from split assms(3) have evs: "evs = pre @ post" by simp
  with assms(4) no_located_in_pre[OF pre] have inpost: "Located t (Some (x, y)) \<in> set post"
    by auto
  have third: "\<exists>out'. post = [Attempt Optical, Located t (Some (x, y)),
                                 Clicked_at (PInt x) (PInt y) out']
               \<and> r0 = Inr out'
               \<and> (\<exists>s3 s4. click_by_coordinates E (PInt x) (PInt y) s3 = (Inr out', s4)
                      \<and> s' = s4\<lparr>trace := trace s4 @ [Clicked_at (PInt x) (PInt y) out']\<rparr>)"
    using shape
  proof (elim disjE exE conjE)
    assume "post = []"
    with inpost show ?thesis by simp
  next
    fix a b c assume "post = [Attempt Spatial, Clicked_at a b c]"
    with inpost show ?thesis by simp
  next
    fix t' x' y' out' s3 s4
    assume p: "post = [Attempt Optical, Located t' (Some (x', y')),
                       Clicked_at (PInt x') (PInt y') out']"
      and "r0 = Inr out'"
      and "click_by_coordinates E (PInt x') (PInt y') s3 = (Inr out', s4)"
      and "s' = s4\<lparr>trace := trace s4 @ [Clicked_at (PInt x') (PInt y') out']\<rparr>"
    moreover from p inpost have "t' = t" "x' = x" "y' = y" by simp_all
    ultimately show ?thesis by blast
  next
    fix t' sl assume p: "post = [Attempt Optical, Located t' None, Attempt Descriptive] @ sl"
      and sl: "list_all (\<lambda>e. e = Sleep 1000) sl"
    from p inpost have "Located t (Some (x, y)) \<in> set sl" by simp
    with no_located_in_sleeps[OF sl] show ?thesis by blast
  qed
  then obtain out' where post: "post = [Attempt Optical, Located t (Some (x, y)),
                                 Clicked_at (PInt x) (PInt y) out']"
    and r0: "r0 = Inr out'"
    and link: "\<exists>s3 s4. click_by_coordinates E (PInt x) (PInt y) s3 = (Inr out', s4)
                      \<and> s' = s4\<lparr>trace := trace s4 @ [Clicked_at (PInt x) (PInt y) out']\<rparr>"
    by blast
  from r0 same have "out = out'" by simp
  moreover have "Descriptive \<notin> set (tiers_of evs)"
    unfolding evs post tiers_of_append using tiers_of_structural[OF pre] by simp
  moreover have "evs \<noteq> []" "last evs = Clicked_at (PInt x) (PInt y) out'"
    unfolding evs post by simp_all
  ultimately show ?thesis
    using r link by blast
qed

lemma cart_click_hypotheses:
  "step_action cart_click = ''click'' \<and> step_dom cart_click = ''N/A''
   \<and> coords_xy (step_coords cart_click) = None
   \<and> descriptive_text (step_params cart_click) = Inr ''Add to cart''
   \<and> ''Add to cart'' \<noteq> []"
  by (simp add: cart_click_def coords_xy_def descriptive_text_def dict_get_def py_strip_def
      py_isspace_def)

lemma ocr_env_locates:
  "get_target_coordinates_ocr ocr_env ''Add to cart'' 60 s
     = (if client s then (Inr (Some (125, 210)), s) else (Inr None, s))"
  by (simp add: get_target_coordinates_ocr_def try_catch_def bind_def on_client_def call_def
      ocr_env_def silent_env_def sample_eval ret_def raise_def)

lemma ocr_env_point_miss:
  "client s \<Longrightarrow> click_by_coordinates ocr_env (PInt 125) (PInt 210) s
     = (Inr (error ''No element found at coordinates (125, 210)''), s)"
  by (simp add: click_by_coordinates_def try_catch_def bind_def on_client_def call_def
      ocr_env_def silent_env_def ret_def str_of_int_def digits_of_nat.simps)

lemma cart_click_located_run:
  "execute_step ocr_env cart_click init_st
     = (Inr (error ''No element found at coordinates (125, 210)''),
        init_st\<lparr>trace := [Attempt Optical, Located ''Add to cart'' (Some (125, 210)),
                           Clicked_at (PInt 125) (PInt 210)
                             (error ''No element found at coordinates (125, 210)'')]\<rparr>)"
proof -
  have skip: "\<not> use_dom_selector (py_strip (step_dom cart_click))"
    using cart_click_hypotheses py_strip_NA py_upper_NA use_dom_selector_NA by simp
  have "execute_click ocr_env (step_params cart_click) (py_strip (step_dom cart_click))
          (step_coords cart_click) init_st
        = (Inr (error ''No element found at coordinates (125, 210)''),
           init_st\<lparr>trace := [Attempt Optical, Located ''Add to cart'' (Some (125, 210)),
                           Clicked_at (PInt 125) (PInt 210)
                             (error ''No element found at coordinates (125, 210)'')]\<rparr>)"
    unfolding execute_click_def click_structural_skip[OF skip] bind_ret
    using cart_click_hypotheses
    by (simp add: bind_of_sum_Inr click_optical_def bind_def emit_def ocr_env_locates
        ocr_env_point_miss init_st_def ret_def)
  then show ?thesis
    unfolding execute_step_def Let_def
    using cart_click_hypotheses by (simp add: run_action_click try_catch_def)
qed

lemma silent_env_sees_nothing:
  "get_target_coordinates_ocr silent_env ''Add to cart'' 60 s = (Inr None, s)"
  by (simp add: get_target_coordinates_ocr_def try_catch_def bind_def on_client_def call_def
      silent_env_def ret_def raise_def)

lemma silent_env_click_misses:
  "client s \<Longrightarrow> click silent_env ''Add to cart'' s
     = (Inr (error ''Element not found: Add to cart''), s)"
  by (simp add: click_def find_element_def try_catch_def bind_def on_client_def call_def
      silent_env_def ret_def)

lemma cart_click_missed_run:
  "execute_step silent_env cart_click init_st
     = (Inr (error ''Element not found: Add to cart''),
        init_st\<lparr>trace := [Attempt Optical, Located ''Add to cart'' None,
                           Attempt Descriptive]\<rparr>)"
proof -
  have skip: "\<not> use_dom_selector (py_strip (step_dom cart_click))"
    using cart_click_hypotheses py_strip_NA py_upper_NA use_dom_selector_NA by simp
  have "execute_click silent_env (step_params cart_click) (py_strip (step_dom cart_click))
          (step_coords cart_click) init_st
        = (Inr (error ''Element not found: Add to cart''),
           init_st\<lparr>trace := [Attempt Optical, Located ''Add to cart'' None,
                           Attempt Descriptive]\<rparr>)"
    unfolding execute_click_def click_structural_skip[OF skip] bind_ret
    using cart_click_hypotheses
    by (simp add: bind_of_sum_Inr click_optical_def click_descriptive_def bind_def emit_def
        silent_env_sees_nothing silent_env_click_misses init_st_def ret_def)
  then show ?thesis
    unfolding execute_step_def Let_def
    using cart_click_hypotheses by (simp add: run_action_click try_catch_def)
qed

theorem click_without_hint_tries_ocr_then_text_witness:
  "step_action cart_click = ''click'' \<and> step_dom cart_click = ''N/A''
   \<and> coords_xy (step_coords cart_click) = None
   \<and> descriptive_text (step_params cart_click) = Inr ''Add to cart''
   \<and> ''Add to cart'' \<noteq> []
   \<and> execute_step ocr_env cart_click init_st
       = (Inr (error ''No element found at coordinates (125, 210)''),
          init_st\<lparr>trace := [Attempt Optical, Located ''Add to cart'' (Some (125, 210)),
                             Clicked_at (PInt 125) (PInt 210)
                               (error ''No element found at coordinates (125, 210)'')]\<rparr>)
   \<and> execute_step silent_env cart_click init_st
       = (Inr (error ''Element not found: Add to cart''),
          init_st\<lparr>trace := [Attempt Optical, Located ''Add to cart'' None,
                             Attempt Descriptive]\<rparr>)
   \<and> (\<exists>found s2.
           get_target_coordinates_ocr ocr_env ''Add to cart'' 60
             (init_st\<lparr>trace := trace init_st @ [Attempt Optical]\<rparr>) = (Inr found, s2)
         \<and> (case found of
              Some (x, y) \<Rightarrow>
                (\<exists>out s4.
                   click_by_coordinates ocr_env (PInt x) (PInt y)
                     (s2\<lparr>trace := trace s2 @ [Located ''Add to cart'' (Some (x, y))]\<rparr>)
                     = (Inr out, s4)
                   \<and> execute_step ocr_env cart_click init_st
                       = (Inr out, s4\<lparr>trace := trace s4 @ [Clicked_at (PInt x) (PInt y) out]\<rparr>)
                   \<and> trace s4 = trace init_st @ [Attempt Optical,
                                                   Located ''Add to cart'' (Some (x, y))])
            | None \<Rightarrow>
                (\<exists>out s4 sleeps.
                   click ocr_env ''Add to cart''
                     (s2\<lparr>trace := trace s2 @ [Located ''Add to cart'' None,
                                               Attempt Descriptive]\<rparr>)
                     = (Inr out, s4)
                   \<and> execute_step ocr_env cart_click init_st = (Inr out, s4)
                   \<and> trace s4 = trace init_st @ [Attempt Optical, Located ''Add to cart'' None,
                                                   Attempt Descriptive] @ sleeps
                   \<and> list_all (\<lambda>e. e = Sleep 1000) sleeps)))
   \<and> (\<exists>found s2.
           get_target_coordinates_ocr silent_env ''Add to cart'' 60
             (init_st\<lparr>trace := trace init_st @ [Attempt Optical]\<rparr>) = (Inr found, s2)
         \<and> (case found of
              Some (x, y) \<Rightarrow>
                (\<exists>out s4.
                   click_by_coordinates silent_env (PInt x) (PInt y)
                     (s2\<lparr>trace := trace s2 @ [Located ''Add to cart'' (Some (x, y))]\<rparr>)
                     = (Inr out, s4)
                   \<and> execute_step silent_env cart_click init_st
                       = (Inr out, s4\<lparr>trace := trace s4 @ [Clicked_at (PInt x) (PInt y) out]\<rparr>)
                   \<and> trace s4 = trace init_st @ [Attempt Optical,
                                                   Located ''Add to cart'' (Some (x, y))])
            | None \<Rightarrow>
                (\<exists>out s4 sleeps.
                   click silent_env ''Add to cart''
                     (s2\<lparr>trace := trace s2 @ [Located ''Add to cart'' None,
                                               Attempt Descriptive]\<rparr>)
                     = (Inr out, s4)
                   \<and> execute_step silent_env cart_click init_st = (Inr out, s4)
                   \<and> trace s4 = trace init_st @ [Attempt Optical, Located ''Add to cart'' None,
                                                   Attempt Descriptive] @ sleeps
                   \<and> list_all (\<lambda>e. e = Sleep 1000) sleeps)))"
proof -
  have h: "step_action cart_click = ''click''" "step_dom cart_click = ''N/A''"
    "coords_xy (step_coords cart_click) = None"
    "descriptive_text (step_params cart_click) = Inr ''Add to cart''"
    "''Add to cart'' \<noteq> []"
    using cart_click_hypotheses by blast+
  note a = click_without_hint_tries_ocr_then_text[OF h, of ocr_env init_st]
  note b = click_without_hint_tries_ocr_then_text[OF h, of silent_env init_st]
  show ?thesis
    using h a b cart_click_located_run cart_click_missed_run by blast
qed

theorem located_click_is_final_witness:
  "step_action cart_click = ''click''
   \<and> execute_step ocr_env cart_click init_st
       = (Inr (error ''No element found at coordinates (125, 210)''),
          init_st\<lparr>trace := [Attempt Optical, Located ''Add to cart'' (Some (125, 210)),
                             Clicked_at (PInt 125) (PInt 210)
                               (error ''No element found at coordinates (125, 210)'')]\<rparr>)
   \<and> Located ''Add to cart'' (Some (125, 210))
       \<in> set [Attempt Optical, Located ''Add to cart'' (Some (125, 210)),
               Clicked_at (PInt 125) (PInt 210)
                 (error ''No element found at coordinates (125, 210)'')]
   \<and> map_of (error ''No element found at coordinates (125, 210)'') ''status''
       = Some (PStr ''error'')
   \<and> (\<exists>out. Inr (error ''No element found at coordinates (125, 210)'') = (Inr out :: exn + pydict)
          \<and> last [Attempt Optical, Located ''Add to cart'' (Some (125, 210)),
                   Clicked_at (PInt 125) (PInt 210)
                     (error ''No element found at coordinates (125, 210)'')]
              = Clicked_at (PInt 125) (PInt 210) out
          \<and> Descriptive \<notin> set (tiers_of
                [Attempt Optical, Located ''Add to cart'' (Some (125, 210)),
                 Clicked_at (PInt 125) (PInt 210)
                   (error ''No element found at coordinates (125, 210)'')]))"
proof -
  let ?out = "error ''No element found at coordinates (125, 210)''"
  let ?evs = "[Attempt Optical, Located ''Add to cart'' (Some (125, 210)),
               Clicked_at (PInt 125) (PInt 210) ?out]"
  have h1: "step_action cart_click = ''click''"
    using cart_click_hypotheses by blast
  have h3: "trace (init_st\<lparr>trace := ?evs\<rparr>) = trace init_st @ ?evs"
    by (simp add: init_st_def)
  have h4: "Located ''Add to cart'' (Some (125, 210)) \<in> set ?evs"
    by simp
  from located_click_is_final[OF h1 cart_click_located_run h3 h4]
  have "\<exists>out. Inr ?out = (Inr out :: exn + pydict)
          \<and> last ?evs = Clicked_at (PInt 125) (PInt 210) out
          \<and> Descriptive \<notin> set (tiers_of ?evs)"
    by blast
  moreover have "map_of ?out ''status'' = Some (PStr ''error'')"
    by (simp add: error_def outcome_def)
  ultimately show ?thesis
    using h1 h4 cart_click_located_run by blast
qed

section \<open>The recovery policy retries at most once\<close>

lemma execute_step_D:
  assumes "execute_step E step s = (r, s')"
  shows "\<exists>out evs. r = Inr out \<and> is_outcome out \<and> trace s' = trace s @ evs
           \<and> list_all step_event evs"
  using yields_emitsD[OF execute_step_yields execute_step_emits assms] by blast

lemma executed_append: "executed (xs @ ys) = executed xs @ executed ys"
  by (induction xs rule: executed.induct) simp_all

lemma executed_step_events: "list_all step_event evs \<Longrightarrow> executed evs = []"
  by (induction evs rule: executed.induct) simp_all

lemma time_sleep_ok:
  assumes "0 \<le> ms" and "ms \<le> 4611686018427"
  shows "time_sleep E ms s = (Inr (), s\<lparr>trace := trace s @ [Sleep ms]\<rparr>)"
proof -
  have "uint (os_monotonic_ns E (world s)) < 2 ^ 62"
    using uint_bounded[of "os_monotonic_ns E (world s)"] by simp
  with assms show ?thesis
    by (simp add: time_sleep_def Let_def emit_def)
qed

lemma outcome_status:
  "is_outcome out \<Longrightarrow> \<exists>v. dict_item out ''status'' = Inr v \<and> map_of out ''status'' = Some v"
  by (auto simp: is_outcome_def dict_item_def)

lemma recover_not_found_D:
  assumes "recover_not_found E failed_step (PStr msg) s = (r, s')"
  shows "if py_in ''not found'' msg
            \<and> step_action failed_step \<in> set [''click'', ''input'', ''extract'']
         then \<exists>retry evs. list_all step_event evs
                \<and> trace s' = trace s @ Sleep 3000 # evs @ [Executed failed_step retry]
                \<and> r = Inr (if map_of retry ''status'' = Some (PStr ''success'')
                            then Some retry else None)
         else r = Inr None \<and> s' = s"
proof (cases "py_in ''not found'' msg
            \<and> step_action failed_step \<in> set [''click'', ''input'', ''extract'']")
  case False
  have "recover_not_found E failed_step (PStr msg) s = (Inr None, s)"
    unfolding recover_not_found_def msg_contains.simps bind_of_sum_Inr if_not_P[OF False]
    by (simp add: ret_def)
  with assms False show ?thesis
    unfolding if_not_P[OF False] by simp
next
  case True
  let ?s1 = "s\<lparr>trace := trace s @ [Sleep 3000]\<rparr>"
  obtain r2 s2 where ex: "execute_step E failed_step ?s1 = (r2, s2)"
    by (cases "execute_step E failed_step ?s1")
  from execute_step_D[OF ex] obtain retry evs where r2: "r2 = Inr retry"
    and ok: "is_outcome retry" and t2: "trace s2 = trace ?s1 @ evs"
    and evs: "list_all step_event evs" by blast
  from outcome_status[OF ok] obtain v where v: "dict_item retry ''status'' = Inr v"
    "map_of retry ''status'' = Some v" by blast
  have "recover_not_found E failed_step (PStr msg) s
          = (Inr (if v = PStr ''success'' then Some retry else None),
             s2\<lparr>trace := trace s2 @ [Executed failed_step retry]\<rparr>)"
    unfolding recover_not_found_def msg_contains.simps bind_of_sum_Inr if_P[OF True]
    by (simp add: bind_def time_sleep_ok ex r2 emit_def of_sum_def v ret_def)
  with assms have "r = Inr (if v = PStr ''success'' then Some retry else None)"
    and "s' = s2\<lparr>trace := trace s2 @ [Executed failed_step retry]\<rparr>"
    by simp_all
  with t2 v(2) have "trace s' = trace s @ Sleep 3000 # evs @ [Executed failed_step retry]"
    and "r = Inr (if map_of retry ''status'' = Some (PStr ''success'') then Some retry else None)"
    by simp_all
  with evs show ?thesis
    unfolding if_P[OF True] by blast
qed

lemma recover_search_D:
  assumes "recover_search E failed_step (PStr msg) step_index s = (r, s')"
  shows "if step_action failed_step = ''search'' \<and> py_in ''search box'' msg \<and> step_index = 0
         then (\<exists>nav evs. list_all step_event evs
                \<and> trace s' = trace s @ evs @ [Executed nav_step nav]
                \<and> map_of nav ''status'' \<noteq> Some (PStr ''success'') \<and> r = Inr None)
              \<or> (\<exists>nav evs retry evs'. list_all step_event evs \<and> list_all step_event evs'
                \<and> trace s' = trace s @ evs @ [Executed nav_step nav] @ evs'
                                 @ [Executed failed_step retry]
                \<and> map_of nav ''status'' = Some (PStr ''success'') \<and> r = Inr (Some retry))
         else r = Inr None \<and> s' = s"
proof (cases "step_action failed_step = ''search'' \<and> py_in ''search box'' msg \<and> step_index = 0")
  case False
  have "bind (if step_action failed_step = ''search''
           then bind (of_sum (msg_contains ''search box'' (PStr msg)))
                  (\<lambda>search_box. ret (search_box \<and> step_index = 0))
           else ret False) f = f False" for f :: "bool \<Rightarrow> ('a, pydict option) act"
    using False by (cases "step_action failed_step = ''search''")
      (simp_all only: if_P if_not_P msg_contains.simps bind_of_sum_Inr bind_ret simp_thms)
  then have "recover_search E failed_step (PStr msg) step_index s = (Inr None, s)"
    unfolding recover_search_def by (simp add: ret_def)
  with assms show ?thesis
    unfolding if_not_P[OF False] by simp
next
  case True
  then have a: "step_action failed_step = ''search''" and b: "py_in ''search box'' msg"
    and c: "step_index = 0" by blast+
  have applies: "bind (if step_action failed_step = ''search''
           then bind (of_sum (msg_contains ''search box'' (PStr msg)))
                  (\<lambda>search_box. ret (search_box \<and> step_index = 0))
           else ret False) f = f True" for f :: "bool \<Rightarrow> ('a, pydict option) act"
    unfolding if_P[OF a] msg_contains.simps bind_of_sum_Inr bind_ret using b c by simp
  obtain r1 s1 where nav: "execute_step E nav_step s = (r1, s1)"
    by (cases "execute_step E nav_step s")
  from execute_step_D[OF nav] obtain navr evs where r1: "r1 = Inr navr"
    and ok: "is_outcome navr" and t1: "trace s1 = trace s @ evs"
    and evs: "list_all step_event evs" by blast
  from outcome_status[OF ok] obtain v where v: "dict_item navr ''status'' = Inr v"
    "map_of navr ''status'' = Some v" by blast
  let ?s2 = "s1\<lparr>trace := trace s1 @ [Executed nav_step navr]\<rparr>"
  show ?thesis
  proof (cases "v = PStr ''success''")
    case False
    have "recover_search E failed_step (PStr msg) step_index s = (Inr None, ?s2)"
      unfolding recover_search_def applies
      by (simp add: bind_def nav r1 emit_def of_sum_def v False ret_def)
    with assms have "r = Inr None" and "s' = ?s2" by simp_all
    with t1 have "trace s' = trace s @ evs @ [Executed nav_step navr]" by simp
    moreover from v(2) False have "map_of navr ''status'' \<noteq> Some (PStr ''success'')" by simp
    ultimately show ?thesis
      unfolding if_P[OF True] using evs \<open>r = Inr None\<close> by blast
  next
    case success: True
    obtain r3 s3 where ex: "execute_step E failed_step ?s2 = (r3, s3)"
      by (cases "execute_step E failed_step ?s2")
    from execute_step_D[OF ex] obtain retry evs' where r3: "r3 = Inr retry"
      and t3: "trace s3 = trace ?s2 @ evs'" and evs': "list_all step_event evs'" by blast
    have "recover_search E failed_step (PStr msg) step_index s
            = (Inr (Some retry), s3\<lparr>trace := trace s3 @ [Executed failed_step retry]\<rparr>)"
      unfolding recover_search_def applies
      by (simp add: bind_def nav r1 emit_def of_sum_def v success ex r3 ret_def)
    with assms have "r = Inr (Some retry)"
      and "s' = s3\<lparr>trace := trace s3 @ [Executed failed_step retry]\<rparr>" by simp_all
    with t3 t1 have "trace s' = trace s @ evs @ [Executed nav_step navr] @ evs'
                                 @ [Executed failed_step retry]" by simp
    moreover from v(2) success have "map_of navr ''status'' = Some (PStr ''success'')" by simp
    ultimately show ?thesis
      unfolding if_P[OF True] using evs evs' \<open>r = Inr (Some retry)\<close> by blast
  qed
qed

lemma retryable_not_search:
  "a \<in> set [''click'', ''input'', ''extract''] \<Longrightarrow> a \<noteq> ''search''"
  by auto

text \<open>
  Claim C5. \<open>_attempt_recovery\<close> on a failed step and a failure message \<open>msg\<close>:
  when \<open>msg\<close> contains \<open>not found\<close> and the action is click, input or extract, it
  sleeps 3 seconds first, executes the failed step exactly once more and nothing
  else, and returns that retry only if it succeeded; otherwise, when the action is
  search, \<open>msg\<close> contains \<open>search box\<close> and the step index is 0, it executes the
  navigation to the search engine and then, only if that succeeded, the failed step
  exactly once more; in every other case it executes nothing, leaves the trace as
  it was and returns nothing. No run executes the failed step twice.
\<close>

theorem recovery_retries_at_most_once:
  assumes "attempt_recovery E failed_step error_result step_index s = (r, s')"
    and "dict_get error_result ''message'' (PStr []) = PStr msg"
  shows "\<exists>evs. trace s' = trace s @ evs \<and>
     (if py_in ''not found'' msg
         \<and> step_action failed_step \<in> set [''click'', ''input'', ''extract'']
      then \<exists>retry. hd evs = Sleep 3000 \<and> executed evs = [(failed_step, retry)]
             \<and> r = Inr (if map_of retry ''status'' = Some (PStr ''success'')
                         then Some retry else None)
      else if step_action failed_step = ''search'' \<and> py_in ''search box'' msg \<and> step_index = 0
      then (\<exists>nav. executed evs = [(nav_step, nav)]
              \<and> map_of nav ''status'' \<noteq> Some (PStr ''success'') \<and> r = Inr None)
           \<or> (\<exists>nav retry. executed evs = [(nav_step, nav), (failed_step, retry)]
              \<and> map_of nav ''status'' = Some (PStr ''success'') \<and> r = Inr (Some retry))
      else evs = [] \<and> r = Inr None)"
proof -
  let ?c1 = "py_in ''not found'' msg
         \<and> step_action failed_step \<in> set [''click'', ''input'', ''extract'']"
  let ?c2 = "step_action failed_step = ''search'' \<and> py_in ''search box'' msg \<and> step_index = 0"
  obtain r1 s1 where nf: "recover_not_found E failed_step (PStr msg) s = (r1, s1)"
    by (cases "recover_not_found E failed_step (PStr msg) s")
  have run: "bind (recover_not_found E failed_step (PStr msg))
           (\<lambda>retried. case retried of
              Some retry_result \<Rightarrow> ret (Some retry_result)
            | None \<Rightarrow> recover_search E failed_step (PStr msg) step_index) s = (r, s')"
    using assms unfolding attempt_recovery_def Let_def by simp
  show ?thesis
  proof (cases ?c1)
    case True
    from recover_not_found_D[OF nf] True obtain retry evs where evs: "list_all step_event evs"
      and t1: "trace s1 = trace s @ Sleep 3000 # evs @ [Executed failed_step retry]"
      and r1: "r1 = Inr (if map_of retry ''status'' = Some (PStr ''success'')
                            then Some retry else None)"
      unfolding if_P[OF True] by blast
    have no2: "\<not> ?c2"
      using True retryable_not_search by blast
    have "r = r1 \<and> s' = s1"
    proof (cases "map_of retry ''status'' = Some (PStr ''success'')")
      case True
      with run nf r1 show ?thesis by (simp add: bind_def ret_def)
    next
      case False
      with run nf r1 have rs: "recover_search E failed_step (PStr msg) step_index s1 = (r, s')"
        by (simp add: bind_def)
      from recover_search_D[OF rs] have "r = Inr None \<and> s' = s1"
        unfolding if_not_P[OF no2] .
      with r1 False show ?thesis by simp
    qed
    with t1 r1 have "trace s' = trace s @ (Sleep 3000 # evs @ [Executed failed_step retry])"
      and "r = Inr (if map_of retry ''status'' = Some (PStr ''success'')
                            then Some retry else None)"
      by simp_all
    moreover have "hd (Sleep 3000 # evs @ [Executed failed_step retry]) = Sleep 3000"
      by simp
    moreover have "executed (Sleep 3000 # evs @ [Executed failed_step retry])
                     = [(failed_step, retry)]"
      by (simp add: executed_append executed_step_events[OF evs])
    ultimately show ?thesis
      unfolding if_P[OF True] by blast
  next
    case False
    from recover_not_found_D[OF nf] have "r1 = Inr None" and "s1 = s"
      unfolding if_not_P[OF False] by blast+
    with run nf have rs: "recover_search E failed_step (PStr msg) step_index s = (r, s')"
      by (simp add: bind_def)
    show ?thesis
    proof (cases ?c2)
      case no2: False
      from recover_search_D[OF rs] have "r = Inr None" and "s' = s"
        unfolding if_not_P[OF no2] by blast+
      then have "trace s' = trace s @ [] \<and> [] = ([] :: event list) \<and> r = Inr None"
        by simp
      then show ?thesis
        unfolding if_not_P[OF False] if_not_P[OF no2] by blast
    next
      case c2: True
      from recover_search_D[OF rs]
      consider (nav_failed) nav evs where "list_all step_event evs"
          "trace s' = trace s @ evs @ [Executed nav_step nav]"
          "map_of nav ''status'' \<noteq> Some (PStr ''success'')" "r = Inr None"
        | (retried) nav evs retry evs' where "list_all step_event evs" "list_all step_event evs'"
          "trace s' = trace s @ evs @ [Executed nav_step nav] @ evs'
                                 @ [Executed failed_step retry]"
          "map_of nav ''status'' = Some (PStr ''success'')" "r = Inr (Some retry)"
        unfolding if_P[OF c2] by blast
      then show ?thesis
      proof cases
        case nav_failed
        have "executed (evs @ [Executed nav_step nav]) = [(nav_step, nav)]"
          by (simp add: executed_append executed_step_events[OF nav_failed(1)])
        with nav_failed show ?thesis
          unfolding if_not_P[OF False] if_P[OF c2] by blast
      next
        case retried
        have "executed (evs @ [Executed nav_step nav] @ evs' @ [Executed failed_step retry])
                = [(nav_step, nav), (failed_step, retry)]"
          by (simp add: executed_append executed_step_events[OF retried(1)]
              executed_step_events[OF retried(2)])
        with retried show ?thesis
          unfolding if_not_P[OF False] if_P[OF c2] by blast
      qed
    qed
  qed
qed

lemma silent_ocr_none: "get_target_coordinates_ocr silent_env t thr s = (Inr None, s)"
  by (simp add: get_target_coordinates_ocr_def try_catch_def bind_def on_client_def call_def
      silent_env_def ret_def raise_def)

lemma silent_click_missing:
  "client s \<Longrightarrow> click silent_env selector s = (Inr (error (''Element not found: '' @ selector)), s)"
  by (simp add: click_def find_element_def try_catch_def bind_def on_client_def call_def
      silent_env_def ret_def)

lemma missing_click_fields:
  "step_action missing_click = ''click'' \<and> py_strip (step_dom missing_click) = ''#missing''
   \<and> use_dom_selector ''#missing'' \<and> coords_xy (step_coords missing_click) = None
   \<and> descriptive_text (step_params missing_click) = Inr ''#missing''"
  by (simp add: missing_click_def coords_xy_def descriptive_text_def dict_get_def py_strip_def
      py_isspace_def use_dom_selector_def py_upper_def char_upper_def lower_letters_def
      upper_letters_def)

lemma missing_click_run:
  assumes "client s"
  shows "execute_step silent_env missing_click s
     = (Inr (error ''Element not found: #missing''),
        s\<lparr>trace := trace s @ [Attempt Structural, Attempt Optical,
                               Located ''#missing'' None, Attempt Descriptive]\<rparr>)"
proof -
  have "execute_click silent_env (step_params missing_click) ''#missing''
          (step_coords missing_click) s
        = (Inr (error ''Element not found: #missing''),
           s\<lparr>trace := trace s @ [Attempt Structural, Attempt Optical,
                               Located ''#missing'' None, Attempt Descriptive]\<rparr>)"
    using missing_click_fields assms
    by (simp add: execute_click_def click_structural_def click_optical_def
        click_descriptive_def bind_def emit_def try_catch_def silent_click_missing
        silent_ocr_none of_sum_def dict_item_def error_def outcome_def ret_def)
  then show ?thesis
    unfolding execute_step_def Let_def
    using missing_click_fields by (simp add: run_action_click try_catch_def)
qed

lemma missing_click_recovery:
  "attempt_recovery silent_env missing_click (error ''Element not found: #missing'') 2 init_st
     = (Inr None,
        init_st\<lparr>trace := [Sleep 3000, Attempt Structural, Attempt Optical,
                           Located ''#missing'' None, Attempt Descriptive,
                           Executed missing_click (error ''Element not found: #missing'')]\<rparr>)"
proof -
  have c: "client (init_st\<lparr>trace := trace init_st @ [Sleep 3000]\<rparr>)"
    by (simp add: init_st_def)
  have nf: "recover_not_found silent_env missing_click (PStr ''Element not found: #missing'')
              init_st
     = (Inr None,
        init_st\<lparr>trace := [Sleep 3000, Attempt Structural, Attempt Optical,
                           Located ''#missing'' None, Attempt Descriptive,
                           Executed missing_click (error ''Element not found: #missing'')]\<rparr>)"
    using missing_click_fields
    by (simp add: recover_not_found_def bind_of_sum_Inr bind_def time_sleep_ok
        missing_click_run emit_def of_sum_def dict_item_def error_def outcome_def ret_def
        init_st_def)
  have rs: "recover_search silent_env missing_click (PStr ''Element not found: #missing'') 2 s
              = (Inr None, s)" for s
    using missing_click_fields by (simp add: recover_search_def bind_ret ret_def)
  show ?thesis
    unfolding attempt_recovery_def Let_def
    by (simp add: dict_get_def error_def[of "''Element not found: #missing''"] outcome_def
        bind_def nf[unfolded error_def[of "''Element not found: #missing''"] outcome_def]
        rs)
qed

lemma silent_find_search_input:
  "client s \<Longrightarrow> find_search_input silent_env selectors s = (Inr None, s)"
proof (induction selectors)
  case Nil
  then show ?case by (simp add: ret_def)
next
  case (Cons selector selectors)
  have "try_catch
          (bind (on_client ''find_elements'' (drv_find_elements silent_env selector))
             (first_text_input silent_env))
          (\<lambda>e. ret None) s = (Inr None, s)"
    using Cons.prems
    by (simp add: try_catch_def bind_def on_client_def call_def silent_env_def ret_def)
  with Cons show ?case
    by (simp add: bind_def)
qed

lemma silent_get_url: "drv_get_url silent_env w = (Inr ''about:blank'', w)"
  by (simp add: silent_env_def)

lemma silent_search:
  "client s \<Longrightarrow> search silent_env query s
     = (Inr (error ''Could not find search box on about:blank''), s)"
  by (simp add: search_def try_catch_def bind_def on_client_def call_def silent_get_url
      silent_find_search_input ret_def)

lemma silent_open_google:
  "client s \<Longrightarrow> execute_step silent_env nav_step s
     = (Inr (success ''Navigated to https://www.google.com''), s)"
  by (simp add: execute_step_def nav_step_def run_action_def bind_def of_sum_def dict_item_def
      navigate_def try_catch_def on_client_def call_def ret_def Let_def silent_env_def)

lemma cats_search_run:
  "client s \<Longrightarrow> execute_step silent_env cats_search s
     = (Inr (error ''Could not find search box on about:blank''), s)"
  by (simp add: execute_step_def cats_search_def run_action_def bind_def of_sum_def
      dict_item_def silent_search try_catch_def)

lemma cats_search_recovery:
  "attempt_recovery silent_env cats_search
       (error ''Could not find search box on about:blank'') 0 init_st
     = (Inr (Some (error ''Could not find search box on about:blank'')),
        init_st\<lparr>trace := [Executed nav_step (success ''Navigated to https://www.google.com''),
                           Executed cats_search
                             (error ''Could not find search box on about:blank'')]\<rparr>)"
proof -
  have act: "step_action cats_search = ''search''"
    by (simp add: cats_search_def)
  have nf: "recover_not_found silent_env cats_search
              (PStr ''Could not find search box on about:blank'') s = (Inr None, s)" for s
    by (simp add: recover_not_found_def bind_of_sum_Inr act ret_def)
  have rs: "recover_search silent_env cats_search
              (PStr ''Could not find search box on about:blank'') 0 init_st
     = (Inr (Some (error ''Could not find search box on about:blank'')),
        init_st\<lparr>trace := [Executed nav_step (success ''Navigated to https://www.google.com''),
                           Executed cats_search
                             (error ''Could not find search box on about:blank'')]\<rparr>)"
    by (simp add: recover_search_def act bind_of_sum_Inr bind_ret)
       (simp add: bind_def silent_open_google cats_search_run emit_def of_sum_def dict_item_def
          success_def error_def outcome_def ret_def init_st_def)
  show ?thesis
    unfolding attempt_recovery_def Let_def
    by (simp add: dict_get_def error_def[of "''Could not find search box on about:blank''"]
        outcome_def bind_def nf
        rs[unfolded error_def[of "''Could not find search box on about:blank''"] outcome_def])
qed

lemma negative_wait_recovery:
  "attempt_recovery silent_env (wait_step [(''seconds'', PInt (- 1))])
       (error ''Error executing wait: sleep length must be non-negative'') 0 init_st
     = (Inr None, init_st)"
  by (simp add: attempt_recovery_def dict_get_def error_def outcome_def recover_not_found_def
      recover_search_def bind_of_sum_Inr bind_ret wait_step_def)
     (simp add: bind_def ret_def)

lemma error_message: "dict_get (error m) ''message'' (PStr []) = PStr m"
  by (simp add: dict_get_def error_def outcome_def)

lemma missing_click_retryable:
  "py_in ''not found'' ''Element not found: #missing''
   \<and> step_action missing_click \<in> set [''click'', ''input'', ''extract'']"
  by (simp add: missing_click_def)

lemma cats_search_recoverable:
  "\<not> (py_in ''not found'' ''Could not find search box on about:blank''
        \<and> step_action cats_search \<in> set [''click'', ''input'', ''extract''])
   \<and> step_action cats_search = ''search''
   \<and> py_in ''search box'' ''Could not find search box on about:blank'' \<and> (0::nat) = 0"
  by (simp add: cats_search_def)

lemma negative_wait_unrecoverable:
  "\<not> (py_in ''not found'' ''Error executing wait: sleep length must be non-negative''
        \<and> step_action (wait_step [(''seconds'', PInt (- 1))])
            \<in> set [''click'', ''input'', ''extract''])
   \<and> \<not> (step_action (wait_step [(''seconds'', PInt (- 1))]) = ''search''
          \<and> py_in ''search box'' ''Error executing wait: sleep length must be non-negative''
          \<and> (0::nat) = 0)"
  by (simp add: wait_step_def)

theorem recovery_retries_at_most_once_witness:
  "attempt_recovery silent_env missing_click (error ''Element not found: #missing'') 2 init_st
     = (Inr None,
        init_st\<lparr>trace := [Sleep 3000, Attempt Structural, Attempt Optical,
                           Located ''#missing'' None, Attempt Descriptive,
                           Executed missing_click (error ''Element not found: #missing'')]\<rparr>)
   \<and> dict_get (error ''Element not found: #missing'') ''message'' (PStr [])
       = PStr ''Element not found: #missing''
   \<and> py_in ''not found'' ''Element not found: #missing''
   \<and> step_action missing_click \<in> set [''click'', ''input'', ''extract'']
   \<and> (\<exists>retry.
          hd [Sleep 3000, Attempt Structural, Attempt Optical, Located ''#missing'' None,
              Attempt Descriptive,
              Executed missing_click (error ''Element not found: #missing'')] = Sleep 3000
          \<and> executed [Sleep 3000, Attempt Structural, Attempt Optical,
                       Located ''#missing'' None, Attempt Descriptive,
                       Executed missing_click (error ''Element not found: #missing'')]
              = [(missing_click, retry)]
          \<and> (Inr None :: exn + pydict option)
              = Inr (if map_of retry ''status'' = Some (PStr ''success'')
                     then Some retry else None))
   \<and> attempt_recovery silent_env cats_search
         (error ''Could not find search box on about:blank'') 0 init_st
       = (Inr (Some (error ''Could not find search box on about:blank'')),
          init_st\<lparr>trace := [Executed nav_step (success ''Navigated to https://www.google.com''),
                             Executed cats_search
                               (error ''Could not find search box on about:blank'')]\<rparr>)
   \<and> (\<exists>nav retry.
          executed [Executed nav_step (success ''Navigated to https://www.google.com''),
                    Executed cats_search (error ''Could not find search box on about:blank'')]
            = [(nav_step, nav), (cats_search, retry)]
          \<and> map_of nav ''status'' = Some (PStr ''success'')
          \<and> (Inr (Some (error ''Could not find search box on about:blank''))
                :: exn + pydict option) = Inr (Some retry))
   \<and> attempt_recovery silent_env (wait_step [(''seconds'', PInt (- 1))])
         (error ''Error executing wait: sleep length must be non-negative'') 0 init_st
       = (Inr None, init_st)"
proof -
  let ?A = "[Sleep 3000, Attempt Structural, Attempt Optical, Located ''#missing'' None,
             Attempt Descriptive,
             Executed missing_click (error ''Element not found: #missing'')]"
  let ?B = "[Executed nav_step (success ''Navigated to https://www.google.com''),
             Executed cats_search (error ''Could not find search box on about:blank'')]"
  have empty: "trace init_st = []"
    by (simp add: init_st_def)
  from recovery_retries_at_most_once[OF missing_click_recovery error_message]
  obtain evs where "trace (init_st\<lparr>trace := ?A\<rparr>) = trace init_st @ evs"
    and a: "\<exists>retry. hd evs = Sleep 3000 \<and> executed evs = [(missing_click, retry)]
             \<and> (Inr None :: exn + pydict option)
                 = Inr (if map_of retry ''status'' = Some (PStr ''success'')
                        then Some retry else None)"
    unfolding if_P[OF missing_click_retryable] by blast
  then have "evs = ?A"
    by (simp add: empty)
  with a have A: "\<exists>retry. hd ?A = Sleep 3000 \<and> executed ?A = [(missing_click, retry)]
             \<and> (Inr None :: exn + pydict option)
                 = Inr (if map_of retry ''status'' = Some (PStr ''success'')
                        then Some retry else None)"
    by simp
  have c1: "\<not> (py_in ''not found'' ''Could not find search box on about:blank''
        \<and> step_action cats_search \<in> set [''click'', ''input'', ''extract''])"
    and c2: "step_action cats_search = ''search''
        \<and> py_in ''search box'' ''Could not find search box on about:blank'' \<and> (0::nat) = 0"
    using cats_search_recoverable by blast+
  from recovery_retries_at_most_once[OF cats_search_recovery error_message]
  obtain evs' where "trace (init_st\<lparr>trace := ?B\<rparr>) = trace init_st @ evs'"
    and b: "(\<exists>nav. executed evs' = [(nav_step, nav)]
              \<and> map_of nav ''status'' \<noteq> Some (PStr ''success'')
              \<and> (Inr (Some (error ''Could not find search box on about:blank''))
                    :: exn + pydict option) = Inr None)
           \<or> (\<exists>nav retry. executed evs' = [(nav_step, nav), (cats_search, retry)]
              \<and> map_of nav ''status'' = Some (PStr ''success'')
              \<and> (Inr (Some (error ''Could not find search box on about:blank''))
                    :: exn + pydict option) = Inr (Some retry))"
    unfolding if_not_P[OF c1] if_P[OF c2] by blast
  then have "evs' = ?B"
    by (simp add: empty)
  with b have B: "\<exists>nav retry. executed ?B = [(nav_step, nav), (cats_search, retry)]
              \<and> map_of nav ''status'' = Some (PStr ''success'')
              \<and> (Inr (Some (error ''Could not find search box on about:blank''))
                    :: exn + pydict option) = Inr (Some retry)"
    by auto
  from A B missing_click_recovery cats_search_recovery negative_wait_recovery
    missing_click_retryable error_message[of "''Element not found: #missing''"]
  show ?thesis
    by blast
qed

section \<open>The orchestration loop stays within its budgets\<close>



























text \<open>
  Runs on a page where nothing is found, under an oracle \<open>p\<close>: the rounds of a wait
  of no length, of a wait of \<open>-1\<close> seconds, of a click on a missing element and of
  \<open>complete\<close>.
\<close>

lemma silent_dom_context:
  "client s \<Longrightarrow> drv_query_selector_all E = (\<lambda>w. (Inr [], w))
     \<Longrightarrow> get_dom_context E n s = (Inr [], s)"
  by (simp add: get_dom_context_def try_catch_def bind_def on_client_def call_def ret_def
      dom_context_script_def getInteractiveElements_def js_slice0_def)

lemma oracle_fields:
  "drv_query_selector_all (silent_env\<lparr>parser_get_next_step := p\<rparr>) = (\<lambda>w. (Inr [], w))
   \<and> drv_get_url (silent_env\<lparr>parser_get_next_step := p\<rparr>) = (\<lambda>w. (Inr ''about:blank'', w))
   \<and> parser_get_next_step (silent_env\<lparr>parser_get_next_step := p\<rparr>) = p"
  by (simp add: silent_env_def)



lemma zero_wait_succeeds:
  "execute_step E (wait_step [(''seconds'', PInt 0)]) s
     = (Inr (success ''Waited 0 seconds''), s\<lparr>trace := trace s @ [Sleep 0]\<rparr>)"
  by (simp add: execute_step_wait wait_samples dict_get_def time_sleep_ok str_of_int_def
      digits_of_nat.simps)

lemma oracle_ocr_none:
  "get_target_coordinates_ocr (silent_env\<lparr>parser_get_next_step := p\<rparr>) t thr s = (Inr None, s)"
  by (simp add: get_target_coordinates_ocr_def try_catch_def bind_def on_client_def call_def
      silent_env_def ret_def raise_def)

lemma oracle_click_missing:
  "client s \<Longrightarrow> click (silent_env\<lparr>parser_get_next_step := p\<rparr>) selector s
     = (Inr (error (''Element not found: '' @ selector)), s)"
  by (simp add: click_def find_element_def try_catch_def bind_def on_client_def call_def
      silent_env_def ret_def)

lemma oracle_missing_click_run:
  assumes "client s"
  shows "execute_step (silent_env\<lparr>parser_get_next_step := p\<rparr>) missing_click s
     = (Inr (error ''Element not found: #missing''),
        s\<lparr>trace := trace s @ [Attempt Structural, Attempt Optical,
                               Located ''#missing'' None, Attempt Descriptive]\<rparr>)"
proof -
  have "execute_click (silent_env\<lparr>parser_get_next_step := p\<rparr>) (step_params missing_click)
          ''#missing'' (step_coords missing_click) s
        = (Inr (error ''Element not found: #missing''),
           s\<lparr>trace := trace s @ [Attempt Structural, Attempt Optical,
                               Located ''#missing'' None, Attempt Descriptive]\<rparr>)"
    using missing_click_fields assms
    by (simp add: execute_click_def click_structural_def click_optical_def
        click_descriptive_def bind_def emit_def try_catch_def oracle_click_missing
        oracle_ocr_none of_sum_def dict_item_def error_def outcome_def ret_def)
  then show ?thesis
    unfolding execute_step_def Let_def
    using missing_click_fields by (simp add: run_action_click try_catch_def)
qed

lemma oracle_missing_click_not_recovered:
  assumes "client s"
  shows "attempt_recovery (silent_env\<lparr>parser_get_next_step := p\<rparr>) missing_click
       (error ''Element not found: #missing'') i s
     = (Inr None,
        s\<lparr>trace := trace s @ [Sleep 3000, Attempt Structural, Attempt Optical,
                               Located ''#missing'' None, Attempt Descriptive,
                               Executed missing_click (error ''Element not found: #missing'')]\<rparr>)"
proof -
  let ?E = "silent_env\<lparr>parser_get_next_step := p\<rparr>"
  have nf: "recover_not_found ?E missing_click (PStr ''Element not found: #missing'') s
     = (Inr None,
        s\<lparr>trace := trace s @ [Sleep 3000, Attempt Structural, Attempt Optical,
                               Located ''#missing'' None, Attempt Descriptive,
                               Executed missing_click (error ''Element not found: #missing'')]\<rparr>)"
    using missing_click_fields assms
    by (simp add: recover_not_found_def bind_of_sum_Inr bind_def time_sleep_ok
        oracle_missing_click_run emit_def of_sum_def dict_item_def error_def outcome_def ret_def)
  have rs: "recover_search ?E missing_click (PStr ''Element not found: #missing'') i s'
              = (Inr None, s')" for s'
    using missing_click_fields by (simp add: recover_search_def bind_ret ret_def)
  show ?thesis
    unfolding attempt_recovery_def Let_def
    by (simp add: dict_get_def error_def[of "''Element not found: #missing''"] outcome_def
        bind_def nf[unfolded error_def[of "''Element not found: #missing''"] outcome_def]
        rs)
qed

lemma waited_round:
  assumes "client s"
    and "\<And>w. p command_text [] results w
               = (Inr (Some (wait_step [(''seconds'', PInt 0)])), w)"
  shows "loop_iteration (silent_env\<lparr>parser_get_next_step := p\<rparr>) command_text i results cf s
     = (Inr (Continue (results @ [success ''Waited 0 seconds'']) 0),
        s\<lparr>trace := trace s @
             [Iteration i, Sleep 0,
              Executed (wait_step [(''seconds'', PInt 0)]) (success ''Waited 0 seconds''),
              Sleep 1500]\<rparr>)"
proof -
  have st: "dict_item (success ''Waited 0 seconds'') ''status'' = Inr (PStr ''success'')"
    by (simp add: dict_item_def success_def outcome_def)
  have wa: "step_action (wait_step [(''seconds'', PInt 0)]) \<noteq> ''complete''"
    by (simp add: wait_step_def)
  show ?thesis
    unfolding loop_iteration_def
    apply (simp only: bind_Inr[OF emit_eq])
    apply (simp add: bind_def silent_dom_context assms oracle_fields
        current_url_or_not_connected_def call_def wa zero_wait_succeeds emit_def
        of_sum_def st time_sleep_ok ret_def)
    done
qed


lemma missing_click_round:
  assumes "client s"
    and "\<And>w. p command_text [] results w = (Inr (Some missing_click), w)"
  shows "loop_iteration (silent_env\<lparr>parser_get_next_step := p\<rparr>) command_text i results cf s
     = (Inr (if cf + 1 < max_failures
             then Continue (results @ [error ''Element not found: #missing'']) (cf + 1)
             else Break (results @ [error ''Element not found: #missing''])),
        s\<lparr>trace := trace s @
             [Iteration i, Attempt Structural, Attempt Optical, Located ''#missing'' None,
              Attempt Descriptive,
              Executed missing_click (error ''Element not found: #missing''),
              Failures (cf + 1)]
             @ (if cf + 1 < max_failures
                then [Sleep 3000, Attempt Structural, Attempt Optical,
                      Located ''#missing'' None, Attempt Descriptive,
                      Executed missing_click (error ''Element not found: #missing''),
                      Recovery None]
                else [])\<rparr>)"
proof -
  let ?E = "silent_env\<lparr>parser_get_next_step := p\<rparr>"
  let ?err = "error ''Element not found: #missing''"
  have st: "dict_item ?err ''status'' = Inr (PStr ''error'')"
    by (simp add: dict_item_def error_def outcome_def)
  have wa: "step_action missing_click \<noteq> ''complete''"
    by (simp add: missing_click_def)
  have hf: "client s' \<Longrightarrow> handle_failure ?E missing_click ?err i rs n s'
     = (Inr (if n < max_failures then Continue rs n else Break rs),
        s'\<lparr>trace := trace s' @ [Failures n]
             @ (if n < max_failures
                then [Sleep 3000, Attempt Structural, Attempt Optical,
                      Located ''#missing'' None, Attempt Descriptive,
                      Executed missing_click (error ''Element not found: #missing''),
                      Recovery None]
                else [])\<rparr>)"
    for s' :: "unit st" and rs n
    unfolding handle_failure_def
    by (simp only: bind_Inr[OF emit_eq])
       (simp add: bind_def oracle_missing_click_not_recovered emit_def ret_def)
  show ?thesis
    unfolding loop_iteration_def
    apply (simp only: bind_Inr[OF emit_eq])
    apply (simp add: bind_def silent_dom_context assms oracle_fields
        current_url_or_not_connected_def call_def wa oracle_missing_click_run emit_def
        of_sum_def st hf del: error_def)
    done
qed

lemma done_round:
  assumes "client s"
    and "\<And>w. p command_text [] results w = (Inr (Some done_step), w)"
  shows "loop_iteration (silent_env\<lparr>parser_get_next_step := p\<rparr>) command_text i results cf s
     = (Inr (Break (results @ [[(''status'', PStr ''success''),
                                 (''message'', PStr ''Done, redirected to example.com/new'')]])),
        s\<lparr>trace := trace s @ [Iteration i]\<rparr>)"
  unfolding loop_iteration_def
  apply (simp only: bind_Inr[OF emit_eq])
  apply (simp add: bind_def silent_dom_context assms oracle_fields
      current_url_or_not_connected_def call_def done_step_def dict_get_def ret_def)
  done

lemma all_steps: "[0..<max_steps] = [0, 1, 2, 3, 4, 5, 6, 7, 8, 9, 10, 11, 12, 13, 14]"
  by (simp add: max_steps_def upt_rec)




lemma late_run:
  "execute_command_iteratively late_failing_env command_text init_st
     = (Inr \<lparr>run_status = PStr ''error'', run_message = None,
             steps_completed = Some 15, total_steps = Some 15,
             run_results = Some (replicate 12 (success ''Waited 0 seconds'')
                                 @ replicate 3 (error ''Element not found: #missing''))\<rparr>,
        init_st\<lparr>trace :=
          [Iteration 0, Sleep 0,
           Executed (wait_step [(''seconds'', PInt 0)]) (success ''Waited 0 seconds''),
           Sleep 1500, Iteration 1, Sleep 0,
           Executed (wait_step [(''seconds'', PInt 0)]) (success ''Waited 0 seconds''),
           Sleep 1500, Iteration 2, Sleep 0,
           Executed (wait_step [(''seconds'', PInt 0)]) (success ''Waited 0 seconds''),
           Sleep 1500, Iteration 3, Sleep 0,
           Executed (wait_step [(''seconds'', PInt 0)]) (success ''Waited 0 seconds''),
           Sleep 1500, Iteration 4, Sleep 0,
           Executed (wait_step [(''seconds'', PInt 0)]) (success ''Waited 0 seconds''),
           Sleep 1500, Iteration 5, Sleep 0,
           Executed (wait_step [(''seconds'', PInt 0)]) (success ''Waited 0 seconds''),
           Sleep 1500, Iteration 6, Sleep 0,
           Executed (wait_step [(''seconds'', PInt 0)]) (success ''Waited 0 seconds''),
           Sleep 1500, Iteration 7, Sleep 0,
           Executed (wait_step [(''seconds'', PInt 0)]) (success ''Waited 0 seconds''),
           Sleep 1500, Iteration 8, Sleep 0,
           Executed (wait_step [(''seconds'', PInt 0)]) (success ''Waited 0 seconds''),
           Sleep 1500, Iteration 9, Sleep 0,
           Executed (wait_step [(''seconds'', PInt 0)]) (success ''Waited 0 seconds''),
           Sleep 1500, Iteration 10, Sleep 0,
           Executed (wait_step [(''seconds'', PInt 0)]) (success ''Waited 0 seconds''),
           Sleep 1500, Iteration 11, Sleep 0,
           Executed (wait_step [(''seconds'', PInt 0)]) (success ''Waited 0 seconds''),
           Sleep 1500, Iteration 12, Attempt Structural, Attempt Optical,
           Located ''#missing'' None, Attempt Descriptive,
           Executed missing_click (error ''Element not found: #missing''), Failures 1,
           Sleep 3000, Attempt Structural, Attempt Optical, Located ''#missing'' None,
           Attempt Descriptive,
           Executed missing_click (error ''Element not found: #missing''), Recovery None,
           Iteration 13, Attempt Structural, Attempt Optical, Located ''#missing'' None,
           Attempt Descriptive,
           Executed missing_click (error ''Element not found: #missing''), Failures 2,
           Sleep 3000, Attempt Structural, Attempt Optical, Located ''#missing'' None,
           Attempt Descriptive,
           Executed missing_click (error ''Element not found: #missing''), Recovery None,
           Iteration 14, Attempt Structural, Attempt Optical, Located ''#missing'' None,
           Attempt Descriptive,
           Executed missing_click (error ''Element not found: #missing''), Failures 3]\<rparr>)"
proof -
  have c: "client init_st" "connected init_st" "trace init_st = []"
    by (simp_all add: init_st_def)
  have st: "session_status (replicate 12 (success ''Waited 0 seconds'') @ replicate 3 (error ''Element not found: #missing'')) = Inr ''error''"
    by (simp add: session_status_def any_complete_def error_def success_def outcome_def
        dict_item_def numeral_eq_Suc)
  have loop: "run_loop late_failing_env command_text [0, 1, 2, 3, 4, 5, 6, 7, 8, 9, 10, 11, 12, 13, 14] [] 0 init_st
     = (Inr (replicate 12 (success ''Waited 0 seconds'') @ replicate 3 (error ''Element not found: #missing'')),
        init_st\<lparr>trace :=
          [Iteration 0, Sleep 0,
           Executed (wait_step [(''seconds'', PInt 0)]) (success ''Waited 0 seconds''),
           Sleep 1500, Iteration 1, Sleep 0,
           Executed (wait_step [(''seconds'', PInt 0)]) (success ''Waited 0 seconds''),
           Sleep 1500, Iteration 2, Sleep 0,
           Executed (wait_step [(''seconds'', PInt 0)]) (success ''Waited 0 seconds''),
           Sleep 1500, Iteration 3, Sleep 0,
           Executed (wait_step [(''seconds'', PInt 0)]) (success ''Waited 0 seconds''),
           Sleep 1500, Iteration 4, Sleep 0,
           Executed (wait_step [(''seconds'', PInt 0)]) (success ''Waited 0 seconds''),
           Sleep 1500, Iteration 5, Sleep 0,
           Executed (wait_step [(''seconds'', PInt 0)]) (success ''Waited 0 seconds''),
           Sleep 1500, Iteration 6, Sleep 0,
           Executed (wait_step [(''seconds'', PInt 0)]) (success ''Waited 0 seconds''),
           Sleep 1500, Iteration 7, Sleep 0,
           Executed (wait_step [(''seconds'', PInt 0)]) (success ''Waited 0 seconds''),
           Sleep 1500, Iteration 8, Sleep 0,
           Executed (wait_step [(''seconds'', PInt 0)]) (success ''Waited 0 seconds''),
           Sleep 1500, Iteration 9, Sleep 0,
           Executed (wait_step [(''seconds'', PInt 0)]) (success ''Waited 0 seconds''),
           Sleep 1500, Iteration 10, Sleep 0,
           Executed (wait_step [(''seconds'', PInt 0)]) (success ''Waited 0 seconds''),
           Sleep 1500, Iteration 11, Sleep 0,
           Executed (wait_step [(''seconds'', PInt 0)]) (success ''Waited 0 seconds''),
           Sleep 1500, Iteration 12, Attempt Structural, Attempt Optical,
           Located ''#missing'' None, Attempt Descriptive,
           Executed missing_click (error ''Element not found: #missing''), Failures 1,
           Sleep 3000, Attempt Structural, Attempt Optical, Located ''#missing'' None,
           Attempt Descriptive,
           Executed missing_click (error ''Element not found: #missing''), Recovery None,
           Iteration 13, Attempt Structural, Attempt Optical, Located ''#missing'' None,
           Attempt Descriptive,
           Executed missing_click (error ''Element not found: #missing''), Failures 2,
           Sleep 3000, Attempt Structural, Attempt Optical, Located ''#missing'' None,
           Attempt Descriptive,
           Executed missing_click (error ''Element not found: #missing''), Recovery None,
           Iteration 14, Attempt Structural, Attempt Optical, Located ''#missing'' None,
           Attempt Descriptive,
           Executed missing_click (error ''Element not found: #missing''), Failures 3]\<rparr>)"
    unfolding late_failing_env_def
    by (simp add: bind_def waited_round missing_click_round late_oracle_def c max_failures_def
        ret_def numeral_eq_Suc)
  show ?thesis
    unfolding execute_command_iteratively_def all_steps
    by (simp add: try_catch_def bind_def connect_if_needed_def c loop of_sum_def st
        ret_def del: run_loop.simps replicate.simps One_nat_def)
qed

lemma scripted_run:
  "execute_command_iteratively scripted_env command_text init_st
     = (Inr \<lparr>run_status = PStr ''error'', run_message = None,
             steps_completed = Some 3, total_steps = Some 3,
             run_results = Some [error ''Element not found: #missing'',
                                 success ''Waited 0 seconds'',
                                 [(''status'', PStr ''success''), (''message'', PStr ''Done, redirected to example.com/new'')]]\<rparr>,
        init_st\<lparr>trace :=
          [Iteration 0, Attempt Structural, Attempt Optical, Located ''#missing'' None,
           Attempt Descriptive,
           Executed missing_click (error ''Element not found: #missing''), Failures 1,
           Sleep 3000, Attempt Structural, Attempt Optical, Located ''#missing'' None,
           Attempt Descriptive,
           Executed missing_click (error ''Element not found: #missing''), Recovery None,
           Iteration 1, Sleep 0,
           Executed (wait_step [(''seconds'', PInt 0)]) (success ''Waited 0 seconds''),
           Sleep 1500, Iteration 2]\<rparr>)"
proof -
  have c: "client init_st" "connected init_st" "trace init_st = []"
    by (simp_all add: init_st_def)
  have st: "session_status [error ''Element not found: #missing'',
                            success ''Waited 0 seconds'',
                            [(''status'', PStr ''success''), (''message'', PStr ''Done, redirected to example.com/new'')]] = Inr ''error''"
    by (simp add: session_status_def any_complete_def error_def success_def outcome_def
        dict_item_def)
  have loop: "run_loop scripted_env command_text [0, 1, 2, 3, 4, 5, 6, 7, 8, 9, 10, 11, 12, 13, 14] [] 0 init_st
     = (Inr [error ''Element not found: #missing'',
             success ''Waited 0 seconds'',
             [(''status'', PStr ''success''), (''message'', PStr ''Done, redirected to example.com/new'')]],
        init_st\<lparr>trace :=
          [Iteration 0, Attempt Structural, Attempt Optical, Located ''#missing'' None,
           Attempt Descriptive,
           Executed missing_click (error ''Element not found: #missing''), Failures 1,
           Sleep 3000, Attempt Structural, Attempt Optical, Located ''#missing'' None,
           Attempt Descriptive,
           Executed missing_click (error ''Element not found: #missing''), Recovery None,
           Iteration 1, Sleep 0,
           Executed (wait_step [(''seconds'', PInt 0)]) (success ''Waited 0 seconds''),
           Sleep 1500, Iteration 2]\<rparr>)"
    unfolding scripted_env_def
    by (simp add: bind_def waited_round missing_click_round done_round scripted_oracle_def c
        max_failures_def ret_def)
  show ?thesis
    unfolding execute_command_iteratively_def all_steps
    by (simp add: try_catch_def bind_def connect_if_needed_def c loop of_sum_def st
        ret_def del: run_loop.simps One_nat_def)
qed


text \<open>
  Twelve successful steps and then three clicks on a missing element, none of them
  recovered: rounds 12, 13 and 14 have an unrecovered failure, and the run makes
  all \<open>max_steps\<close> iterations, not fewer.
\<close>

theorem late_failures_counterexample:
  "fst (execute_command_iteratively late_failing_env ''wait'' init_st)
     = Inr \<lparr>run_status = PStr ''error'', run_message = None,
            steps_completed = Some 15, total_steps = Some 15,
            run_results = Some (replicate 12 (success ''Waited 0 seconds'')
                                @ replicate 3 (error ''Element not found: #missing''))\<rparr>
   \<and> iterations (trace (snd (execute_command_iteratively late_failing_env ''wait'' init_st)))
       = [0..<15]
   \<and> map unrecovered
         (rounds (trace (snd (execute_command_iteratively late_failing_env ''wait'' init_st))))
       = replicate 12 False @ [True, True, True]
   \<and> \<not> length (iterations
                  (trace (snd (execute_command_iteratively late_failing_env ''wait'' init_st))))
          < max_steps"
proof -
  have a: "fst (execute_command_iteratively late_failing_env ''wait'' init_st)
     = Inr \<lparr>run_status = PStr ''error'', run_message = None,
            steps_completed = Some 15, total_steps = Some 15,
            run_results = Some (replicate 12 (success ''Waited 0 seconds'')
                                @ replicate 3 (error ''Element not found: #missing''))\<rparr>"
    by (simp only: late_run fst_conv)
  have b: "iterations (trace (snd (execute_command_iteratively late_failing_env ''wait'' init_st)))
       = [0..<15]"
    by (simp add: late_run upt_rec)
  have c: "map unrecovered
         (rounds (trace (snd (execute_command_iteratively late_failing_env ''wait'' init_st))))
       = replicate 12 False @ [True, True, True]"
    by (simp add: late_run rounds_def unrecovered_def error_def success_def outcome_def
        numeral_eq_Suc)
  from b have d: "\<not> length (iterations
                  (trace (snd (execute_command_iteratively late_failing_env ''wait'' init_st))))
          < max_steps"
    by (simp add: max_steps_def)
  from a b c d show ?thesis by blast
qed

section \<open>The final status of a session\<close>

text \<open>
  Claim C1. The final status is not success whenever some recorded Outcome was the
  \<open>complete\<close> action: the Outcome the loop records for \<open>complete\<close> has the keys
  \<open>status\<close> and \<open>message\<close> and no key \<open>action\<close>, so the test
  \<open>r.get("action") == "complete"\<close> holds for none, and the status is success only
  if every recorded Outcome succeeded. Here the oracle proposes a click on a
  missing element, which fails and is not recovered, then a wait, then
  \<open>complete\<close> at step 3: the loop halts at step 3 with \<open>steps_completed = 3\<close>, and
  the overall status is error.
\<close>

theorem complete_after_failure_reports_error:
  "fst (execute_command_iteratively scripted_env ''open the new page'' init_st)
     = Inr \<lparr>run_status = PStr ''error'', run_message = None,
            steps_completed = Some 3, total_steps = Some 3,
            run_results =
              Some [error ''Element not found: #missing'',
                    success ''Waited 0 seconds'',
                    [(''status'', PStr ''success''),
                     (''message'', PStr ''Done, redirected to example.com/new'')]]\<rparr>"
  by (simp only: scripted_run fst_conv)

end
